theory Spec2Isabelle
  imports Main "HOL-Library.Sublist"
begin

section \<open>Data model\<close>

text \<open>
  Go strings and byte slices are both sequences of bytes; \<open>string(b)\<close> and
  \<open>[]byte(s)\<close> copy the bytes unchanged, so one type serves for both. A Go
  \<open>error\<close> is identified with the text its \<open>Error()\<close> method returns, which is
  all that \<open>fmt.Errorf("...: %v", err)\<close> reads of it.
\<close>

type_synonym bytes = string
type_synonym error = string

record rsa_PrivateKey =
  N :: int
  E :: int
  D :: int
  Primes :: "int list"

record pkix_Name =
  CommonName :: string

record x509_CertificateRequest =
  Subject :: pkix_Name
  DNSNames :: "string list"

record pem_Block =
  Block_Type :: string
  Block_Bytes :: bytes

record acme_Client =
  Key :: rsa_PrivateKey
  DirectoryURL :: string

record acme_Challenge =
  Challenge_Type :: string
  Token :: string

record acme_Authorization =
  URI :: string
  Status :: string
  Challenges :: "acme_Challenge list"

record memcache_Item =
  Item_Key :: string
  Item_Value :: bytes

text \<open>
  \<open>memcache.Get\<close> returns the sentinel \<open>memcache.ErrCacheMiss\<close> or some other
  error; the handler compares the error value with the sentinel, not its text.
\<close>

datatype memcache_error = ErrCacheMiss | ErrOther error

record api_SslSettings =
  CertificateId :: string

record api_DomainMapping =
  Mapping_Id :: string
  SslSettings :: "api_SslSettings option"

record api_CertificateRawData =
  PrivateKey :: string
  PublicCertificate :: string

record api_AuthorizedCertificate =
  CertificateRawData :: "api_CertificateRawData option"
  DisplayName :: string
  DomainNames :: "string list"
  ExpireTime :: string
  Cert_Id :: string

record http_Response =
  statusCode :: nat
  body :: string

section \<open>Calls that leave the program\<close>

text \<open>
  Every call into a library that reaches outside the process is recorded, with its
  arguments and with what it returned, in the order the program makes it.
\<close>

datatype event =
    Ev_GenerateKey nat "error + rsa_PrivateKey"
  | Ev_CreateCertificateRequest x509_CertificateRequest rsa_PrivateKey "error + bytes"
  | Ev_Register acme_Client "error option"
  | Ev_Authorize acme_Client string "error + acme_Authorization"
  | Ev_MemcacheSet memcache_Item "error option"
  | Ev_MemcacheGet string "memcache_error + memcache_Item"
  | Ev_Accept acme_Client acme_Challenge "error option"
  | Ev_WaitAuthorization acme_Client string "error option"
  | Ev_CreateCert acme_Client bytes int bool "error + bytes list"
  | Ev_DefaultClient "error option"
  | Ev_ApiNew "error option"
  | Ev_DomainMappingsList string "error + api_DomainMapping list"
  | Ev_CertificatesCreate string api_AuthorizedCertificate "error + api_AuthorizedCertificate"
  | Ev_DomainMappingsPatch string string api_DomainMapping string "error option"
  | Ev_CertificatesList string "error + api_AuthorizedCertificate list"
  | Ev_CertificatesPatch string string api_AuthorizedCertificate string "error option"
  | Ev_Now int
  | Ev_ServiceAccount "error + string"

text \<open>The lines \<open>createUpdate\<close> prints to the response, one constructor per format string.\<close>

datatype logline =
    Log_FoundDomains nat
  | Log_HasCertificate string
  | Log_NoCertificate string
  | Log_FoundCertificates nat
  | Log_NothingToDo string int
  | Log_Updating string int
  | Log_Blank

text \<open>
  The state threaded through the program: the outside world (of any type \<open>'w\<close>), the
  calls made so far and the lines printed so far.
\<close>

record 'w state =
  world :: 'w
  trace :: "event list"
  printed :: "logline list"

text \<open>
  The libraries the program calls (crypto, the ACME client, memcache, the App Engine admin
  API, the clock) are parameters: each operation reads the world and returns its result
  with the new world. Operations that only compute (PEM and PKCS#1 encoding, the challenge
  response and path, parsing a time) are functions. A time is an instant in nanoseconds.
\<close>

record 'w env =
  rsa_GenerateKey :: "nat \<Rightarrow> 'w \<Rightarrow> (error + rsa_PrivateKey) \<times> 'w"
  x509_CreateCertificateRequest ::
    "x509_CertificateRequest \<Rightarrow> rsa_PrivateKey \<Rightarrow> 'w \<Rightarrow> (error + bytes) \<times> 'w"
  x509_MarshalPKCS1PrivateKey :: "rsa_PrivateKey \<Rightarrow> bytes"
  pem_EncodeToMemory :: "pem_Block \<Rightarrow> bytes"
  acme_LetsEncryptURL :: string
  acme_StatusValid :: string
  acme_Register :: "acme_Client \<Rightarrow> 'w \<Rightarrow> error option \<times> 'w"
  acme_Authorize :: "acme_Client \<Rightarrow> string \<Rightarrow> 'w \<Rightarrow> (error + acme_Authorization) \<times> 'w"
  acme_HTTP01ChallengeResponse :: "acme_Client \<Rightarrow> string \<Rightarrow> error + string"
  acme_HTTP01ChallengePath :: "acme_Client \<Rightarrow> string \<Rightarrow> string"
  acme_Accept :: "acme_Client \<Rightarrow> acme_Challenge \<Rightarrow> 'w \<Rightarrow> error option \<times> 'w"
  acme_WaitAuthorization :: "acme_Client \<Rightarrow> string \<Rightarrow> 'w \<Rightarrow> error option \<times> 'w"
  acme_CreateCert ::
    "acme_Client \<Rightarrow> bytes \<Rightarrow> int \<Rightarrow> bool \<Rightarrow> 'w \<Rightarrow> (error + bytes list) \<times> 'w"
  memcache_Set :: "memcache_Item \<Rightarrow> 'w \<Rightarrow> error option \<times> 'w"
  memcache_Get :: "string \<Rightarrow> 'w \<Rightarrow> (memcache_error + memcache_Item) \<times> 'w"
  appengine_AppID :: string
  appengine_ServiceAccount :: "'w \<Rightarrow> (error + string) \<times> 'w"
  google_DefaultClient :: "'w \<Rightarrow> error option \<times> 'w"
  api_New :: "'w \<Rightarrow> error option \<times> 'w"
  DomainMappings_List :: "string \<Rightarrow> 'w \<Rightarrow> (error + api_DomainMapping list) \<times> 'w"
  DomainMappings_Patch ::
    "string \<Rightarrow> string \<Rightarrow> api_DomainMapping \<Rightarrow> string \<Rightarrow> 'w \<Rightarrow> error option \<times> 'w"
  AuthorizedCertificates_List ::
    "string \<Rightarrow> 'w \<Rightarrow> (error + api_AuthorizedCertificate list) \<times> 'w"
  AuthorizedCertificates_Create ::
    "string \<Rightarrow> api_AuthorizedCertificate \<Rightarrow> 'w \<Rightarrow> (error + api_AuthorizedCertificate) \<times> 'w"
  AuthorizedCertificates_Patch ::
    "string \<Rightarrow> string \<Rightarrow> api_AuthorizedCertificate \<Rightarrow> string \<Rightarrow> 'w \<Rightarrow> error option \<times> 'w"
  time_Now :: "'w \<Rightarrow> int \<times> 'w"
  time_Parse_RFC3339 :: "string \<Rightarrow> error + int"

text \<open>
  A call: the operation \<open>f\<close> runs on the world, and the event built from its result
  is appended to the trace.
\<close>

definition call :: "('a \<Rightarrow> event) \<Rightarrow> ('w \<Rightarrow> 'a \<times> 'w) \<Rightarrow> 'w state \<Rightarrow> 'a \<times> 'w state" where
  "call ev f s =
     (case f (world s) of (r, w') \<Rightarrow> (r, s\<lparr>world := w', trace := trace s @ [ev r]\<rparr>))"

definition Fprintf :: "logline \<Rightarrow> 'w state \<Rightarrow> 'w state" where
  "Fprintf l s = s\<lparr>printed := printed s @ [l]\<rparr>"

section \<open>acme.go\<close>

subsection \<open>challengeHandler\<close>

definition http_Error :: "string \<Rightarrow> nat \<Rightarrow> http_Response" where
  "http_Error msg code = \<lparr>statusCode = code, body = msg @ [CHR 0x0A]\<rparr>"

definition http_NotFound :: http_Response where
  "http_NotFound = http_Error ''404 page not found'' 404"

definition StatusInternalServerError :: nat where
  "StatusInternalServerError = 500"

definition StatusOK :: nat where
  "StatusOK = 200"

definition challengeHandler :: "'w env \<Rightarrow> string \<Rightarrow> 'w state \<Rightarrow> http_Response \<times> 'w state" where
  "challengeHandler env path s =
     (case call (Ev_MemcacheGet path) (memcache_Get env path) s of
        (Inr item, s1) \<Rightarrow> (\<lparr>statusCode = StatusOK, body = Item_Value item\<rparr>, s1)
      | (Inl ErrCacheMiss, s1) \<Rightarrow> (http_NotFound, s1)
      | (Inl (ErrOther err), s1) \<Rightarrow>
          (http_Error (''memcache get: '' @ err) StatusInternalServerError, s1))"

subsection \<open>authorize\<close>

text \<open>The loop over the offered challenges: the first one of type http-01, if any.\<close>

fun findHTTP01 :: "acme_Challenge list \<Rightarrow> acme_Challenge option" where
  "findHTTP01 [] = None"
| "findHTTP01 (c # cs) = (if Challenge_Type c = ''http-01'' then Some c else findHTTP01 cs)"

definition authorize :: "'w env \<Rightarrow> acme_Client \<Rightarrow> string \<Rightarrow> 'w state \<Rightarrow> error option \<times> 'w state" where
  "authorize env client domain s =
     (case call (Ev_Authorize client domain) (acme_Authorize env client domain) s of
        (Inl err, s1) \<Rightarrow> (Some (''authorize: '' @ err), s1)
      | (Inr authorization, s1) \<Rightarrow>
          if Status authorization = acme_StatusValid env then (None, s1)
          else
            (case findHTTP01 (Challenges authorization) of
               None \<Rightarrow> (Some ''no http-01 challenge offered'', s1)
             | Some challenge \<Rightarrow>
                 (case acme_HTTP01ChallengeResponse env client (Token challenge) of
                    Inl err \<Rightarrow> (Some (''challenge response: '' @ err), s1)
                  | Inr response \<Rightarrow>
                      (let item = \<lparr>Item_Key = acme_HTTP01ChallengePath env client (Token challenge),
                                   Item_Value = response\<rparr> in
                       case call (Ev_MemcacheSet item) (memcache_Set env item) s1 of
                         (Some err, s2) \<Rightarrow> (Some (''memcache set: '' @ err), s2)
                       | (None, s2) \<Rightarrow>
                           (case call (Ev_Accept client challenge)
                                   (acme_Accept env client challenge) s2 of
                              (Some err, s3) \<Rightarrow> (Some (''accept challenge: '' @ err), s3)
                            | (None, s3) \<Rightarrow>
                                (case call (Ev_WaitAuthorization client (URI authorization))
                                        (acme_WaitAuthorization env client (URI authorization)) s3 of
                                   (Some err, s4) \<Rightarrow> (Some (''authorization: '' @ err), s4)
                                 | (None, s4) \<Rightarrow> (None, s4)))))))"

subsection \<open>obtainCert\<close>

text \<open>\<open>time.Hour\<close> in nanoseconds, the unit of \<open>time.Duration\<close>.\<close>

definition time_Hour :: int where
  "time_Hour = 3600 * 1000000000"

definition expiry :: int where
  "expiry = 90 * 24 * time_Hour"

text \<open>The constant \<open>bundle\<close> of \<open>obtainCert\<close> (\<open>bundle\<close> is a reserved word here).\<close>

definition bundle_chain :: bool where
  "bundle_chain = True"

text \<open>
  The loop over the DER certificates of the chain: each is PEM encoded as a CERTIFICATE
  block and appended to \<open>certPEM\<close>.
\<close>

fun encodeChain :: "'w env \<Rightarrow> bytes list \<Rightarrow> bytes \<Rightarrow> bytes" where
  "encodeChain env [] certPEM = certPEM"
| "encodeChain env (b # certDER) certPEM =
     encodeChain env certDER
       (certPEM @ pem_EncodeToMemory env \<lparr>Block_Type = ''CERTIFICATE'', Block_Bytes = b\<rparr>)"

definition obtainCert ::
  "'w env \<Rightarrow> string \<Rightarrow> 'w state \<Rightarrow> (string \<times> string \<times> error option) \<times> 'w state" where
  "obtainCert env domain s =
     (case call (Ev_GenerateKey 2048) (rsa_GenerateKey env 2048) s of
        (Inl err, s1) \<Rightarrow> (('''', '''', Some (''cert key: '' @ err)), s1)
      | (Inr certKey, s1) \<Rightarrow>
          (let req = \<lparr>Subject = \<lparr>CommonName = domain\<rparr>, DNSNames = []\<rparr>;
               req = req\<lparr>DNSNames := [domain]\<rparr> in
           case call (Ev_CreateCertificateRequest req certKey)
                  (x509_CreateCertificateRequest env req certKey) s1 of
             (Inl err, s2) \<Rightarrow> (('''', '''', Some (''csr: '' @ err)), s2)
           | (Inr csr, s2) \<Rightarrow>
               (case call (Ev_GenerateKey 2048) (rsa_GenerateKey env 2048) s2 of
                  (Inl err, s3) \<Rightarrow> (('''', '''', Some (''account key: '' @ err)), s3)
                | (Inr accountKey, s3) \<Rightarrow>
                    (let client = \<lparr>Key = accountKey, DirectoryURL = acme_LetsEncryptURL env\<rparr> in
                     case call (Ev_Register client) (acme_Register env client) s3 of
                       (Some err, s4) \<Rightarrow> (('''', '''', Some (''register: '' @ err)), s4)
                     | (None, s4) \<Rightarrow>
                         (case authorize env client domain s4 of
                            (Some err, s5) \<Rightarrow> (('''', '''', Some err), s5)
                          | (None, s5) \<Rightarrow>
                              (case call (Ev_CreateCert client csr expiry bundle_chain)
                                      (acme_CreateCert env client csr expiry bundle_chain) s5 of
                                 (Inl err, s6) \<Rightarrow>
                                   (('''', '''', Some (''create cert: '' @ err)), s6)
                               | (Inr certDER, s6) \<Rightarrow>
                                   (let certPEM = encodeChain env certDER [];
                                        certKeyPEM = pem_EncodeToMemory env
                                          \<lparr>Block_Type = ''RSA PRIVATE KEY'',
                                           Block_Bytes = x509_MarshalPKCS1PrivateKey env certKey\<rparr>
                                    in ((certPEM, certKeyPEM, None), s6))))))))"

section \<open>cron.go\<close>

text \<open>
  How a loop body or a function ends: it falls through to the next iteration (\<open>Next\<close>,
  also what \<open>continue\<close> does), returns an error value (\<open>Return\<close>; \<open>None\<close> is
  Go's \<open>nil\<close>), or panics.
\<close>

datatype flow = Next | Return "error option" | Panic string

text \<open>\<open>for _, x := range xs { step }\<close>: the loop stops at the first return or panic.\<close>

fun forRange :: "('a \<Rightarrow> 's \<Rightarrow> flow \<times> 's) \<Rightarrow> 'a list \<Rightarrow> 's \<Rightarrow> flow \<times> 's" where
  "forRange step [] s = (Next, s)"
| "forRange step (x # xs) s =
     (case step x s of
        (Next, s') \<Rightarrow> forRange step xs s'
      | (r, s') \<Rightarrow> (r, s'))"

definition updateBefore :: int where
  "updateBefore = 30 * 24 * time_Hour"

subsection \<open>addTip\<close>

fun strings_Contains :: "string \<Rightarrow> string \<Rightarrow> bool" where
  "strings_Contains [] substr = (substr = [])"
| "strings_Contains (c # s) substr = (prefix substr (c # s) \<or> strings_Contains s substr)"

definition addTip :: "'w env \<Rightarrow> error \<Rightarrow> 'w state \<Rightarrow> error \<times> 'w state" where
  "addTip env err s =
     (let appID = appengine_AppID env in
      case call Ev_ServiceAccount (appengine_ServiceAccount env) s of
        (r, s1) \<Rightarrow>
          (let serviceAccount = (case r of Inl errz \<Rightarrow> ''n/a'' | Inr a \<Rightarrow> a) in
           if strings_Contains err ''Quota configuration not found''
              \<or> strings_Contains err ''Google App Engine Admin API has not been used''
           then (err @ [CHR 0x0A] @ ''Tip: enable Google App Engine Admin API on ''
                   @ ''https://console.cloud.google.com/apis/api/appengine.googleapis.com/overview?project=''
                   @ appID, s1)
           else if strings_Contains err ''Operation not allowed, forbidden''
           then (err @ [CHR 0x0A] @ ''Tip: add AppEngine default service account (''
                   @ serviceAccount @ '') to role App Engine Admin ''
                   @ ''https://console.cloud.google.com/iam-admin/iam/project?project=''
                   @ appID, s1)
           else if strings_Contains err ''Caller is not authorized to administer this certificate''
           then (err @ [CHR 0x0A] @ ''Tip: add AppEngine default service account (''
                   @ serviceAccount @ '') as verified owner for the domain''
                   @ ''https://www.google.com/webmasters/verification/details'', s1)
           else (err, s1)))"

subsection \<open>createUpdate\<close>

text \<open>
  The body of the first loop, over the domain mappings. The fields a Go composite literal
  leaves out are the zero values.
\<close>

definition domainBody :: "'w env \<Rightarrow> string \<Rightarrow> api_DomainMapping \<Rightarrow> 'w state \<Rightarrow> flow \<times> 'w state" where
  "domainBody env appID e s =
     (let domain = Mapping_Id e in
      if SslSettings e \<noteq> None then (Next, Fprintf (Log_HasCertificate domain) s)
      else
        (case obtainCert env domain (Fprintf (Log_NoCertificate domain) s) of
           ((cert, key, Some err), s1) \<Rightarrow>
             (Return (Some (''obtain cert for '' @ domain @ '': '' @ err)), s1)
         | ((cert, key, None), s1) \<Rightarrow>
             (let new = \<lparr>CertificateRawData =
                           Some \<lparr>PrivateKey = key, PublicCertificate = cert\<rparr>,
                         DisplayName = domain, DomainNames = [], ExpireTime = [],
                         Cert_Id = []\<rparr> in
              case call (Ev_CertificatesCreate appID new)
                     (AuthorizedCertificates_Create env appID new) s1 of
                (Inl err, s2) \<Rightarrow>
                  (case addTip env (''create cert for '' @ domain @ '': '' @ err) s2 of
                     (err', s3) \<Rightarrow> (Return (Some err'), s3))
              | (Inr created, s2) \<Rightarrow>
                  (let m = \<lparr>Mapping_Id = [],
                            SslSettings = Some \<lparr>CertificateId = Cert_Id created\<rparr>\<rparr> in
                   case call (Ev_DomainMappingsPatch appID domain m ''ssl_settings.certificate_id'')
                          (DomainMappings_Patch env appID domain m ''ssl_settings.certificate_id'')
                          s2 of
                     (Some err, s3) \<Rightarrow>
                       (case addTip env (''update mapping for '' @ domain @ '': '' @ err) s3 of
                          (err', s4) \<Rightarrow> (Return (Some err'), s4))
                   | (None, s3) \<Rightarrow> (Next, s3)))))"

text \<open>
  The body of the second loop, over the certificates. \<open>c.DomainNames[0]\<close> is read
  first; Go panics on an index out of range.
\<close>

definition certBody ::
  "'w env \<Rightarrow> string \<Rightarrow> api_AuthorizedCertificate \<Rightarrow> 'w state \<Rightarrow> flow \<times> 'w state" where
  "certBody env appID c s =
     (case DomainNames c of
        [] \<Rightarrow> (Panic ''runtime error: index out of range'', s)
      | domain # _ \<Rightarrow>
          (case time_Parse_RFC3339 env (ExpireTime c) of
             Inl err \<Rightarrow> (Return (Some (''invalid expiry for '' @ domain @ '': '' @ err)), s)
           | Inr expire \<Rightarrow>
               (case call Ev_Now (time_Now env) s of
                  (now, s1) \<Rightarrow>
                    if now + updateBefore < expire
                    then (Next, Fprintf (Log_NothingToDo domain expire) s1)
                    else
                      (case obtainCert env domain (Fprintf (Log_Updating domain expire) s1) of
                         ((cert, key, Some err), s2) \<Rightarrow>
                           (Return (Some (''obtain cert for '' @ domain @ '': '' @ err)), s2)
                       | ((cert, key, None), s2) \<Rightarrow>
                           (let upd = \<lparr>CertificateRawData =
                                         Some \<lparr>PrivateKey = key, PublicCertificate = cert\<rparr>,
                                       DisplayName = [], DomainNames = [], ExpireTime = [],
                                       Cert_Id = []\<rparr> in
                            case call (Ev_CertificatesPatch appID (Cert_Id c) upd
                                         ''certificate_raw_data'')
                                   (AuthorizedCertificates_Patch env appID (Cert_Id c) upd
                                      ''certificate_raw_data'') s2 of
                              (Some err, s3) \<Rightarrow>
                                (case addTip env (''update cert for '' @ domain @ '': '' @ err) s3 of
                                   (err', s4) \<Rightarrow> (Return (Some err'), s4))
                            | (None, s3) \<Rightarrow> (Next, s3))))))"

definition createUpdate :: "'w env \<Rightarrow> 'w state \<Rightarrow> flow \<times> 'w state" where
  "createUpdate env s =
     (let appID = appengine_AppID env in
      case call Ev_DefaultClient (google_DefaultClient env) s of
        (Some err, s1) \<Rightarrow> (Return (Some (''default client: '' @ err)), s1)
      | (None, s1) \<Rightarrow>
      (case call Ev_ApiNew (api_New env) s1 of
        (Some err, s2) \<Rightarrow> (Return (Some (''api client: '' @ err)), s2)
      | (None, s2) \<Rightarrow>
      (case call (Ev_DomainMappingsList appID) (DomainMappings_List env appID) s2 of
        (Inl err, s3) \<Rightarrow>
          (case addTip env (''list domains: '' @ err) s3 of
             (err', s4) \<Rightarrow> (Return (Some err'), s4))
      | (Inr dm, s3) \<Rightarrow>
      (case forRange (domainBody env appID) dm (Fprintf (Log_FoundDomains (length dm)) s3) of
        (Next, s4) \<Rightarrow>
          (case call (Ev_CertificatesList appID) (AuthorizedCertificates_List env appID)
                  (Fprintf Log_Blank s4) of
             (Inl err, s5) \<Rightarrow>
               (case addTip env (''list certificates: '' @ err) s5 of
                  (err', s6) \<Rightarrow> (Return (Some err'), s6))
           | (Inr ac, s5) \<Rightarrow>
               (case forRange (certBody env appID) ac
                       (Fprintf (Log_FoundCertificates (length ac)) s5) of
                  (Next, s6) \<Rightarrow> (Return None, Fprintf Log_Blank s6)
                | (r, s6) \<Rightarrow> (r, s6)))
      | (r, s4) \<Rightarrow> (r, s4)))))"

text \<open>The request and the client that \<open>obtainCert\<close> builds.\<close>

abbreviation requestFor :: "string \<Rightarrow> x509_CertificateRequest" where
  "requestFor domain \<equiv> \<lparr>Subject = \<lparr>CommonName = domain\<rparr>, DNSNames = [domain]\<rparr>"

abbreviation clientWith :: "'w env \<Rightarrow> rsa_PrivateKey \<Rightarrow> acme_Client" where
  "clientWith env accountKey \<equiv> \<lparr>Key = accountKey, DirectoryURL = acme_LetsEncryptURL env\<rparr>"

text \<open>
  A certificate is due in a trace when its expiry parses and some reading of the clock in
  the trace is not more than 30 days (2592000000000000 ns, \<open>updateBefore\<close>) before it.
\<close>

abbreviation dueIn :: "'w env \<Rightarrow> api_AuthorizedCertificate \<Rightarrow> event list \<Rightarrow> bool" where
  "dueIn env c tr \<equiv>
     \<exists>now expire. time_Parse_RFC3339 env (ExpireTime c) = Inr expire \<and> Ev_Now now \<in> set tr
                  \<and> \<not> now + 2592000000000000 < expire"

section \<open>Decoding what obtainCert encodes\<close>

text \<open>
  Reading \<open>n\<close> PEM blocks off the front of a text with a block decoder \<open>dec\<close>, which
  returns the first block and the rest of the text (as \<open>pem.Decode\<close> does).
\<close>

fun decodeBlocks ::
  "(bytes \<Rightarrow> (pem_Block \<times> bytes) option) \<Rightarrow> nat \<Rightarrow> bytes \<Rightarrow> (pem_Block list \<times> bytes) option" where
  "decodeBlocks dec 0 data = Some ([], data)"
| "decodeBlocks dec (Suc n) data =
     (case dec data of
        None \<Rightarrow> None
      | Some (b, rest) \<Rightarrow>
          (case decodeBlocks dec n rest of
             None \<Rightarrow> None
           | Some (bs, rest') \<Rightarrow> Some (b # bs, rest')))"

subsection \<open>The encoding of the Go standard library\<close>

text \<open>
  \<open>pem.EncodeToMemory\<close> for a block without headers, as the Go standard library
  (\<open>encoding/pem\<close>, \<open>encoding/base64\<close>) writes it: the BEGIN line, the bytes in
  standard base64 with padding, broken into lines of 64 characters, and the END line.
  It instantiates the \<open>pem_EncodeToMemory\<close> parameter below.
\<close>

definition encodeStd :: string where
  "encodeStd = ''ABCDEFGHIJKLMNOPQRSTUVWXYZabcdefghijklmnopqrstuvwxyz0123456789+/''"

definition sextet :: "nat \<Rightarrow> char" where
  "sextet n = encodeStd ! n"

fun base64_Encode :: "bytes \<Rightarrow> string" where
  "base64_Encode (a # b # c # rest) =
     (let x = (of_char a :: nat); y = (of_char b :: nat); z = (of_char c :: nat) in
      [sextet (x div 4), sextet ((x mod 4) * 16 + y div 16),
       sextet ((y mod 16) * 4 + z div 64), sextet (z mod 64)]) @ base64_Encode rest"
| "base64_Encode [a, b] =
     (let x = (of_char a :: nat); y = (of_char b :: nat) in
      [sextet (x div 4), sextet ((x mod 4) * 16 + y div 16), sextet ((y mod 16) * 4), CHR ''=''])"
| "base64_Encode [a] =
     (let x = (of_char a :: nat) in
      [sextet (x div 4), sextet ((x mod 4) * 16), CHR ''='', CHR ''=''])"
| "base64_Encode [] = []"

definition pemLineLength :: nat where
  "pemLineLength = 64"

function lineBreaker :: "string \<Rightarrow> string" where
  "lineBreaker s =
     (if s = [] then []
      else take pemLineLength s @ [CHR 0x0A] @ lineBreaker (drop pemLineLength s))"
  by pat_completeness auto
termination
  by (relation "measure length") (auto simp: pemLineLength_def)

declare lineBreaker.simps [simp del]

definition pem_Encode :: "pem_Block \<Rightarrow> bytes" where
  "pem_Encode b =
     ''-----BEGIN '' @ Block_Type b @ ''-----'' @ [CHR 0x0A]
     @ lineBreaker (base64_Encode (Block_Bytes b))
     @ ''-----END '' @ Block_Type b @ ''-----'' @ [CHR 0x0A]"

text \<open>A decoder for such blocks: it returns the block and the text after its END line.\<close>

definition unsextet :: "char \<Rightarrow> nat option" where
  "unsextet c = map_of (zip encodeStd [0..<64]) c"

fun base64_Decode :: "string \<Rightarrow> bytes option" where
  "base64_Decode [] = Some []"
| "base64_Decode (p # q # r # t # rest) =
     (case (unsextet p, unsextet q) of
        (Some i, Some j) \<Rightarrow>
          if r = CHR ''='' then
            (if t = CHR ''='' \<and> rest = [] then Some [char_of (i * 4 + j div 16)] else None)
          else
            (case unsextet r of
               None \<Rightarrow> None
             | Some k \<Rightarrow>
                 if t = CHR ''='' then
                   (if rest = []
                    then Some [char_of (i * 4 + j div 16), char_of ((j mod 16) * 16 + k div 4)]
                    else None)
                 else
                   (case unsextet t of
                      None \<Rightarrow> None
                    | Some l \<Rightarrow>
                        map_option
                          (\<lambda>bs. [char_of (i * 4 + j div 16), char_of ((j mod 16) * 16 + k div 4),
                                 char_of ((k mod 4) * 64 + l)] @ bs)
                          (base64_Decode rest)))
      | _ \<Rightarrow> None)"
| "base64_Decode _ = None"

fun stripPrefix :: "string \<Rightarrow> string \<Rightarrow> string option" where
  "stripPrefix [] s = Some s"
| "stripPrefix (p # ps) [] = None"
| "stripPrefix (p # ps) (c # s) = (if p = c then stripPrefix ps s else None)"

definition pem_Decode :: "bytes \<Rightarrow> (pem_Block \<times> bytes) option" where
  "pem_Decode data =
     (case stripPrefix ''-----BEGIN '' data of
        None \<Rightarrow> None
      | Some d1 \<Rightarrow>
          (let typ = takeWhile (\<lambda>c. c \<noteq> CHR ''-'') d1 in
           case stripPrefix (''-----'' @ [CHR 0x0A]) (dropWhile (\<lambda>c. c \<noteq> CHR ''-'') d1) of
             None \<Rightarrow> None
           | Some d2 \<Rightarrow>
               (let b64 = takeWhile (\<lambda>c. c \<noteq> CHR ''-'') d2 in
                case stripPrefix (''-----END '' @ typ @ ''-----'' @ [CHR 0x0A])
                       (dropWhile (\<lambda>c. c \<noteq> CHR ''-'') d2) of
                  None \<Rightarrow> None
                | Some rest \<Rightarrow>
                    (case base64_Decode (filter (\<lambda>c. c \<noteq> CHR 0x0A) b64) of
                       None \<Rightarrow> None
                     | Some bs \<Rightarrow> Some (\<lparr>Block_Type = typ, Block_Bytes = bs\<rparr>, rest)))))"

section \<open>A scripted world\<close>

text \<open>
  A concrete instance of the libraries, on which the theorems below are run: a counter of
  the keys generated, a cache, and a clock. The certificate authority refuses the name
  \<open>bad.example\<close>, reports \<open>valid.example\<close> as already valid, offers only a dns-01
  challenge for \<open>dns.example\<close>, and a dns-01 and an http-01 challenge for any other name.
\<close>

record scripted =
  keysMade :: nat
  cache :: "(string \<times> bytes) list"
  clock :: int

definition scripted_GenerateKey :: "nat \<Rightarrow> scripted \<Rightarrow> (error + rsa_PrivateKey) \<times> scripted" where
  "scripted_GenerateKey bits w =
     (Inr \<lparr>N = 1000 + int (keysMade w), E = 65537, D = 7, Primes = []\<rparr>,
      w\<lparr>keysMade := Suc (keysMade w)\<rparr>)"

definition scripted_Authorize ::
  "acme_Client \<Rightarrow> string \<Rightarrow> scripted \<Rightarrow> (error + acme_Authorization) \<times> scripted" where
  "scripted_Authorize client domain w =
     (if domain = ''bad.example'' then (Inl ''rate limited'', w)
      else if domain = ''valid.example''
      then (Inr \<lparr>URI = ''authz/'' @ domain, Status = ''valid'',
                 Challenges = [\<lparr>Challenge_Type = ''http-01'', Token = ''t0''\<rparr>]\<rparr>, w)
      else if domain = ''dns.example''
      then (Inr \<lparr>URI = ''authz/'' @ domain, Status = ''pending'',
                 Challenges = [\<lparr>Challenge_Type = ''dns-01'', Token = ''t1''\<rparr>]\<rparr>, w)
      else (Inr \<lparr>URI = ''authz/'' @ domain, Status = ''pending'',
                 Challenges = [\<lparr>Challenge_Type = ''dns-01'', Token = ''t1''\<rparr>,
                               \<lparr>Challenge_Type = ''http-01'', Token = ''t2''\<rparr>]\<rparr>, w))"

definition scripted_Set :: "memcache_Item \<Rightarrow> scripted \<Rightarrow> error option \<times> scripted" where
  "scripted_Set item w = (None, w\<lparr>cache := (Item_Key item, Item_Value item) # cache w\<rparr>)"

definition scripted_Get :: "string \<Rightarrow> scripted \<Rightarrow> (memcache_error + memcache_Item) \<times> scripted" where
  "scripted_Get key w =
     (if key = ''/.well-known/acme-challenge/broken'' then (Inl (ErrOther ''server error''), w)
      else
        (case map_of (cache w) key of
           None \<Rightarrow> (Inl ErrCacheMiss, w)
         | Some v \<Rightarrow> (Inr \<lparr>Item_Key = key, Item_Value = v\<rparr>, w)))"

definition scripted_Parse :: "string \<Rightarrow> error + int" where
  "scripted_Parse str =
     (if str = ''2017-07-11T00:00:00Z'' then Inr 1499731200000000000
      else if str = ''2017-09-29T00:00:00Z'' then Inr 1506643200000000000
      else Inl ''cannot parse'')"

definition scripted_Create ::
  "string \<Rightarrow> api_AuthorizedCertificate \<Rightarrow> scripted
   \<Rightarrow> (error + api_AuthorizedCertificate) \<times> scripted" where
  "scripted_Create appID c w = (Inr (c\<lparr>Cert_Id := ''cert-1''\<rparr>), w)"

definition scripted_env ::
  "api_DomainMapping list \<Rightarrow> api_AuthorizedCertificate list \<Rightarrow> scripted env" where
  "scripted_env dms certs =
     \<lparr>rsa_GenerateKey = scripted_GenerateKey,
      x509_CreateCertificateRequest = (\<lambda>req key w. (Inr (''csr:'' @ CommonName (Subject req)), w)),
      x509_MarshalPKCS1PrivateKey = (\<lambda>key. [char_of (N key), char_of (E key), char_of (D key)]),
      pem_EncodeToMemory = pem_Encode,
      acme_LetsEncryptURL = ''https://acme-v01.api.letsencrypt.org/directory'',
      acme_StatusValid = ''valid'',
      acme_Register = (\<lambda>client w. (None, w)),
      acme_Authorize = scripted_Authorize,
      acme_HTTP01ChallengeResponse = (\<lambda>client token. Inr (token @ ''.thumbprint'')),
      acme_HTTP01ChallengePath = (\<lambda>client token. ''/.well-known/acme-challenge/'' @ token),
      acme_Accept = (\<lambda>client challenge w. (None, w)),
      acme_WaitAuthorization = (\<lambda>client uri w. (None, w)),
      acme_CreateCert = (\<lambda>client csr e b w. (Inr [''leaf for '' @ csr, ''issuer''], w)),
      memcache_Set = scripted_Set,
      memcache_Get = scripted_Get,
      appengine_AppID = ''app'',
      appengine_ServiceAccount = (\<lambda>w. (Inr ''app@appspot.gserviceaccount.com'', w)),
      google_DefaultClient = (\<lambda>w. (None, w)),
      api_New = (\<lambda>w. (None, w)),
      DomainMappings_List = (\<lambda>appID w. (Inr dms, w)),
      DomainMappings_Patch = (\<lambda>appID domain m mask w. (None, w)),
      AuthorizedCertificates_List = (\<lambda>appID w. (Inr certs, w)),
      AuthorizedCertificates_Create = scripted_Create,
      AuthorizedCertificates_Patch = (\<lambda>appID certID c mask w. (None, w)),
      time_Now = (\<lambda>w. (clock w, w)),
      time_Parse_RFC3339 = scripted_Parse\<rparr>"

text \<open>The start: nothing generated, nothing cached, the clock at 2017-07-01T00:00:00Z.\<close>

definition start :: "scripted state" where
  "start = \<lparr>world = \<lparr>keysMade = 0, cache = [], clock = 1498867200000000000\<rparr>,
            trace = [], printed = []\<rparr>"

text \<open>A state in which one challenge response is in the cache.\<close>

definition published :: "scripted state" where
  "published =
     \<lparr>world = \<lparr>keysMade = 0,
                cache = [(''/.well-known/acme-challenge/t2'', ''t2.thumbprint'')],
                clock = 1498867200000000000\<rparr>,
      trace = [], printed = []\<rparr>"

section \<open>Lemmas\<close>

subsection \<open>Calls and traces\<close>

lemma call_eq:
  "call ev f s = (r, s') \<longleftrightarrow>
     (\<exists>w'. f (world s) = (r, w') \<and> s' = s\<lparr>world := w', trace := trace s @ [ev r]\<rparr>)"
  by (auto simp: call_def split: prod.splits)

lemma findHTTP01_None: "(findHTTP01 cs = None) = (\<forall>c\<in>set cs. Challenge_Type c \<noteq> ''http-01'')"
  by (induction cs) auto

lemma prefix3_cases:
  "prefix tr [x, y, z] \<Longrightarrow> tr = [] \<or> tr = [x] \<or> tr = [x, y] \<or> tr = [x, y, z]"
  by (auto simp: prefix_Cons prefix_def Cons_eq_append_conv append_eq_Cons_conv)

text \<open>
  The paths through \<open>authorize\<close>, each with the calls it makes.
\<close>

lemma authorize_paths:
  assumes "authorize env client domain s = (r, s')"
  shows
   "(\<exists>err. r = Some (''authorize: '' @ err) \<and>
        trace s' = trace s @ [Ev_Authorize client domain (Inl err)])
    \<or> (\<exists>a. Status a = acme_StatusValid env \<and> r = None \<and>
        trace s' = trace s @ [Ev_Authorize client domain (Inr a)])
    \<or> (\<exists>a. Status a \<noteq> acme_StatusValid env \<and> findHTTP01 (Challenges a) = None \<and>
        r = Some ''no http-01 challenge offered'' \<and>
        trace s' = trace s @ [Ev_Authorize client domain (Inr a)])
    \<or> (\<exists>a c tr item r1 r2 r3.
        Status a \<noteq> acme_StatusValid env \<and> findHTTP01 (Challenges a) = Some c \<and>
        trace s' = trace s @ Ev_Authorize client domain (Inr a) # tr \<and>
        prefix tr [Ev_MemcacheSet item r1, Ev_Accept client c r2,
                   Ev_WaitAuthorization client (URI a) r3])"
proof -
  obtain ra s1 where c1:
    "call (Ev_Authorize client domain) (acme_Authorize env client domain) s = (ra, s1)"
    by force
  have t1: "trace s1 = trace s @ [Ev_Authorize client domain ra]"
    using c1 by (auto simp: call_eq)
  show ?thesis
  proof (cases ra)
    case (Inl err)
    with assms c1 t1 show ?thesis by (simp add: authorize_def)
  next
    case k1: (Inr a)
    show ?thesis
    proof (cases "Status a = acme_StatusValid env")
      case True
      with assms c1 k1 t1 show ?thesis by (simp add: authorize_def)
    next
      case nv: False
      show ?thesis
      proof (cases "findHTTP01 (Challenges a)")
        case None
        with assms c1 k1 nv t1 show ?thesis by (simp add: authorize_def)
      next
        case k2: (Some c)
        let ?item = "\<lparr>Item_Key = acme_HTTP01ChallengePath env client (Token c),
                       Item_Value = (case acme_HTTP01ChallengeResponse env client (Token c) of
                                       Inr v \<Rightarrow> v | Inl e \<Rightarrow> [])\<rparr>"
        have "\<exists>tr r1 r2 r3. trace s' = trace s1 @ tr \<and>
                prefix tr [Ev_MemcacheSet ?item r1, Ev_Accept client c r2,
                   Ev_WaitAuthorization client (URI a) r3]"
        proof (cases "acme_HTTP01ChallengeResponse env client (Token c)")
          case (Inl err)
          with assms c1 k1 nv k2 have "s' = s1" by (simp add: authorize_def)
          then show ?thesis by simp
        next
          case k3: (Inr response)
          obtain r1 s2 where c2: "call (Ev_MemcacheSet ?item) (memcache_Set env ?item) s1 = (r1, s2)"
            by force
          have t2: "trace s2 = trace s1 @ [Ev_MemcacheSet ?item r1]"
            using c2 by (auto simp: call_eq)
          show ?thesis
          proof (cases r1)
            case (Some err)
            with assms c1 k1 nv k2 k3 c2 have "s' = s2" by (simp add: authorize_def)
            with t2 show ?thesis by auto
          next
            case k4: None
            obtain r2 s3 where c3:
              "call (Ev_Accept client c) (acme_Accept env client c) s2 = (r2, s3)"
              by force
            have t3: "trace s3 = trace s2 @ [Ev_Accept client c r2]"
              using c3 by (auto simp: call_eq)
            show ?thesis
            proof (cases r2)
              case (Some err)
              with assms c1 k1 nv k2 k3 c2 k4 c3 have "s' = s3" by (simp add: authorize_def)
              with t2 t3 show ?thesis by auto
            next
              case k5: None
              obtain r3 s4 where c4:
                "call (Ev_WaitAuthorization client (URI a))
                   (acme_WaitAuthorization env client (URI a)) s3 = (r3, s4)"
                by force
              have t4: "trace s4 = trace s3 @ [Ev_WaitAuthorization client (URI a) r3]"
                using c4 by (auto simp: call_eq)
              have "s' = s4"
                using assms c1 k1 nv k2 k3 c2 k4 c3 k5 c4
                by (cases r3) (simp_all add: authorize_def)
              with t2 t3 t4 have "trace s' = trace s1 @ [Ev_MemcacheSet ?item r1,
                  Ev_Accept client c r2, Ev_WaitAuthorization client (URI a) r3]"
                by simp
              then show ?thesis by blast
            qed
          qed
        qed
        with t1 k1 nv k2 show ?thesis by auto
      qed
    qed
  qed
qed

text \<open>
  What \<open>authorize\<close> adds to the trace: the request for the authorization, then at most a
  write to the cache, an acceptance and a poll.
\<close>

lemma authorize_events:
  assumes "authorize env client domain s = (r, s')"
  shows "\<exists>ra tr. trace s' = trace s @ Ev_Authorize client domain ra # tr \<and>
           (\<forall>b x. Ev_GenerateKey b x \<notin> set tr) \<and>
           (\<forall>cl n x. Ev_Authorize cl n x \<notin> set tr)"
proof -
  from authorize_paths [OF assms] consider
    (short) ra where "trace s' = trace s @ Ev_Authorize client domain ra # []"
  | (long) ra tr item r1 c r2 u r3 where
      "trace s' = trace s @ Ev_Authorize client domain ra # tr"
      "prefix tr [Ev_MemcacheSet item r1, Ev_Accept client c r2,
                  Ev_WaitAuthorization client u r3]"
    by blast
  then show ?thesis
  proof cases
    case short
    then show ?thesis by (intro exI [of _ ra] exI [of _ "[]"]) simp
  next
    case long
    from long(2) have "set tr \<subseteq> {Ev_MemcacheSet item r1, Ev_Accept client c r2,
                 Ev_WaitAuthorization client u r3}"
      using set_mono_prefix by fastforce
    then have "(\<forall>b x. Ev_GenerateKey b x \<notin> set tr) \<and> (\<forall>cl n x. Ev_Authorize cl n x \<notin> set tr)"
      by auto
    with long(1) show ?thesis by blast
  qed
qed

lemma authorize_event_set:
  assumes "authorize env client domain s = (r, s')"
  shows "\<exists>ra tr item r1 c r2 u r3.
           trace s' = trace s @ Ev_Authorize client domain ra # tr \<and>
           set tr \<subseteq> {Ev_MemcacheSet item r1, Ev_Accept client c r2,
                      Ev_WaitAuthorization client u r3}"
proof -
  from authorize_paths [OF assms] consider
    (short) ra where "trace s' = trace s @ Ev_Authorize client domain ra # []"
  | (long) ra tr item r1 c r2 u r3 where
      "trace s' = trace s @ Ev_Authorize client domain ra # tr"
      "prefix tr [Ev_MemcacheSet item r1, Ev_Accept client c r2,
                  Ev_WaitAuthorization client u r3]"
    by blast
  then show ?thesis
  proof cases
    case short
    then have "trace s' = trace s @ Ev_Authorize client domain ra # [] \<and>
        set [] \<subseteq> {Ev_MemcacheSet undefined None, Ev_Accept client undefined None,
                      Ev_WaitAuthorization client [] None}"
      by simp
    then show ?thesis by blast
  next
    case long
    from long(2) have "set tr \<subseteq> {Ev_MemcacheSet item r1, Ev_Accept client c r2,
                 Ev_WaitAuthorization client u r3}"
      using set_mono_prefix by fastforce
    with long(1) show ?thesis by blast
  qed
qed

text \<open>
  The paths through \<open>obtainCert\<close>, each with the calls it makes.
\<close>

lemma obtainCert_paths:
  assumes "obtainCert env domain s = (res, s')"
  shows
   "(\<exists>err. res = ([], [], Some (''cert key: '' @ err)) \<and>
        trace s' = trace s @ [Ev_GenerateKey 2048 (Inl err)])
    \<or> (\<exists>certKey err. res = ([], [], Some (''csr: '' @ err)) \<and>
        trace s' = trace s @ [Ev_GenerateKey 2048 (Inr certKey),
          Ev_CreateCertificateRequest (requestFor domain) certKey (Inl err)])
    \<or> (\<exists>certKey csr err. res = ([], [], Some (''account key: '' @ err)) \<and>
        trace s' = trace s @ [Ev_GenerateKey 2048 (Inr certKey),
          Ev_CreateCertificateRequest (requestFor domain) certKey (Inr csr),
          Ev_GenerateKey 2048 (Inl err)])
    \<or> (\<exists>certKey csr accountKey err. res = ([], [], Some (''register: '' @ err)) \<and>
        trace s' = trace s @ [Ev_GenerateKey 2048 (Inr certKey),
          Ev_CreateCertificateRequest (requestFor domain) certKey (Inr csr),
          Ev_GenerateKey 2048 (Inr accountKey),
          Ev_Register (clientWith env accountKey) (Some err)])
    \<or> (\<exists>certKey csr accountKey s4 r5 s5.
        trace s4 = trace s @ [Ev_GenerateKey 2048 (Inr certKey),
          Ev_CreateCertificateRequest (requestFor domain) certKey (Inr csr),
          Ev_GenerateKey 2048 (Inr accountKey),
          Ev_Register (clientWith env accountKey) None] \<and>
        authorize env (clientWith env accountKey) domain s4 = (r5, s5) \<and>
        (case r5 of
           Some err \<Rightarrow> res = ([], [], Some err) \<and> s' = s5
         | None \<Rightarrow>
             (\<exists>r6. trace s' = trace s5 @
                     [Ev_CreateCert (clientWith env accountKey) csr expiry bundle_chain r6] \<and>
                (case r6 of
                   Inl err \<Rightarrow> res = ([], [], Some (''create cert: '' @ err))
                 | Inr certDER \<Rightarrow>
                     res = (encodeChain env certDER [],
                            pem_EncodeToMemory env
                              \<lparr>Block_Type = ''RSA PRIVATE KEY'',
                               Block_Bytes = x509_MarshalPKCS1PrivateKey env certKey\<rparr>,
                            None)))))"
proof -
  let ?req = "requestFor domain"
  obtain r1 s1 where c1: "call (Ev_GenerateKey 2048) (rsa_GenerateKey env 2048) s = (r1, s1)"
    by force
  have t1: "trace s1 = trace s @ [Ev_GenerateKey 2048 r1]"
    using c1 by (auto simp: call_eq)
  show ?thesis
  proof (cases r1)
    case (Inl err)
    with assms c1 t1 show ?thesis by (simp add: obtainCert_def)
  next
    case k1: (Inr certKey)
    obtain r2 s2 where c2: "call (Ev_CreateCertificateRequest ?req certKey)
        (x509_CreateCertificateRequest env ?req certKey) s1 = (r2, s2)"
      by force
    have t2: "trace s2 = trace s1 @ [Ev_CreateCertificateRequest ?req certKey r2]"
      using c2 by (auto simp: call_eq)
    show ?thesis
    proof (cases r2)
      case (Inl err)
      with assms c1 k1 c2 t1 t2 show ?thesis by (simp add: obtainCert_def)
    next
      case k2: (Inr csr)
      obtain r3 s3 where c3: "call (Ev_GenerateKey 2048) (rsa_GenerateKey env 2048) s2 = (r3, s3)"
        by force
      have t3: "trace s3 = trace s2 @ [Ev_GenerateKey 2048 r3]"
        using c3 by (auto simp: call_eq)
      show ?thesis
      proof (cases r3)
        case (Inl err)
        with assms c1 k1 c2 k2 c3 t1 t2 t3 show ?thesis by (simp add: obtainCert_def)
      next
        case k3: (Inr accountKey)
        let ?client = "clientWith env accountKey"
        obtain r4 s4 where c4: "call (Ev_Register ?client) (acme_Register env ?client) s3 = (r4, s4)"
          by force
        have t4: "trace s4 = trace s3 @ [Ev_Register ?client r4]"
          using c4 by (auto simp: call_eq)
        show ?thesis
        proof (cases r4)
          case (Some err)
          with assms c1 k1 c2 k2 c3 k3 c4 t1 t2 t3 t4 show ?thesis by (simp add: obtainCert_def)
        next
          case k4: None
          obtain r5 s5 where c5: "authorize env ?client domain s4 = (r5, s5)"
            by force
          have t4': "trace s4 = trace s @ [Ev_GenerateKey 2048 (Inr certKey),
              Ev_CreateCertificateRequest ?req certKey (Inr csr),
              Ev_GenerateKey 2048 (Inr accountKey), Ev_Register ?client None]"
            using t1 t2 t3 t4 k1 k2 k3 k4 by simp
          have "case r5 of
              Some err \<Rightarrow> res = ([], [], Some err) \<and> s' = s5
            | None \<Rightarrow>
               (\<exists>r6. trace s' = trace s5 @ [Ev_CreateCert ?client csr expiry bundle_chain r6] \<and>
                 (case r6 of
                    Inl err \<Rightarrow> res = ([], [], Some (''create cert: '' @ err))
                  | Inr certDER \<Rightarrow>
                      res = (encodeChain env certDER [],
                             pem_EncodeToMemory env
                               \<lparr>Block_Type = ''RSA PRIVATE KEY'',
                                Block_Bytes = x509_MarshalPKCS1PrivateKey env certKey\<rparr>,
                             None)))"
          proof (cases r5)
            case (Some err)
            with assms c1 k1 c2 k2 c3 k3 c4 k4 c5 show ?thesis by (simp add: obtainCert_def)
          next
            case k5: None
            obtain r6 s6 where c6: "call (Ev_CreateCert ?client csr expiry bundle_chain)
                (acme_CreateCert env ?client csr expiry bundle_chain) s5 = (r6, s6)"
              by force
            have t6: "trace s6 = trace s5 @ [Ev_CreateCert ?client csr expiry bundle_chain r6]"
              using c6 by (auto simp: call_eq)
            have "s' = s6 \<and> (case r6 of
                    Inl err \<Rightarrow> res = ([], [], Some (''create cert: '' @ err))
                  | Inr certDER \<Rightarrow>
                      res = (encodeChain env certDER [],
                             pem_EncodeToMemory env
                               \<lparr>Block_Type = ''RSA PRIVATE KEY'',
                                Block_Bytes = x509_MarshalPKCS1PrivateKey env certKey\<rparr>,
                             None))"
              using assms c1 k1 c2 k2 c3 k3 c4 k4 c5 k5 c6
              by (cases r6) (simp_all add: obtainCert_def)
            with t6 k5 show ?thesis by auto
          qed
          with t4' c5 show ?thesis by blast
        qed
      qed
    qed
  qed
qed

lemma obtainCert_trace_events:
  assumes "obtainCert env domain s = (res, s')"
  shows "\<exists>tr. trace s' = trace s @ tr
     \<and> (\<forall>app ident upd mask x. Ev_CertificatesPatch app ident upd mask x \<notin> set tr)
     \<and> (\<forall>t. Ev_Now t \<notin> set tr)
     \<and> (\<forall>req k x. Ev_CreateCertificateRequest req k x \<in> set tr \<longrightarrow> req = requestFor domain)"
proof -
  from obtainCert_paths [OF assms]
  consider
    (p1) err where "trace s' = trace s @ [Ev_GenerateKey 2048 (Inl err)]"
  | (p2) certKey err where "trace s' = trace s @ [Ev_GenerateKey 2048 (Inr certKey),
          Ev_CreateCertificateRequest (requestFor domain) certKey (Inl err)]"
  | (p3) certKey csr err where "trace s' = trace s @ [Ev_GenerateKey 2048 (Inr certKey),
          Ev_CreateCertificateRequest (requestFor domain) certKey (Inr csr),
          Ev_GenerateKey 2048 (Inl err)]"
  | (p4) certKey csr accountKey err where "trace s' = trace s @ [Ev_GenerateKey 2048 (Inr certKey),
          Ev_CreateCertificateRequest (requestFor domain) certKey (Inr csr),
          Ev_GenerateKey 2048 (Inr accountKey),
          Ev_Register (clientWith env accountKey) (Some err)]"
  | (p5) certKey csr accountKey s4 r5 s5 where
        "trace s4 = trace s @ [Ev_GenerateKey 2048 (Inr certKey),
          Ev_CreateCertificateRequest (requestFor domain) certKey (Inr csr),
          Ev_GenerateKey 2048 (Inr accountKey),
          Ev_Register (clientWith env accountKey) None]"
        "authorize env (clientWith env accountKey) domain s4 = (r5, s5)"
        "s' = s5 \<or> (\<exists>r6. trace s' = trace s5 @
                     [Ev_CreateCert (clientWith env accountKey) csr expiry bundle_chain r6])"
    by (fastforce split: option.splits)
  then show ?thesis
  proof cases
    case p1 then show ?thesis by simp
  next
    case p2 then show ?thesis by simp
  next
    case p3 then show ?thesis by simp
  next
    case p4 then show ?thesis by simp
  next
    case p5
    let ?cl = "clientWith env accountKey"
    from authorize_event_set [OF p5(2)] obtain ra tra item r1 c r2 u r3 where
      a: "trace s5 = trace s4 @ Ev_Authorize ?cl domain ra # tra"
      and n: "set tra \<subseteq> {Ev_MemcacheSet item r1, Ev_Accept ?cl c r2,
                      Ev_WaitAuthorization ?cl u r3}"
      by blast
    from p5(3) obtain rest where
      r: "trace s' = trace s5 @ rest"
      and nr: "rest = [] \<or> (\<exists>r6. rest = [Ev_CreateCert ?cl csr expiry bundle_chain r6])"
      by (cases "s' = s5") auto
    let ?tr = "[Ev_GenerateKey 2048 (Inr certKey),
          Ev_CreateCertificateRequest (requestFor domain) certKey (Inr csr),
          Ev_GenerateKey 2048 (Inr accountKey),
          Ev_Register ?cl None, Ev_Authorize ?cl domain ra] @ tra @ rest"
    have t: "trace s' = trace s @ ?tr"
      using p5(1) a r by simp
    have 1: "\<forall>app ident upd mask x. Ev_CertificatesPatch app ident upd mask x \<notin> set ?tr"
      using n nr by auto
    have 2: "\<forall>t. Ev_Now t \<notin> set ?tr"
      using n nr by auto
    have 3: "\<forall>req k x. Ev_CreateCertificateRequest req k x \<in> set ?tr \<longrightarrow> req = requestFor domain"
      using n nr by auto
    from t 1 2 3 show ?thesis by blast
  qed
qed

lemma obtainCert_success:
  assumes "obtainCert env domain s = ((cert, key, None), s')"
  shows "\<exists>certKey client csr certDER tr.
     trace s' = trace s @ Ev_GenerateKey 2048 (Inr certKey) # tr
                  @ [Ev_CreateCert client csr expiry bundle_chain (Inr certDER)]
     \<and> cert = encodeChain env certDER []
     \<and> key = pem_EncodeToMemory env
               \<lparr>Block_Type = ''RSA PRIVATE KEY'',
                Block_Bytes = x509_MarshalPKCS1PrivateKey env certKey\<rparr>"
proof -
  from obtainCert_paths [OF assms]
  have "\<exists>certKey csr accountKey s4 r5 s5.
    trace s4 = trace s @ [Ev_GenerateKey 2048 (Inr certKey),
          Ev_CreateCertificateRequest (requestFor domain) certKey (Inr csr),
          Ev_GenerateKey 2048 (Inr accountKey),
          Ev_Register (clientWith env accountKey) None]
    \<and> authorize env (clientWith env accountKey) domain s4 = (r5, s5)
    \<and> (case r5 of
           Some err \<Rightarrow> (cert, key, None) = ([], [], Some err) \<and> s' = s5
         | None \<Rightarrow>
             (\<exists>r6. trace s' = trace s5 @
                     [Ev_CreateCert (clientWith env accountKey) csr expiry bundle_chain r6] \<and>
                (case r6 of
                   Inl err \<Rightarrow> (cert, key, None) = ([], [], Some (''create cert: '' @ err))
                 | Inr certDER \<Rightarrow>
                     (cert, key, None :: error option) = (encodeChain env certDER [],
                            pem_EncodeToMemory env
                              \<lparr>Block_Type = ''RSA PRIVATE KEY'',
                               Block_Bytes = x509_MarshalPKCS1PrivateKey env certKey\<rparr>,
                            None))))"
    by (elim disjE) (simp, simp, simp, simp, assumption)
  then obtain certKey csr accountKey s4 r5 s5 where
    t4: "trace s4 = trace s @ [Ev_GenerateKey 2048 (Inr certKey),
          Ev_CreateCertificateRequest (requestFor domain) certKey (Inr csr),
          Ev_GenerateKey 2048 (Inr accountKey),
          Ev_Register (clientWith env accountKey) None]"
    and au: "authorize env (clientWith env accountKey) domain s4 = (r5, s5)"
    and rest: "case r5 of
           Some err \<Rightarrow> (cert, key, None) = ([], [], Some err) \<and> s' = s5
         | None \<Rightarrow>
             (\<exists>r6. trace s' = trace s5 @
                     [Ev_CreateCert (clientWith env accountKey) csr expiry bundle_chain r6] \<and>
                (case r6 of
                   Inl err \<Rightarrow> (cert, key, None) = ([], [], Some (''create cert: '' @ err))
                 | Inr certDER \<Rightarrow>
                     (cert, key, None :: error option) = (encodeChain env certDER [],
                            pem_EncodeToMemory env
                              \<lparr>Block_Type = ''RSA PRIVATE KEY'',
                               Block_Bytes = x509_MarshalPKCS1PrivateKey env certKey\<rparr>,
                            None)))"
    by blast
  from rest have n5: "r5 = None"
    by (cases r5) simp_all
  with rest obtain r6 where
    t6': "trace s' = trace s5 @
           [Ev_CreateCert (clientWith env accountKey) csr expiry bundle_chain r6]"
    and c6: "case r6 of
               Inl err \<Rightarrow> (cert, key, None :: error option) =
                            ([], [], Some (''create cert: '' @ err))
             | Inr certDER \<Rightarrow>
                 (cert, key, None :: error option) = (encodeChain env certDER [],
                    pem_EncodeToMemory env
                      \<lparr>Block_Type = ''RSA PRIVATE KEY'',
                       Block_Bytes = x509_MarshalPKCS1PrivateKey env certKey\<rparr>,
                    None)"
    by auto
  from c6 obtain certDER where r6: "r6 = Inr certDER"
    and c: "cert = encodeChain env certDER []"
    and k: "key = pem_EncodeToMemory env
               \<lparr>Block_Type = ''RSA PRIVATE KEY'',
                Block_Bytes = x509_MarshalPKCS1PrivateKey env certKey\<rparr>"
    by (cases r6) simp_all
  from t6' r6 have
    t6: "trace s' = trace s5 @
           [Ev_CreateCert (clientWith env accountKey) csr expiry bundle_chain (Inr certDER)]"
    by simp
  from authorize_events [OF au] obtain ra tra where
    t5: "trace s5 = trace s4 @ Ev_Authorize (clientWith env accountKey) domain ra # tra"
    by blast
  have "trace s' = trace s @ Ev_GenerateKey 2048 (Inr certKey)
      # ([Ev_CreateCertificateRequest (requestFor domain) certKey (Inr csr),
          Ev_GenerateKey 2048 (Inr accountKey),
          Ev_Register (clientWith env accountKey) None,
          Ev_Authorize (clientWith env accountKey) domain ra] @ tra)
      @ [Ev_CreateCert (clientWith env accountKey) csr expiry bundle_chain (Inr certDER)]"
    using t4 t5 t6 by simp
  with c k show ?thesis by blast
qed

lemma obtainCert_no_http01:
  assumes run: "obtainCert env domain s = (res, s')" and tr: "trace s' = trace s @ tr"
    and ev: "Ev_Authorize cl name (Inr a) \<in> set tr"
    and st: "Status a \<noteq> acme_StatusValid env"
    and no: "findHTTP01 (Challenges a) = None"
  shows "res = ([], [], Some ''no http-01 challenge offered'')
    \<and> last tr = Ev_Authorize cl name (Inr a)
    \<and> (\<forall>item r. Ev_MemcacheSet item r \<notin> set tr)"
proof -
  from obtainCert_paths [OF run] tr ev
  obtain certKey csr accountKey s4 r5 s5 where
    t4: "trace s4 = trace s @ [Ev_GenerateKey 2048 (Inr certKey),
          Ev_CreateCertificateRequest (requestFor domain) certKey (Inr csr),
          Ev_GenerateKey 2048 (Inr accountKey),
          Ev_Register (clientWith env accountKey) None]"
    and au: "authorize env (clientWith env accountKey) domain s4 = (r5, s5)"
    and rest: "case r5 of
           Some err \<Rightarrow> res = ([], [], Some err) \<and> s' = s5
         | None \<Rightarrow>
             (\<exists>r6. trace s' = trace s5 @
                     [Ev_CreateCert (clientWith env accountKey) csr expiry bundle_chain r6])"
    by (elim disjE exE conjE) (auto split: option.splits)
  let ?client = "clientWith env accountKey"
  from authorize_paths [OF au] show ?thesis
  proof (elim disjE exE conjE)
    fix err
    assume "r5 = Some (''authorize: '' @ err)"
      "trace s5 = trace s4 @ [Ev_Authorize ?client domain (Inl err)]"
    with rest t4 tr ev show ?thesis by auto
  next
    fix a'
    assume "Status a' = acme_StatusValid env" "r5 = None"
      "trace s5 = trace s4 @ [Ev_Authorize ?client domain (Inr a')]"
    with rest t4 tr ev st show ?thesis by auto
  next
    fix a'
    assume "findHTTP01 (Challenges a') = None" "r5 = Some ''no http-01 challenge offered''"
      "trace s5 = trace s4 @ [Ev_Authorize ?client domain (Inr a')]"
    with rest t4 tr ev show ?thesis by auto
  next
    fix a' c tr' item r1 r2 r3
    assume f: "findHTTP01 (Challenges a') = Some c"
      and t5: "trace s5 = trace s4 @ Ev_Authorize ?client domain (Inr a') # tr'"
      and pre: "prefix tr' [Ev_MemcacheSet item r1, Ev_Accept ?client c r2,
                   Ev_WaitAuthorization ?client (URI a') r3]"
    from prefix3_cases [OF pre] have n: "\<forall>cl n x. Ev_Authorize cl n x \<notin> set tr'"
      by auto
    have "\<exists>more. tr = [Ev_GenerateKey 2048 (Inr certKey),
          Ev_CreateCertificateRequest (requestFor domain) certKey (Inr csr),
          Ev_GenerateKey 2048 (Inr accountKey),
          Ev_Register (clientWith env accountKey) None, 
          Ev_Authorize ?client domain (Inr a')] @ tr' @ more \<and> (\<forall>cl n x. Ev_Authorize cl n x \<notin> set more)"
      using rest t4 t5 tr by (cases r5) auto
    with ev n have "a = a'" by auto
    with f no show ?thesis by simp
  qed
qed

text \<open>
  The run of \<open>obtainCert\<close> for each outcome of its first four calls, in terms of what
  the libraries return in the world of the call; and that the run depends on that world
  only, not on the calls and lines recorded before it.
\<close>

lemma obtainCert_registered:
  assumes g1: "rsa_GenerateKey env 2048 (world s) = (Inr certKey, w1)"
    and c: "x509_CreateCertificateRequest env (requestFor domain) certKey w1 = (Inr csr, w2)"
    and g2: "rsa_GenerateKey env 2048 w2 = (Inr accountKey, w3)"
    and reg: "acme_Register env (clientWith env accountKey) w3 = (None, w4)"
  shows "obtainCert env domain s =
     (case authorize env (clientWith env accountKey) domain
             (s\<lparr>world := w4,
                trace := trace s @
                  [Ev_GenerateKey 2048 (Inr certKey),
                   Ev_CreateCertificateRequest (requestFor domain) certKey (Inr csr),
                   Ev_GenerateKey 2048 (Inr accountKey),
                   Ev_Register (clientWith env accountKey) None]\<rparr>) of
        (Some err, s5) \<Rightarrow> (([], [], Some err), s5)
      | (None, s5) \<Rightarrow>
          (case acme_CreateCert env (clientWith env accountKey) csr expiry bundle_chain
                  (world s5) of
             (Inl err, w6) \<Rightarrow>
               (([], [], Some (''create cert: '' @ err)),
                s5\<lparr>world := w6,
                   trace := trace s5 @
                     [Ev_CreateCert (clientWith env accountKey) csr expiry bundle_chain
                        (Inl err)]\<rparr>)
           | (Inr certDER, w6) \<Rightarrow>
               ((encodeChain env certDER [],
                 pem_EncodeToMemory env
                   \<lparr>Block_Type = ''RSA PRIVATE KEY'',
                    Block_Bytes = x509_MarshalPKCS1PrivateKey env certKey\<rparr>,
                 None),
                s5\<lparr>world := w6,
                   trace := trace s5 @
                     [Ev_CreateCert (clientWith env accountKey) csr expiry bundle_chain
                        (Inr certDER)]\<rparr>)))"
  using assms
  by (simp add: obtainCert_def call_def Let_def split: prod.splits sum.splits option.splits)

lemma obtainCert_rest_events:
  assumes g1: "rsa_GenerateKey env 2048 (world s) = (Inr certKey, w1)"
    and c: "x509_CreateCertificateRequest env (requestFor domain) certKey w1 = (Inr csr, w2)"
    and g2: "rsa_GenerateKey env 2048 w2 = (Inr accountKey, w3)"
    and reg: "acme_Register env (clientWith env accountKey) w3 = (None, w4)"
  shows "\<exists>rest. trace (snd (obtainCert env domain s)) =
            trace s @ [Ev_GenerateKey 2048 (Inr certKey),
                   Ev_CreateCertificateRequest (requestFor domain) certKey (Inr csr),
                   Ev_GenerateKey 2048 (Inr accountKey),
                   Ev_Register (clientWith env accountKey) None] @ rest
     \<and> (\<forall>b x. Ev_GenerateKey b x \<notin> set rest)
     \<and> (\<forall>req k x. Ev_CreateCertificateRequest req k x \<notin> set rest)
     \<and> (\<forall>cl x. Ev_Register cl x \<notin> set rest)
     \<and> (\<forall>cl n x. Ev_Authorize cl n x \<in> set rest \<longrightarrow> cl = clientWith env accountKey)
     \<and> (\<forall>cl ch x. Ev_Accept cl ch x \<in> set rest \<longrightarrow> cl = clientWith env accountKey)
     \<and> (\<forall>cl u x. Ev_WaitAuthorization cl u x \<in> set rest \<longrightarrow> cl = clientWith env accountKey)
     \<and> (\<forall>cl q e b x. Ev_CreateCert cl q e b x \<in> set rest \<longrightarrow>
            cl = clientWith env accountKey \<and> q = csr)"
proof -
  let ?cl = "clientWith env accountKey"
  let ?s4 = "s\<lparr>world := w4,
                trace := trace s @
                  [Ev_GenerateKey 2048 (Inr certKey),
                   Ev_CreateCertificateRequest (requestFor domain) certKey (Inr csr),
                   Ev_GenerateKey 2048 (Inr accountKey),
                   Ev_Register ?cl None]\<rparr>"
  obtain r5 s5 where au: "authorize env ?cl domain ?s4 = (r5, s5)" by force
  from authorize_event_set [OF au] obtain ra tra item r1 ch r2 u r3 where
    a: "trace s5 = trace ?s4 @ Ev_Authorize ?cl domain ra # tra"
    and n: "set tra \<subseteq> {Ev_MemcacheSet item r1, Ev_Accept ?cl ch r2,
                      Ev_WaitAuthorization ?cl u r3}"
    by blast
  have "\<exists>more. trace (snd (obtainCert env domain s)) = trace s5 @ more
      \<and> (more = [] \<or> (\<exists>r6. more = [Ev_CreateCert ?cl csr expiry bundle_chain r6]))"
    using obtainCert_registered [OF assms] au
    by (auto split: option.splits sum.splits prod.splits)
  then obtain more where
    m: "trace (snd (obtainCert env domain s)) = trace s5 @ more"
    and mm: "more = [] \<or> (\<exists>r6. more = [Ev_CreateCert ?cl csr expiry bundle_chain r6])"
    by blast
  let ?rest = "Ev_Authorize ?cl domain ra # tra @ more"
  have t: "trace (snd (obtainCert env domain s)) =
            trace s @ [Ev_GenerateKey 2048 (Inr certKey),
                   Ev_CreateCertificateRequest (requestFor domain) certKey (Inr csr),
                   Ev_GenerateKey 2048 (Inr accountKey),
                   Ev_Register ?cl None] @ ?rest"
    using m a by simp
  have 1: "\<forall>b x. Ev_GenerateKey b x \<notin> set ?rest" using n mm by auto
  have 2: "\<forall>req k x. Ev_CreateCertificateRequest req k x \<notin> set ?rest" using n mm by auto
  have 3: "\<forall>cl x. Ev_Register cl x \<notin> set ?rest" using n mm by auto
  have 4: "\<forall>cl n x. Ev_Authorize cl n x \<in> set ?rest \<longrightarrow> cl = ?cl" using n mm by auto
  have 5: "\<forall>cl ch x. Ev_Accept cl ch x \<in> set ?rest \<longrightarrow> cl = ?cl" using n mm by auto
  have 6: "\<forall>cl u x. Ev_WaitAuthorization cl u x \<in> set ?rest \<longrightarrow> cl = ?cl" using n mm by auto
  have 7: "\<forall>cl q e b x. Ev_CreateCert cl q e b x \<in> set ?rest \<longrightarrow> cl = ?cl \<and> q = csr"
    using n mm by auto
  from t 1 2 3 4 5 6 7 show ?thesis by blast
qed

lemma obtainCert_no_certKey:
  assumes "rsa_GenerateKey env 2048 (world s) = (Inl err, w1)"
  shows "obtainCert env domain s =
           (([], [], Some (''cert key: '' @ err)),
            s\<lparr>world := w1, trace := trace s @ [Ev_GenerateKey 2048 (Inl err)]\<rparr>)"
  using assms by (simp add: obtainCert_def call_def)

lemma obtainCert_no_csr:
  assumes "rsa_GenerateKey env 2048 (world s) = (Inr certKey, w1)"
    and "x509_CreateCertificateRequest env (requestFor domain) certKey w1 = (Inl err, w2)"
  shows "obtainCert env domain s =
           (([], [], Some (''csr: '' @ err)),
            s\<lparr>world := w2,
              trace := trace s @
                [Ev_GenerateKey 2048 (Inr certKey),
                 Ev_CreateCertificateRequest (requestFor domain) certKey (Inl err)]\<rparr>)"
  using assms by (simp add: obtainCert_def call_def)

lemma obtainCert_no_accountKey:
  assumes "rsa_GenerateKey env 2048 (world s) = (Inr certKey, w1)"
    and "x509_CreateCertificateRequest env (requestFor domain) certKey w1 = (Inr csr, w2)"
    and "rsa_GenerateKey env 2048 w2 = (Inl err, w3)"
  shows "obtainCert env domain s =
           (([], [], Some (''account key: '' @ err)),
            s\<lparr>world := w3,
              trace := trace s @
                [Ev_GenerateKey 2048 (Inr certKey),
                 Ev_CreateCertificateRequest (requestFor domain) certKey (Inr csr),
                 Ev_GenerateKey 2048 (Inl err)]\<rparr>)"
  using assms by (simp add: obtainCert_def call_def)

lemma obtainCert_not_registered:
  assumes "rsa_GenerateKey env 2048 (world s) = (Inr certKey, w1)"
    and "x509_CreateCertificateRequest env (requestFor domain) certKey w1 = (Inr csr, w2)"
    and "rsa_GenerateKey env 2048 w2 = (Inr accountKey, w3)"
    and "acme_Register env (clientWith env accountKey) w3 = (Some err, w4)"
  shows "obtainCert env domain s =
           (([], [], Some (''register: '' @ err)),
            s\<lparr>world := w4,
              trace := trace s @
                [Ev_GenerateKey 2048 (Inr certKey),
                 Ev_CreateCertificateRequest (requestFor domain) certKey (Inr csr),
                 Ev_GenerateKey 2048 (Inr accountKey),
                 Ev_Register (clientWith env accountKey) (Some err)]\<rparr>)"
  using assms by (simp add: obtainCert_def call_def Let_def)

lemma authorize_shift:
  "authorize env client domain (s\<lparr>trace := t @ trace s, printed := p @ printed s\<rparr>) =
     (case authorize env client domain s of
        (r, s') \<Rightarrow> (r, s'\<lparr>trace := t @ trace s', printed := p @ printed s'\<rparr>))"
  by (simp add: authorize_def call_def Let_def split: prod.splits sum.splits option.splits)

lemma obtainCert_shift:
  "obtainCert env domain (s\<lparr>trace := t @ trace s, printed := p @ printed s\<rparr>) =
     (case obtainCert env domain s of
        (res, s') \<Rightarrow> (res, s'\<lparr>trace := t @ trace s', printed := p @ printed s'\<rparr>))"
proof -
  let ?u = "s\<lparr>trace := t @ trace s, printed := p @ printed s\<rparr>"
  have wu: "world ?u = world s" by simp
  obtain r1 w1 where g1: "rsa_GenerateKey env 2048 (world s) = (r1, w1)" by force
  show ?thesis
  proof (cases r1)
    case (Inl err)
    with g1 have a: "rsa_GenerateKey env 2048 (world s) = (Inl err, w1)" by simp
    from a have b: "rsa_GenerateKey env 2048 (world ?u) = (Inl err, w1)" by simp
    show ?thesis
      by (simp add: obtainCert_no_certKey [OF a] obtainCert_no_certKey [OF b])
  next
    case (Inr certKey)
    with g1 have a1: "rsa_GenerateKey env 2048 (world s) = (Inr certKey, w1)" by simp
    then have b1: "rsa_GenerateKey env 2048 (world ?u) = (Inr certKey, w1)" by simp
    obtain r2 w2 where c: "x509_CreateCertificateRequest env (requestFor domain) certKey w1 = (r2, w2)"
      by force
    show ?thesis
    proof (cases r2)
      case (Inl err)
      with c have a2: "x509_CreateCertificateRequest env (requestFor domain) certKey w1 = (Inl err, w2)"
        by simp
      show ?thesis
        by (simp add: obtainCert_no_csr [OF a1 a2] obtainCert_no_csr [OF b1 a2])
    next
      case (Inr csr)
      with c have a2: "x509_CreateCertificateRequest env (requestFor domain) certKey w1 = (Inr csr, w2)"
        by simp
      obtain r3 w3 where g2: "rsa_GenerateKey env 2048 w2 = (r3, w3)" by force
      show ?thesis
      proof (cases r3)
        case (Inl err)
        with g2 have a3: "rsa_GenerateKey env 2048 w2 = (Inl err, w3)" by simp
        show ?thesis
          by (simp add: obtainCert_no_accountKey [OF a1 a2 a3] obtainCert_no_accountKey [OF b1 a2 a3])
      next
        case (Inr accountKey)
        with g2 have a3: "rsa_GenerateKey env 2048 w2 = (Inr accountKey, w3)" by simp
        let ?cl = "clientWith env accountKey"
        obtain r4 w4 where reg: "acme_Register env ?cl w3 = (r4, w4)" by force
        show ?thesis
        proof (cases r4)
          case (Some err)
          with reg have a4: "acme_Register env ?cl w3 = (Some err, w4)" by simp
          show ?thesis
            by (simp add: obtainCert_not_registered [OF a1 a2 a3 a4]
                obtainCert_not_registered [OF b1 a2 a3 a4])
        next
          case None
          with reg have a4: "acme_Register env ?cl w3 = (None, w4)" by simp
          let ?ev = "[Ev_GenerateKey 2048 (Inr certKey),
                   Ev_CreateCertificateRequest (requestFor domain) certKey (Inr csr),
                   Ev_GenerateKey 2048 (Inr accountKey),
                   Ev_Register ?cl None]"
          let ?s4 = "s\<lparr>world := w4, trace := trace s @ ?ev\<rparr>"
          have e: "?u\<lparr>world := w4, trace := trace ?u @ ?ev\<rparr> =
              ?s4\<lparr>trace := t @ trace ?s4, printed := p @ printed ?s4\<rparr>"
            by simp
          obtain r5 s5 where au: "authorize env ?cl domain ?s4 = (r5, s5)" by force
          have au': "authorize env ?cl domain (?u\<lparr>world := w4, trace := trace ?u @ ?ev\<rparr>) =
              (r5, s5\<lparr>trace := t @ trace s5, printed := p @ printed s5\<rparr>)"
            unfolding e authorize_shift au by simp
          show ?thesis
            unfolding obtainCert_registered [OF a1 a2 a3 a4]
              obtainCert_registered [OF b1 a2 a3 a4] au au'
            by (simp split: option.splits sum.splits prod.splits)
        qed
      qed
    qed
  qed
qed

lemma obtainCert_first_call:
  "\<exists>tr. trace (snd (obtainCert env domain s)) =
     trace s @ Ev_GenerateKey 2048 (fst (rsa_GenerateKey env 2048 (world s))) # tr"
proof -
  obtain r1 w1 where g1: "rsa_GenerateKey env 2048 (world s) = (r1, w1)" by force
  show ?thesis
  proof (cases r1)
    case (Inl err)
    with g1 have k: "rsa_GenerateKey env 2048 (world s) = (Inl err, w1)" by simp
    from obtainCert_no_certKey [OF k, of domain] k show ?thesis by simp
  next
    case (Inr certKey)
    with g1 have k: "rsa_GenerateKey env 2048 (world s) = (Inr certKey, w1)" by simp
    obtain r2 w2 where c: "x509_CreateCertificateRequest env (requestFor domain) certKey w1 = (r2, w2)"
      by force
    show ?thesis
    proof (cases r2)
      case (Inl err)
      with c have "x509_CreateCertificateRequest env (requestFor domain) certKey w1 = (Inl err, w2)"
        by simp
      from obtainCert_no_csr [OF k this] k show ?thesis by simp
    next
      case (Inr csr)
      with c have c': "x509_CreateCertificateRequest env (requestFor domain) certKey w1 = (Inr csr, w2)"
        by simp
      obtain r3 w3 where g2: "rsa_GenerateKey env 2048 w2 = (r3, w3)" by force
      show ?thesis
      proof (cases r3)
        case (Inl err)
        with g2 have "rsa_GenerateKey env 2048 w2 = (Inl err, w3)" by simp
        from obtainCert_no_accountKey [OF k c' this] k show ?thesis by simp
      next
        case (Inr accountKey)
        with g2 have g2': "rsa_GenerateKey env 2048 w2 = (Inr accountKey, w3)" by simp
        obtain r4 w4 where reg: "acme_Register env (clientWith env accountKey) w3 = (r4, w4)"
          by force
        show ?thesis
        proof (cases r4)
          case (Some err)
          with reg have "acme_Register env (clientWith env accountKey) w3 = (Some err, w4)" by simp
          from obtainCert_not_registered [OF k c' g2' this] k show ?thesis by simp
        next
          case None
          with reg have "acme_Register env (clientWith env accountKey) w3 = (None, w4)" by simp
          from obtainCert_rest_events [OF k c' g2' this] obtain rest where
            "trace (snd (obtainCert env domain s)) =
               trace s @
                 [Ev_GenerateKey 2048 (Inr certKey),
                  Ev_CreateCertificateRequest (requestFor domain) certKey (Inr csr),
                  Ev_GenerateKey 2048 (Inr accountKey),
                  Ev_Register (clientWith env accountKey) None] @ rest"
            by (elim exE conjE) (rule that)
          with k show ?thesis by simp
        qed
      qed
    qed
  qed
qed

lemma addTip_trace: "\<exists>x. trace (snd (addTip env err s)) = trace s @ [Ev_ServiceAccount x]"
  by (auto simp: addTip_def call_def Let_def split: prod.splits)

subsection \<open>The loops of createUpdate\<close>

lemma certBody_empty_DomainNames:
  "DomainNames c = [] \<Longrightarrow> certBody env appID c s = (Panic ''runtime error: index out of range'', s)"
  by (simp add: certBody_def)

lemma certBody_Next_DomainNames:
  "certBody env appID c s = (Next, s') \<Longrightarrow> DomainNames c \<noteq> []"
  by (auto simp: certBody_def)

lemma forRange_certBody_Next:
  "forRange (certBody env appID) cs s = (Next, s') \<Longrightarrow> \<forall>c\<in>set cs. DomainNames c \<noteq> []"
proof (induction cs arbitrary: s)
  case Nil
  then show ?case by simp
next
  case (Cons c cs)
  obtain r s1 where b: "certBody env appID c s = (r, s1)" by force
  show ?case
  proof (cases r)
    case Next
    with b Cons.prems have "forRange (certBody env appID) cs s1 = (Next, s')" by simp
    with Cons.IH have "\<forall>c\<in>set cs. DomainNames c \<noteq> []" by blast
    moreover from b Next have "DomainNames c \<noteq> []"
      by (simp add: certBody_Next_DomainNames)
    ultimately show ?thesis by simp
  next
    case (Return e)
    with b Cons.prems show ?thesis by simp
  next
    case (Panic m)
    with b Cons.prems show ?thesis by simp
  qed
qed

lemma certBody_not_due:
  assumes "DomainNames c = domain # others"
    and "time_Parse_RFC3339 env (ExpireTime c) = Inr expire"
    and "time_Now env (world s) = (now, w1)"
    and "now + 2592000000000000 < expire"
  shows "certBody env appID c s =
           (Next, s\<lparr>world := w1, trace := trace s @ [Ev_Now now],
                    printed := printed s @ [Log_NothingToDo domain expire]\<rparr>)"
  using assms
  by (simp add: certBody_def call_def Fprintf_def updateBefore_def time_Hour_def)

lemma certBody_due:
  assumes "DomainNames c = domain # others"
    and "time_Parse_RFC3339 env (ExpireTime c) = Inr expire"
    and "time_Now env (world s) = (now, w1)"
    and "\<not> now + 2592000000000000 < expire"
    and "obtainCert env domain
           (s\<lparr>world := w1, trace := trace s @ [Ev_Now now],
              printed := printed s @ [Log_Updating domain expire]\<rparr>) = ((cert, key, r), s2)"
  shows "certBody env appID c s =
     (case r of
        Some err \<Rightarrow> (Return (Some (''obtain cert for '' @ domain @ '': '' @ err)), s2)
      | None \<Rightarrow>
          (case call (Ev_CertificatesPatch appID (Cert_Id c)
                        \<lparr>CertificateRawData = Some \<lparr>PrivateKey = key, PublicCertificate = cert\<rparr>,
                         DisplayName = [], DomainNames = [], ExpireTime = [], Cert_Id = []\<rparr>
                        ''certificate_raw_data'')
                  (AuthorizedCertificates_Patch env appID (Cert_Id c)
                        \<lparr>CertificateRawData = Some \<lparr>PrivateKey = key, PublicCertificate = cert\<rparr>,
                         DisplayName = [], DomainNames = [], ExpireTime = [], Cert_Id = []\<rparr>
                        ''certificate_raw_data'') s2 of
             (Some err, s3) \<Rightarrow>
                (case addTip env (''update cert for '' @ domain @ '': '' @ err) s3 of
                   (err', s4) \<Rightarrow> (Return (Some err'), s4))
           | (None, s3) \<Rightarrow> (Next, s3)))"
  using assms
  by (simp add: certBody_def call_def Fprintf_def updateBefore_def time_Hour_def Let_def
      split: option.splits)

lemma certBody_due_trace:
  assumes "DomainNames c = domain # others"
    and "time_Parse_RFC3339 env (ExpireTime c) = Inr expire"
    and "time_Now env (world s) = (now, w1)"
    and "\<not> now + 2592000000000000 < expire"
  shows "\<exists>tr'. trace (snd (certBody env appID c s)) =
            trace (snd (obtainCert env domain
              (s\<lparr>world := w1, trace := trace s @ [Ev_Now now],
                 printed := printed s @ [Log_Updating domain expire]\<rparr>))) @ tr'"
proof -
  let ?s1 = "s\<lparr>world := w1, trace := trace s @ [Ev_Now now],
                 printed := printed s @ [Log_Updating domain expire]\<rparr>"
  obtain cert key r s2 where o: "obtainCert env domain ?s1 = ((cert, key, r), s2)"
    by (metis prod.exhaust)
  note b = certBody_due [OF assms o, of appID]
  show ?thesis
  proof (cases r)
    case (Some err)
    with b o show ?thesis by simp
  next
    case None
    let ?upd = "\<lparr>CertificateRawData = Some \<lparr>PrivateKey = key, PublicCertificate = cert\<rparr>,
                   DisplayName = [], DomainNames = [], ExpireTime = [], Cert_Id = []\<rparr>"
    obtain r3 s3 where p: "call (Ev_CertificatesPatch appID (Cert_Id c) ?upd ''certificate_raw_data'')
        (AuthorizedCertificates_Patch env appID (Cert_Id c) ?upd ''certificate_raw_data'') s2 = (r3, s3)"
      by force
    then have t3: "trace s3 = trace s2 @
        [Ev_CertificatesPatch appID (Cert_Id c) ?upd ''certificate_raw_data'' r3]"
      by (auto simp: call_eq)
    show ?thesis
    proof (cases r3)
      case None
      with b \<open>r = None\<close> p o t3 show ?thesis by simp
    next
      case (Some err)
      obtain x where "trace (snd (addTip env (''update cert for '' @ domain @ '': '' @ err) s3)) =
          trace s3 @ [Ev_ServiceAccount x]"
        using addTip_trace by blast
      with b \<open>r = None\<close> p o t3 Some show ?thesis
        by (simp split: prod.splits)
    qed
  qed
qed

lemma certBody_events:
  assumes run: "certBody env appID c s = (r, s')"
  shows "\<exists>tr. trace s' = trace s @ tr
     \<and> (\<forall>app ident upd mask x. Ev_CertificatesPatch app ident upd mask x \<in> set tr \<longrightarrow>
            ident = Cert_Id c \<and> dueIn env c tr)
     \<and> (\<forall>req k x. Ev_CreateCertificateRequest req k x \<in> set tr \<longrightarrow>
            DNSNames req = take 1 (DomainNames c) \<and> dueIn env c tr)"
proof (cases "DomainNames c")
  case Nil
  with run have "s' = s" by (simp add: certBody_def)
  then show ?thesis by simp
next
  case dn: (Cons domain others)
  show ?thesis
  proof (cases "time_Parse_RFC3339 env (ExpireTime c)")
    case (Inl err)
    with run dn have "s' = s" by (simp add: certBody_def)
    then show ?thesis by simp
  next
    case parse: (Inr expire)
    obtain now w1 where now: "time_Now env (world s) = (now, w1)" by force
    show ?thesis
    proof (cases "now + 2592000000000000 < expire")
      case True
      from certBody_not_due [OF dn parse now True, of appID] run
      have "trace s' = trace s @ [Ev_Now now]" by auto
      then show ?thesis by simp
    next
      case due: False
      let ?s1 = "s\<lparr>world := w1, trace := trace s @ [Ev_Now now],
                   printed := printed s @ [Log_Updating domain expire]\<rparr>"
      obtain cert key ro s2 where o: "obtainCert env domain ?s1 = ((cert, key, ro), s2)"
        by (metis prod.exhaust)
      from obtainCert_trace_events [OF o] obtain tro where
        t2: "trace s2 = trace ?s1 @ tro"
        and np: "\<forall>app ident upd mask x. Ev_CertificatesPatch app ident upd mask x \<notin> set tro"
        and rq: "\<forall>req k x. Ev_CreateCertificateRequest req k x \<in> set tro \<longrightarrow>
                   req = requestFor domain"
        by blast
      have d: "\<And>more. dueIn env c (Ev_Now now # more)"
        using parse due by auto
      let ?upd = "\<lparr>CertificateRawData = Some \<lparr>PrivateKey = key, PublicCertificate = cert\<rparr>,
                     DisplayName = [], DomainNames = [], ExpireTime = [], Cert_Id = []\<rparr>"
      have "\<exists>more. trace s' = trace s @ Ev_Now now # tro @ more
          \<and> (\<forall>app ident upd mask x. Ev_CertificatesPatch app ident upd mask x \<in> set more \<longrightarrow>
                 ident = Cert_Id c)
          \<and> (\<forall>req k x. Ev_CreateCertificateRequest req k x \<notin> set more)"
      proof (cases ro)
        case (Some err)
        with certBody_due [OF dn parse now due o, of appID] run have "s' = s2" by simp
        with t2 show ?thesis by simp
      next
        case None
        obtain r3 s3 where p:
          "call (Ev_CertificatesPatch appID (Cert_Id c) ?upd ''certificate_raw_data'')
             (AuthorizedCertificates_Patch env appID (Cert_Id c) ?upd ''certificate_raw_data'')
             s2 = (r3, s3)"
          by force
        then have t3: "trace s3 = trace s2 @
            [Ev_CertificatesPatch appID (Cert_Id c) ?upd ''certificate_raw_data'' r3]"
          by (auto simp: call_eq)
        show ?thesis
        proof (cases r3)
          case None
          with certBody_due [OF dn parse now due o, of appID] run \<open>ro = None\<close> p
          have "s' = s3" by simp
          with t2 t3 show ?thesis by simp
        next
          case (Some err)
          obtain x where "trace (snd (addTip env (''update cert for '' @ domain @ '': '' @ err) s3)) =
              trace s3 @ [Ev_ServiceAccount x]"
            using addTip_trace by blast
          moreover
          from certBody_due [OF dn parse now due o, of appID] run \<open>ro = None\<close> p Some
          have "s' = snd (addTip env (''update cert for '' @ domain @ '': '' @ err) s3)"
            by (simp split: prod.splits)
          ultimately show ?thesis using t2 t3 by simp
        qed
      qed
      then obtain more where
        t: "trace s' = trace s @ Ev_Now now # tro @ more"
        and mp: "\<forall>app ident upd mask x. Ev_CertificatesPatch app ident upd mask x \<in> set more \<longrightarrow>
                 ident = Cert_Id c"
        and mr: "\<forall>req k x. Ev_CreateCertificateRequest req k x \<notin> set more"
        by blast
      have d': "dueIn env c (Ev_Now now # tro @ more)"
        by (rule d)
      have 1: "\<forall>app ident upd mask x.
          Ev_CertificatesPatch app ident upd mask x \<in> set (Ev_Now now # tro @ more) \<longrightarrow>
            ident = Cert_Id c \<and> dueIn env c (Ev_Now now # tro @ more)"
      proof (intro allI impI)
        fix app ident upd mask x
        assume "Ev_CertificatesPatch app ident upd mask x \<in> set (Ev_Now now # tro @ more)"
        with np have "Ev_CertificatesPatch app ident upd mask x \<in> set more" by auto
        with mp have "ident = Cert_Id c" by blast
        then show "ident = Cert_Id c \<and> dueIn env c (Ev_Now now # tro @ more)"
          using d' by (rule conjI)
      qed
      have 2: "\<forall>req k x.
          Ev_CreateCertificateRequest req k x \<in> set (Ev_Now now # tro @ more) \<longrightarrow>
            DNSNames req = take 1 (DomainNames c) \<and> dueIn env c (Ev_Now now # tro @ more)"
      proof (intro allI impI)
        fix req k x
        assume "Ev_CreateCertificateRequest req k x \<in> set (Ev_Now now # tro @ more)"
        with mr have "Ev_CreateCertificateRequest req k x \<in> set tro" by auto
        with rq have "req = requestFor domain" by blast
        with dn have "DNSNames req = take 1 (DomainNames c)" by simp
        then show "DNSNames req = take 1 (DomainNames c) \<and> dueIn env c (Ev_Now now # tro @ more)"
          using d' by (rule conjI)
      qed
      from t 1 2 show ?thesis by blast
    qed
  qed
qed

lemma dueIn_append:
  "dueIn env c tr1 \<Longrightarrow> dueIn env c (tr1 @ tr2)"
  "dueIn env c tr2 \<Longrightarrow> dueIn env c (tr1 @ tr2)"
  by auto

lemma forRange_certBody_events:
  assumes "forRange (certBody env appID) cs s = (r, s')"
  shows "\<exists>tr. trace s' = trace s @ tr
     \<and> (\<forall>app ident upd mask x. Ev_CertificatesPatch app ident upd mask x \<in> set tr \<longrightarrow>
            (\<exists>c\<in>set cs. ident = Cert_Id c \<and> dueIn env c tr))
     \<and> (\<forall>req k x. Ev_CreateCertificateRequest req k x \<in> set tr \<longrightarrow>
            (\<exists>c\<in>set cs. DNSNames req = take 1 (DomainNames c) \<and> dueIn env c tr))"
  using assms
proof (induction cs arbitrary: s)
  case Nil
  then have "s' = s" by simp
  then show ?case by simp
next
  case (Cons c cs)
  obtain r1 s1 where b: "certBody env appID c s = (r1, s1)" by force
  from certBody_events [OF b] obtain tr1 where
    t1: "trace s1 = trace s @ tr1"
    and p1: "\<forall>app ident upd mask x. Ev_CertificatesPatch app ident upd mask x \<in> set tr1 \<longrightarrow>
            ident = Cert_Id c \<and> dueIn env c tr1"
    and q1: "\<forall>req k x. Ev_CreateCertificateRequest req k x \<in> set tr1 \<longrightarrow>
            DNSNames req = take 1 (DomainNames c) \<and> dueIn env c tr1"
    by blast
  have "\<exists>tr2. trace s' = trace s1 @ tr2
     \<and> (\<forall>app ident upd mask x. Ev_CertificatesPatch app ident upd mask x \<in> set tr2 \<longrightarrow>
            (\<exists>c\<in>set cs. ident = Cert_Id c \<and> dueIn env c tr2))
     \<and> (\<forall>req k x. Ev_CreateCertificateRequest req k x \<in> set tr2 \<longrightarrow>
            (\<exists>c\<in>set cs. DNSNames req = take 1 (DomainNames c) \<and> dueIn env c tr2))"
  proof (cases r1)
    case Next
    with b Cons.prems have "forRange (certBody env appID) cs s1 = (r, s')" by simp
    then show ?thesis by (rule Cons.IH)
  next
    case (Return e)
    with b Cons.prems have "s' = s1" by simp
    then show ?thesis by simp
  next
    case (Panic m)
    with b Cons.prems have "s' = s1" by simp
    then show ?thesis by simp
  qed
  then obtain tr2 where
    t2: "trace s' = trace s1 @ tr2"
    and p2: "\<forall>app ident upd mask x. Ev_CertificatesPatch app ident upd mask x \<in> set tr2 \<longrightarrow>
            (\<exists>c\<in>set cs. ident = Cert_Id c \<and> dueIn env c tr2)"
    and q2: "\<forall>req k x. Ev_CreateCertificateRequest req k x \<in> set tr2 \<longrightarrow>
            (\<exists>c\<in>set cs. DNSNames req = take 1 (DomainNames c) \<and> dueIn env c tr2)"
    by blast
  have t: "trace s' = trace s @ (tr1 @ tr2)"
    using t1 t2 by simp
  have p: "\<forall>app ident upd mask x. Ev_CertificatesPatch app ident upd mask x \<in> set (tr1 @ tr2) \<longrightarrow>
            (\<exists>d\<in>set (c # cs). ident = Cert_Id d \<and> dueIn env d (tr1 @ tr2))"
  proof (intro allI impI)
    fix app ident upd mask x
    assume "Ev_CertificatesPatch app ident upd mask x \<in> set (tr1 @ tr2)"
    then consider (a) "Ev_CertificatesPatch app ident upd mask x \<in> set tr1"
      | (b) "Ev_CertificatesPatch app ident upd mask x \<in> set tr2"
      by auto
    then show "\<exists>d\<in>set (c # cs). ident = Cert_Id d \<and> dueIn env d (tr1 @ tr2)"
    proof cases
      case a
      with p1 have "ident = Cert_Id c \<and> dueIn env c tr1" by blast
      then have "ident = Cert_Id c \<and> dueIn env c (tr1 @ tr2)"
        using dueIn_append(1) [of env c tr1 tr2] by blast
      then show ?thesis by simp
    next
      case b
      with p2 obtain d where "d \<in> set cs" "ident = Cert_Id d" "dueIn env d tr2" by blast
      then have "d \<in> set (c # cs) \<and> ident = Cert_Id d \<and> dueIn env d (tr1 @ tr2)"
        using dueIn_append(2) [of env d tr2 tr1] by simp
      then show ?thesis by blast
    qed
  qed
  have q: "\<forall>req k x. Ev_CreateCertificateRequest req k x \<in> set (tr1 @ tr2) \<longrightarrow>
            (\<exists>d\<in>set (c # cs). DNSNames req = take 1 (DomainNames d) \<and> dueIn env d (tr1 @ tr2))"
  proof (intro allI impI)
    fix req k x
    assume "Ev_CreateCertificateRequest req k x \<in> set (tr1 @ tr2)"
    then consider (a) "Ev_CreateCertificateRequest req k x \<in> set tr1"
      | (b) "Ev_CreateCertificateRequest req k x \<in> set tr2"
      by auto
    then show "\<exists>d\<in>set (c # cs). DNSNames req = take 1 (DomainNames d) \<and> dueIn env d (tr1 @ tr2)"
    proof cases
      case a
      with q1 have "DNSNames req = take 1 (DomainNames c) \<and> dueIn env c tr1" by blast
      then have "DNSNames req = take 1 (DomainNames c) \<and> dueIn env c (tr1 @ tr2)"
        using dueIn_append(1) [of env c tr1 tr2] by blast
      then show ?thesis by simp
    next
      case b
      with q2 obtain d where "d \<in> set cs" "DNSNames req = take 1 (DomainNames d)"
        "dueIn env d tr2" by blast
      then have "d \<in> set (c # cs) \<and> DNSNames req = take 1 (DomainNames d)
          \<and> dueIn env d (tr1 @ tr2)"
        using dueIn_append(2) [of env d tr2 tr1] by simp
      then show ?thesis by blast
    qed
  qed
  from t p q show ?case by blast
qed

lemma domainBody_obtain_fails:
  assumes "SslSettings e = None"
    and "obtainCert env (Mapping_Id e)
           (s\<lparr>printed := printed s @ [Log_NoCertificate (Mapping_Id e)]\<rparr>) =
         ((cert, key, Some err), s1)"
  shows "domainBody env appID e s =
           (Return (Some (''obtain cert for '' @ Mapping_Id e @ '': '' @ err)), s1)"
  using assms by (simp add: domainBody_def Fprintf_def)

lemma createUpdate_first_loop_returns:
  assumes "google_DefaultClient env (world s) = (None, w1)"
    and "api_New env w1 = (None, w2)"
    and "DomainMappings_List env (appengine_AppID env) w2 = (Inr dm, w3)"
    and "forRange (domainBody env (appengine_AppID env)) dm
           (s\<lparr>world := w3,
              trace := trace s @ [Ev_DefaultClient None, Ev_ApiNew None,
                Ev_DomainMappingsList (appengine_AppID env) (Inr dm)],
              printed := printed s @ [Log_FoundDomains (length dm)]\<rparr>) = (Return x, s4)"
  shows "createUpdate env s = (Return x, s4)"
  using assms by (simp add: createUpdate_def call_def Fprintf_def)

lemma createUpdate_second_loop_returns:
  assumes "google_DefaultClient env (world s) = (None, w1)"
    and "api_New env w1 = (None, w2)"
    and "DomainMappings_List env (appengine_AppID env) w2 = (Inr dm, w3)"
    and "forRange (domainBody env (appengine_AppID env)) dm
           (s\<lparr>world := w3,
              trace := trace s @ [Ev_DefaultClient None, Ev_ApiNew None,
                Ev_DomainMappingsList (appengine_AppID env) (Inr dm)],
              printed := printed s @ [Log_FoundDomains (length dm)]\<rparr>) = (Next, s4)"
    and "AuthorizedCertificates_List env (appengine_AppID env) (world s4) = (Inr ac, w5)"
    and "forRange (certBody env (appengine_AppID env)) ac
           (s4\<lparr>world := w5,
               trace := trace s4 @ [Ev_CertificatesList (appengine_AppID env) (Inr ac)],
               printed := printed s4 @ [Log_Blank, Log_FoundCertificates (length ac)]\<rparr>) =
         (Return (Some x), s6)"
  shows "createUpdate env s = (Return (Some x), s6)"
  using assms by (simp add: createUpdate_def call_def Fprintf_def)

lemma forRange_append:
  "forRange f (xs @ ys) s =
     (case forRange f xs s of (Next, s') \<Rightarrow> forRange f ys s' | (r, s') \<Rightarrow> (r, s'))"
  by (induction xs arbitrary: s) (auto split: prod.splits flow.splits)

lemma forRange_certBody_Cons_trace:
  "\<exists>tr. trace (snd (forRange (certBody env appID) (c # cs) s)) =
          trace (snd (certBody env appID c s)) @ tr"
proof -
  obtain r1 s1 where b: "certBody env appID c s = (r1, s1)" by force
  show ?thesis
  proof (cases r1)
    case Next
    obtain r2 s2 where f: "forRange (certBody env appID) cs s1 = (r2, s2)" by force
    from forRange_certBody_events [OF f] obtain tr where "trace s2 = trace s1 @ tr" by blast
    with b Next f show ?thesis by simp
  next
    case (Return x)
    with b show ?thesis by simp
  next
    case (Panic x)
    with b show ?thesis by simp
  qed
qed

lemma certBody_due_first_call:
  assumes "DomainNames c = domain # others"
    and "time_Parse_RFC3339 env (ExpireTime c) = Inr expire"
    and "time_Now env (world s) = (now, w1)"
    and "\<not> now + 2592000000000000 < expire"
  shows "\<exists>tr tr'.
           trace (snd (obtainCert env domain
                    (s\<lparr>world := w1, trace := trace s @ [Ev_Now now],
                       printed := printed s @ [Log_Updating domain expire]\<rparr>))) =
             trace s @ Ev_Now now # Ev_GenerateKey 2048 (fst (rsa_GenerateKey env 2048 w1)) # tr
           \<and> trace (snd (certBody env appID c s)) =
               trace s @ Ev_Now now # Ev_GenerateKey 2048 (fst (rsa_GenerateKey env 2048 w1))
                 # tr @ tr'"
proof -
  let ?s1 = "s\<lparr>world := w1, trace := trace s @ [Ev_Now now],
                 printed := printed s @ [Log_Updating domain expire]\<rparr>"
  from certBody_due_trace [OF assms, of appID] obtain tr' where
    b: "trace (snd (certBody env appID c s)) = trace (snd (obtainCert env domain ?s1)) @ tr'"
    by blast
  from obtainCert_first_call [of env domain ?s1] obtain tr where
    "trace (snd (obtainCert env domain ?s1)) =
       trace ?s1 @ Ev_GenerateKey 2048 (fst (rsa_GenerateKey env 2048 (world ?s1))) # tr"
    by blast
  then have o: "trace (snd (obtainCert env domain ?s1)) =
      trace s @ Ev_Now now # Ev_GenerateKey 2048 (fst (rsa_GenerateKey env 2048 w1)) # tr"
    by simp
  with b have "trace (snd (certBody env appID c s)) =
      trace s @ Ev_Now now # Ev_GenerateKey 2048 (fst (rsa_GenerateKey env 2048 w1)) # tr @ tr'"
    by simp
  with o show ?thesis by blast
qed

lemma forRange_certBody_reached:
  assumes "DomainNames c = domain # others"
    and "time_Parse_RFC3339 env (ExpireTime c) = Inr expire"
    and "time_Now env (world s) = (now, w1)"
    and "\<not> now + 2592000000000000 < expire"
    and "forRange (certBody env appID) pre s0 = (Next, s)"
  shows "\<exists>tr. trace (snd (forRange (certBody env appID) (pre @ c # post) s0)) =
           trace s @ Ev_Now now # Ev_GenerateKey 2048 (fst (rsa_GenerateKey env 2048 w1)) # tr"
proof -
  from assms(5) have e: "forRange (certBody env appID) (pre @ c # post) s0 =
      forRange (certBody env appID) (c # post) s"
    by (simp add: forRange_append)
  from forRange_certBody_Cons_trace [of env appID c post s] obtain tr2 where
    t2: "trace (snd (forRange (certBody env appID) (c # post) s)) =
           trace (snd (certBody env appID c s)) @ tr2"
    by blast
  from certBody_due_first_call [OF assms(1-4), of appID] obtain tr tr' where
    "trace (snd (certBody env appID c s)) =
       trace s @ Ev_Now now # Ev_GenerateKey 2048 (fst (rsa_GenerateKey env 2048 w1)) # tr @ tr'"
    by blast
  with t2 e have "trace (snd (forRange (certBody env appID) (pre @ c # post) s0)) =
      trace s @ Ev_Now now # Ev_GenerateKey 2048 (fst (rsa_GenerateKey env 2048 w1))
        # (tr @ tr' @ tr2)"
    by simp
  then show ?thesis by blast
qed

lemma forRange_not_reached:
  assumes "forRange f pre s0 = (res, s')" and "res \<noteq> Next"
  shows "forRange f (pre @ post) s0 = (res, s')"
  using assms by (cases res) (simp_all add: forRange_append)

subsection \<open>Base64 and PEM\<close>

lemma div_mod_pack:
  fixes a q m :: nat
  assumes "q < m"
  shows "(a * m + q) div m = a" "(a * m + q) mod m = q"
  using assms by simp_all

lemma nibble_bounds:
  fixes y :: nat
  assumes "y < 256"
  shows "y div 16 < 16" "y div 64 < 4" "y div 4 < 64"
  using assms by (simp_all add: less_mult_imp_div_less)

lemma byte_from_sextets:
  fixes x y z :: nat
  assumes "x < 256" "y < 256" "z < 256"
  shows "(x div 4) * 4 + ((x mod 4) * 16 + y div 16) div 16 = x"
    and "(((x mod 4) * 16 + y div 16) mod 16) * 16 + ((y mod 16) * 4 + z div 64) div 4 = y"
    and "(((y mod 16) * 4 + z div 64) mod 4) * 64 + z mod 64 = z"
    and "(((x mod 4) * 16 + y div 16) mod 16) * 16 + ((y mod 16) * 4) div 4 = y"
    and "(x div 4) * 4 + ((x mod 4) * 16) div 16 = x"
  using nibble_bounds [OF assms(2)] nibble_bounds [OF assms(3)]
  by (simp_all add: div_mod_pack)

lemma sextet_bounds:
  fixes x y z :: nat
  assumes "x < 256" "y < 256" "z < 256"
  shows "x div 4 < 64" "(x mod 4) * 16 + y div 16 < 64" "(y mod 16) * 4 + z div 64 < 64"
    "z mod 64 < 64" "(y mod 16) * 4 < 64" "(x mod 4) * 16 < 64"
proof -
  have a: "x mod 4 < 4" "y mod 16 < 16" by simp_all
  note b = nibble_bounds [OF assms(1)] nibble_bounds [OF assms(2)] nibble_bounds [OF assms(3)]
  show "x div 4 < 64" using b by simp
  show "(x mod 4) * 16 + y div 16 < 64" using a(1) b(4) by linarith
  show "(y mod 16) * 4 + z div 64 < 64" using a(2) b(8) by linarith
  show "z mod 64 < 64" by simp
  show "(y mod 16) * 4 < 64" using a(2) by linarith
  show "(x mod 4) * 16 < 64" using a(1) by linarith
qed

lemma encodeStd_length: "length encodeStd = 64"
  by (simp add: encodeStd_def)

lemma encodeStd_distinct: "distinct encodeStd"
  by (simp add: encodeStd_def)

lemma map_of_zip_upt_nth:
  "distinct xs \<Longrightarrow> i < length xs \<Longrightarrow> map_of (zip xs [0..<length xs]) (xs ! i) = Some i"
  by (metis (no_types, lifting) diff_zero length_upt map_of_zip_nth nth_upt add_0)

lemma unsextet_sextet: "n < 64 \<Longrightarrow> unsextet (sextet n) = Some n"
  using map_of_zip_upt_nth [OF encodeStd_distinct, of n]
  by (simp add: unsextet_def sextet_def encodeStd_length)

lemma sextet_in: "n < 64 \<Longrightarrow> sextet n \<in> set encodeStd"
  by (simp add: sextet_def encodeStd_length)

lemma sextet_not_special:
  assumes "n < 64"
  shows "sextet n \<noteq> CHR ''=''" "sextet n \<noteq> CHR ''-''" "sextet n \<noteq> CHR 0x0A"
  using sextet_in [OF assms] by (auto simp: encodeStd_def)

text \<open>
  Decoding inverts encoding, for base64 and then for a whole PEM block followed by any text.
\<close>

lemma base64_roundtrip: "base64_Decode (base64_Encode bs) = Some bs"
proof (induction bs rule: base64_Encode.induct)
  case (1 a b c rest)
  let ?x = "of_char a :: nat" and ?y = "of_char b :: nat" and ?z = "of_char c :: nat"
  have b: "?x < 256" "?y < 256" "?z < 256" by simp_all
  note sb = sextet_bounds [OF b]
  note bf = byte_from_sextets [OF b]
  show ?case
    using 1 sb bf
    by (simp add: Let_def unsextet_sextet sextet_not_special)
next
  case (2 a b)
  let ?x = "of_char a :: nat" and ?y = "of_char b :: nat"
  have b: "?x < 256" "?y < 256" "(0::nat) < 256" by simp_all
  note sb = sextet_bounds [OF b]
  note bf = byte_from_sextets [OF b]
  show ?case
    using sb bf
    by (simp add: Let_def unsextet_sextet sextet_not_special)
next
  case (3 a)
  let ?x = "of_char a :: nat"
  have b: "?x < 256" "(0::nat) < 256" "(0::nat) < 256" by simp_all
  note sb = sextet_bounds [OF b]
  note bf = byte_from_sextets [OF b]
  show ?case
    using sb bf
    by (simp add: Let_def unsextet_sextet sextet_not_special)
next
  case 4
  show ?case by simp
qed

lemma sextet_plain: "n < 64 \<Longrightarrow> sextet n \<noteq> CHR ''-'' \<and> sextet n \<noteq> CHR 0x0A"
  using sextet_not_special by blast

lemma base64_Encode_chars:
  "CHR ''-'' \<notin> set (base64_Encode bs) \<and> CHR 0x0A \<notin> set (base64_Encode bs)"
proof (induction bs rule: base64_Encode.induct)
  case (1 a b c rest)
  let ?x = "of_char a :: nat" and ?y = "of_char b :: nat" and ?z = "of_char c :: nat"
  have b: "?x < 256" "?y < 256" "?z < 256" by simp_all
  note sb = sextet_bounds [OF b]
  note p = sextet_plain [OF sb(1)] sextet_plain [OF sb(2)] sextet_plain [OF sb(3)]
    sextet_plain [OF sb(4)]
  show ?case
    using 1 p by (simp add: Let_def neq_commute)
next
  case (2 a b)
  let ?x = "of_char a :: nat" and ?y = "of_char b :: nat"
  have b: "?x < 256" "?y < 256" "(0::nat) < 256" by simp_all
  note sb = sextet_bounds [OF b]
  note p = sextet_plain [OF sb(1)] sextet_plain [OF sb(2)] sextet_plain [OF sb(5)]
  show ?case
    using p by (simp add: Let_def neq_commute)
next
  case (3 a)
  let ?x = "of_char a :: nat"
  have b: "?x < 256" "(0::nat) < 256" "(0::nat) < 256" by simp_all
  note sb = sextet_bounds [OF b]
  note p = sextet_plain [OF sb(1)] sextet_plain [OF sb(6)]
  show ?case
    using p by (simp add: Let_def neq_commute)
next
  case 4
  show ?case by simp
qed

lemma lineBreaker_Nil: "lineBreaker [] = []"
  by (subst lineBreaker.simps) (rule if_P, rule refl)

lemma lineBreaker_step:
  "s \<noteq> [] \<Longrightarrow>
   lineBreaker s = take pemLineLength s @ [CHR 0x0A] @ lineBreaker (drop pemLineLength s)"
  by (rule trans [OF lineBreaker.simps]) (rule if_not_P)

lemma lineBreaker_filter:
  "CHR 0x0A \<notin> set s \<Longrightarrow> filter (\<lambda>c. c \<noteq> CHR 0x0A) (lineBreaker s) = s"
proof (induction s rule: lineBreaker.induct)
  case (1 s)
  show ?case
  proof (cases "s = []")
    case True
    then show ?thesis by (simp add: lineBreaker_Nil)
  next
    case False
    from "1.prems" have d: "CHR 0x0A \<notin> set (drop pemLineLength s)"
      by (auto dest: in_set_dropD)
    from "1.prems" have "\<forall>c\<in>set (take pemLineLength s). c \<noteq> CHR 0x0A"
      by (auto dest: in_set_takeD)
    then have t: "filter (\<lambda>c. c \<noteq> CHR 0x0A) (take pemLineLength s) = take pemLineLength s"
      by (simp add: filter_id_conv)
    have i: "filter (\<lambda>c. c \<noteq> CHR 0x0A) (lineBreaker (drop pemLineLength s)) =
        drop pemLineLength s"
      using "1.IH" [OF False d] .
    show ?thesis
      by (simp add: lineBreaker_step [OF False] t i)
  qed
qed

lemma lineBreaker_no_dash:
  "CHR ''-'' \<notin> set s \<Longrightarrow> CHR ''-'' \<notin> set (lineBreaker s)"
proof (induction s rule: lineBreaker.induct)
  case (1 s)
  show ?case
  proof (cases "s = []")
    case True
    then show ?thesis by (simp add: lineBreaker_Nil)
  next
    case False
    from "1.prems" have d: "CHR ''-'' \<notin> set (drop pemLineLength s)"
      by (auto dest: in_set_dropD)
    from "1.prems" have t: "CHR ''-'' \<notin> set (take pemLineLength s)"
      by (auto dest: in_set_takeD)
    show ?thesis
      using t "1.IH" [OF False d] by (simp add: lineBreaker_step [OF False])
  qed
qed

lemma stripPrefix_append: "stripPrefix p (p @ s) = Some s"
  by (induction p) simp_all

lemma takeWhile_to_dash:
  "CHR ''-'' \<notin> set xs \<Longrightarrow> takeWhile (\<lambda>c. c \<noteq> CHR ''-'') (xs @ CHR ''-'' # ys) = xs"
  by (induction xs) auto

lemma dropWhile_to_dash:
  "CHR ''-'' \<notin> set xs \<Longrightarrow> dropWhile (\<lambda>c. c \<noteq> CHR ''-'') (xs @ CHR ''-'' # ys) = CHR ''-'' # ys"
  by (induction xs) auto

lemma pem_roundtrip:
  assumes "CHR ''-'' \<notin> set t"
  shows "pem_Decode (pem_Encode \<lparr>Block_Type = t, Block_Bytes = bs\<rparr> @ rest) =
           Some (\<lparr>Block_Type = t, Block_Bytes = bs\<rparr>, rest)"
proof -
  let ?body = "lineBreaker (base64_Encode bs)"
  let ?tail = "''----END '' @ t @ ''-----'' @ [CHR 0x0A] @ rest"
  let ?d2 = "?body @ CHR ''-'' # ?tail"
  let ?d1 = "t @ CHR ''-'' # (''----'' @ [CHR 0x0A] @ ?d2)"
  have nd: "CHR ''-'' \<notin> set ?body"
    using base64_Encode_chars lineBreaker_no_dash by blast
  have e: "pem_Encode \<lparr>Block_Type = t, Block_Bytes = bs\<rparr> @ rest = ''-----BEGIN '' @ ?d1"
    by (simp add: pem_Encode_def)
  have s1: "stripPrefix ''-----BEGIN '' (''-----BEGIN '' @ ?d1) = Some ?d1"
    by (rule stripPrefix_append)
  have t1: "takeWhile (\<lambda>c. c \<noteq> CHR ''-'') ?d1 = t"
    using assms by (rule takeWhile_to_dash)
  have r1: "dropWhile (\<lambda>c. c \<noteq> CHR ''-'') ?d1 = (''-----'' @ [CHR 0x0A]) @ ?d2"
    using dropWhile_to_dash [OF assms, of "''----'' @ [CHR 0x0A] @ ?d2"] by simp
  have s2: "stripPrefix (''-----'' @ [CHR 0x0A]) ((''-----'' @ [CHR 0x0A]) @ ?d2) = Some ?d2"
    by (rule stripPrefix_append)
  have t2: "takeWhile (\<lambda>c. c \<noteq> CHR ''-'') ?d2 = ?body"
    using nd by (rule takeWhile_to_dash)
  have r2: "dropWhile (\<lambda>c. c \<noteq> CHR ''-'') ?d2 =
      (''-----END '' @ t @ ''-----'' @ [CHR 0x0A]) @ rest"
    using dropWhile_to_dash [OF nd, of ?tail] by simp
  have s3: "stripPrefix (''-----END '' @ t @ ''-----'' @ [CHR 0x0A])
      ((''-----END '' @ t @ ''-----'' @ [CHR 0x0A]) @ rest) = Some rest"
    by (rule stripPrefix_append)
  have b: "base64_Decode (filter (\<lambda>c. c \<noteq> CHR 0x0A) ?body) = Some bs"
    using base64_Encode_chars lineBreaker_filter base64_roundtrip by simp
  show ?thesis
    unfolding e pem_Decode_def s1 option.case Let_def t1 r1 s2 t2 r2 s3 b
    by simp
qed

lemma encodeChain_concat:
  "encodeChain env certDER certPEM =
     certPEM @ concat (map (\<lambda>b. pem_EncodeToMemory env
                                   \<lparr>Block_Type = ''CERTIFICATE'', Block_Bytes = b\<rparr>) certDER)"
  by (induction certDER arbitrary: certPEM) simp_all

lemma decodeBlocks_concat:
  assumes "\<And>b rest. dec (enc b @ rest) = Some (blk b, rest)"
  shows "decodeBlocks dec (length ds) (concat (map enc ds) @ rest) = Some (map blk ds, rest)"
  using assms by (induction ds) simp_all

subsection \<open>Runs in the scripted world\<close>

text \<open>
  What the program does in the scripted world, by evaluation.
\<close>

lemma scripted_env_sel [simp]:
  "rsa_GenerateKey (scripted_env dms certs) = scripted_GenerateKey"
  "x509_CreateCertificateRequest (scripted_env dms certs) =
     (\<lambda>req key w. (Inr (''csr:'' @ CommonName (Subject req)), w))"
  "x509_MarshalPKCS1PrivateKey (scripted_env dms certs) =
     (\<lambda>key. [char_of (N key), char_of (E key), char_of (D key)])"
  "pem_EncodeToMemory (scripted_env dms certs) = pem_Encode"
  "acme_LetsEncryptURL (scripted_env dms certs) = ''https://acme-v01.api.letsencrypt.org/directory''"
  "acme_StatusValid (scripted_env dms certs) = ''valid''"
  "acme_Register (scripted_env dms certs) = (\<lambda>client w. (None, w))"
  "acme_Authorize (scripted_env dms certs) = scripted_Authorize"
  "acme_HTTP01ChallengeResponse (scripted_env dms certs) = (\<lambda>client token. Inr (token @ ''.thumbprint''))"
  "acme_HTTP01ChallengePath (scripted_env dms certs) =
     (\<lambda>client token. ''/.well-known/acme-challenge/'' @ token)"
  "acme_Accept (scripted_env dms certs) = (\<lambda>client challenge w. (None, w))"
  "acme_WaitAuthorization (scripted_env dms certs) = (\<lambda>client uri w. (None, w))"
  "acme_CreateCert (scripted_env dms certs) =
     (\<lambda>client csr e b w. (Inr [''leaf for '' @ csr, ''issuer''], w))"
  "memcache_Set (scripted_env dms certs) = scripted_Set"
  "memcache_Get (scripted_env dms certs) = scripted_Get"
  "appengine_AppID (scripted_env dms certs) = ''app''"
  "appengine_ServiceAccount (scripted_env dms certs) =
     (\<lambda>w. (Inr ''app@appspot.gserviceaccount.com'', w))"
  "google_DefaultClient (scripted_env dms certs) = (\<lambda>w. (None, w))"
  "api_New (scripted_env dms certs) = (\<lambda>w. (None, w))"
  "DomainMappings_List (scripted_env dms certs) = (\<lambda>appID w. (Inr dms, w))"
  "DomainMappings_Patch (scripted_env dms certs) = (\<lambda>appID domain m mask w. (None, w))"
  "AuthorizedCertificates_List (scripted_env dms certs) = (\<lambda>appID w. (Inr certs, w))"
  "AuthorizedCertificates_Create (scripted_env dms certs) = scripted_Create"
  "AuthorizedCertificates_Patch (scripted_env dms certs) = (\<lambda>appID certID c mask w. (None, w))"
  "time_Now (scripted_env dms certs) = (\<lambda>w. (clock w, w))"
  "time_Parse_RFC3339 (scripted_env dms certs) = scripted_Parse"
  by (simp_all add: scripted_env_def)

lemma scripted_dns_run:
  "obtainCert (scripted_env dms certs) ''dns.example'' start =
     (([], [], Some ''no http-01 challenge offered''),
      \<lparr>world = \<lparr>keysMade = 2, cache = [], clock = 1498867200000000000\<rparr>,
       trace =
         [Ev_GenerateKey 2048 (Inr \<lparr>N = 1000, E = 65537, D = 7, Primes = []\<rparr>),
          Ev_CreateCertificateRequest (requestFor ''dns.example'')
            \<lparr>N = 1000, E = 65537, D = 7, Primes = []\<rparr> (Inr ''csr:dns.example''),
          Ev_GenerateKey 2048 (Inr \<lparr>N = 1001, E = 65537, D = 7, Primes = []\<rparr>),
          Ev_Register (clientWith (scripted_env dms certs)
            \<lparr>N = 1001, E = 65537, D = 7, Primes = []\<rparr>) None,
          Ev_Authorize (clientWith (scripted_env dms certs)
            \<lparr>N = 1001, E = 65537, D = 7, Primes = []\<rparr>) ''dns.example''
            (Inr \<lparr>URI = ''authz/dns.example'', Status = ''pending'',
                   Challenges = [\<lparr>Challenge_Type = ''dns-01'', Token = ''t1''\<rparr>]\<rparr>)],
       printed = []\<rparr>)"
  by (simp add: obtainCert_def authorize_def call_def start_def scripted_GenerateKey_def
      scripted_Authorize_def Let_def)

lemma scripted_bad_run:
  "obtainCert (scripted_env dms certs) ''bad.example'' s =
     (([], [], Some ''authorize: rate limited''),
      s\<lparr>world := (world s)\<lparr>keysMade := Suc (Suc (keysMade (world s)))\<rparr>,
        trace := trace s @
         [Ev_GenerateKey 2048
            (Inr \<lparr>N = 1000 + int (keysMade (world s)), E = 65537, D = 7, Primes = []\<rparr>),
          Ev_CreateCertificateRequest (requestFor ''bad.example'')
            \<lparr>N = 1000 + int (keysMade (world s)), E = 65537, D = 7, Primes = []\<rparr>
            (Inr ''csr:bad.example''),
          Ev_GenerateKey 2048
            (Inr \<lparr>N = 1001 + int (keysMade (world s)), E = 65537, D = 7, Primes = []\<rparr>),
          Ev_Register (clientWith (scripted_env dms certs)
            \<lparr>N = 1001 + int (keysMade (world s)), E = 65537, D = 7, Primes = []\<rparr>) None,
          Ev_Authorize (clientWith (scripted_env dms certs)
            \<lparr>N = 1001 + int (keysMade (world s)), E = 65537, D = 7, Primes = []\<rparr>)
            ''bad.example'' (Inl ''rate limited'')]\<rparr>)"
  by (simp add: obtainCert_def authorize_def call_def scripted_GenerateKey_def
      scripted_Authorize_def Let_def)

lemma scripted_ok_run:
  "obtainCert (scripted_env dms certs) ''c.example'' s =
     ((encodeChain (scripted_env dms certs) [''leaf for csr:c.example'', ''issuer''] [],
       pem_Encode \<lparr>Block_Type = ''RSA PRIVATE KEY'',
                   Block_Bytes = [char_of (1000 + int (keysMade (world s))), char_of (65537::int),
                                  char_of (7::int)]\<rparr>,
       None),
      s\<lparr>world := (world s)\<lparr>keysMade := Suc (Suc (keysMade (world s))),
            cache := (''/.well-known/acme-challenge/t2'', ''t2.thumbprint'') # cache (world s)\<rparr>,
        trace := trace s @
         [Ev_GenerateKey 2048
            (Inr \<lparr>N = 1000 + int (keysMade (world s)), E = 65537, D = 7, Primes = []\<rparr>),
          Ev_CreateCertificateRequest (requestFor ''c.example'')
            \<lparr>N = 1000 + int (keysMade (world s)), E = 65537, D = 7, Primes = []\<rparr>
            (Inr ''csr:c.example''),
          Ev_GenerateKey 2048
            (Inr \<lparr>N = 1001 + int (keysMade (world s)), E = 65537, D = 7, Primes = []\<rparr>),
          Ev_Register (clientWith (scripted_env dms certs)
            \<lparr>N = 1001 + int (keysMade (world s)), E = 65537, D = 7, Primes = []\<rparr>) None,
          Ev_Authorize (clientWith (scripted_env dms certs)
            \<lparr>N = 1001 + int (keysMade (world s)), E = 65537, D = 7, Primes = []\<rparr>)
            ''c.example''
            (Inr \<lparr>URI = ''authz/c.example'', Status = ''pending'',
                   Challenges = [\<lparr>Challenge_Type = ''dns-01'', Token = ''t1''\<rparr>,
                                 \<lparr>Challenge_Type = ''http-01'', Token = ''t2''\<rparr>]\<rparr>),
          Ev_MemcacheSet \<lparr>Item_Key = ''/.well-known/acme-challenge/t2'',
                          Item_Value = ''t2.thumbprint''\<rparr> None,
          Ev_Accept (clientWith (scripted_env dms certs)
            \<lparr>N = 1001 + int (keysMade (world s)), E = 65537, D = 7, Primes = []\<rparr>)
            \<lparr>Challenge_Type = ''http-01'', Token = ''t2''\<rparr> None,
          Ev_WaitAuthorization (clientWith (scripted_env dms certs)
            \<lparr>N = 1001 + int (keysMade (world s)), E = 65537, D = 7, Primes = []\<rparr>)
            ''authz/c.example'' None,
          Ev_CreateCert (clientWith (scripted_env dms certs)
            \<lparr>N = 1001 + int (keysMade (world s)), E = 65537, D = 7, Primes = []\<rparr>)
            ''csr:c.example'' 7776000000000000 True
            (Inr [''leaf for csr:c.example'', ''issuer''])]\<rparr>)"
  by (simp add: obtainCert_def authorize_def call_def scripted_GenerateKey_def
      scripted_Authorize_def scripted_Set_def Let_def expiry_def time_Hour_def bundle_chain_def
      del: encodeChain.simps)

lemma scripted_two_certificates:
  "forRange (certBody (scripted_env [] []) ''app'')
     [\<lparr>CertificateRawData = None, DisplayName = ''c.example'', DomainNames = [''c.example''],
       ExpireTime = ''2017-07-11T00:00:00Z'', Cert_Id = ''12''\<rparr>,
      \<lparr>CertificateRawData = None, DisplayName = ''d.example'', DomainNames = [''d.example''],
       ExpireTime = ''2017-09-29T00:00:00Z'', Cert_Id = ''13''\<rparr>] start =
     (Next,
      \<lparr>world = \<lparr>keysMade = 2,
                 cache = [(''/.well-known/acme-challenge/t2'', ''t2.thumbprint'')],
                 clock = 1498867200000000000\<rparr>,
       trace =
         [Ev_Now 1498867200000000000,
          Ev_GenerateKey 2048 (Inr \<lparr>N = 1000, E = 65537, D = 7, Primes = []\<rparr>),
          Ev_CreateCertificateRequest (requestFor ''c.example'')
            \<lparr>N = 1000, E = 65537, D = 7, Primes = []\<rparr> (Inr ''csr:c.example''),
          Ev_GenerateKey 2048 (Inr \<lparr>N = 1001, E = 65537, D = 7, Primes = []\<rparr>),
          Ev_Register (clientWith (scripted_env [] [])
            \<lparr>N = 1001, E = 65537, D = 7, Primes = []\<rparr>) None,
          Ev_Authorize (clientWith (scripted_env [] [])
            \<lparr>N = 1001, E = 65537, D = 7, Primes = []\<rparr>) ''c.example''
            (Inr \<lparr>URI = ''authz/c.example'', Status = ''pending'',
                   Challenges = [\<lparr>Challenge_Type = ''dns-01'', Token = ''t1''\<rparr>,
                                 \<lparr>Challenge_Type = ''http-01'', Token = ''t2''\<rparr>]\<rparr>),
          Ev_MemcacheSet \<lparr>Item_Key = ''/.well-known/acme-challenge/t2'',
                          Item_Value = ''t2.thumbprint''\<rparr> None,
          Ev_Accept (clientWith (scripted_env [] [])
            \<lparr>N = 1001, E = 65537, D = 7, Primes = []\<rparr>)
            \<lparr>Challenge_Type = ''http-01'', Token = ''t2''\<rparr> None,
          Ev_WaitAuthorization (clientWith (scripted_env [] [])
            \<lparr>N = 1001, E = 65537, D = 7, Primes = []\<rparr>) ''authz/c.example'' None,
          Ev_CreateCert (clientWith (scripted_env [] [])
            \<lparr>N = 1001, E = 65537, D = 7, Primes = []\<rparr>)
            ''csr:c.example'' 7776000000000000 True
            (Inr [''leaf for csr:c.example'', ''issuer'']),
          Ev_CertificatesPatch ''app'' ''12''
            \<lparr>CertificateRawData =
               Some \<lparr>PrivateKey = pem_Encode \<lparr>Block_Type = ''RSA PRIVATE KEY'',
                        Block_Bytes = [char_of (1000::int), char_of (65537::int), char_of (7::int)]\<rparr>,
                     PublicCertificate =
                       pem_Encode \<lparr>Block_Type = ''CERTIFICATE'',
                                   Block_Bytes = ''leaf for csr:c.example''\<rparr>
                       @ pem_Encode \<lparr>Block_Type = ''CERTIFICATE'', Block_Bytes = ''issuer''\<rparr>\<rparr>,
             DisplayName = [], DomainNames = [], ExpireTime = [], Cert_Id = []\<rparr>
            ''certificate_raw_data'' None,
          Ev_Now 1498867200000000000],
       printed = [Log_Updating ''c.example'' 1499731200000000000,
                  Log_NothingToDo ''d.example'' 1506643200000000000]\<rparr>)"
  by (simp add: certBody_def call_def Fprintf_def scripted_ok_run scripted_Parse_def start_def
      updateBefore_def time_Hour_def Let_def)

lemma scripted_bad_certificate:
  "forRange (certBody (scripted_env dms certs) ''app'')
     [\<lparr>CertificateRawData = None, DisplayName = ''bad.example'',
       DomainNames = [''bad.example''], ExpireTime = ''2017-07-11T00:00:00Z'',
       Cert_Id = ''14''\<rparr>] start =
     (Return (Some ''obtain cert for bad.example: authorize: rate limited''),
      \<lparr>world = \<lparr>keysMade = 2, cache = [], clock = 1498867200000000000\<rparr>,
       trace =
         [Ev_Now 1498867200000000000,
          Ev_GenerateKey 2048 (Inr \<lparr>N = 1000, E = 65537, D = 7, Primes = []\<rparr>),
          Ev_CreateCertificateRequest (requestFor ''bad.example'')
            \<lparr>N = 1000, E = 65537, D = 7, Primes = []\<rparr> (Inr ''csr:bad.example''),
          Ev_GenerateKey 2048 (Inr \<lparr>N = 1001, E = 65537, D = 7, Primes = []\<rparr>),
          Ev_Register (clientWith (scripted_env dms certs)
            \<lparr>N = 1001, E = 65537, D = 7, Primes = []\<rparr>) None,
          Ev_Authorize (clientWith (scripted_env dms certs)
            \<lparr>N = 1001, E = 65537, D = 7, Primes = []\<rparr>) ''bad.example''
            (Inl ''rate limited'')],
       printed = [Log_Updating ''bad.example'' 1499731200000000000]\<rparr>)"
  by (simp add: certBody_def call_def Fprintf_def scripted_bad_run scripted_Parse_def start_def
      updateBefore_def time_Hour_def Let_def)

section \<open>The reconciliation run\<close>

text \<open>
  Claim C1, as the code has it. A failed issuance ends the run: when \<open>obtainCert\<close>
  fails for a domain without a certificate, or for a certificate that is due, the loop
  returns at once with the error \<open>obtain cert for <domain>: <error>\<close>, whatever domains
  or certificates come after it in the listing, and \<open>createUpdate\<close> returns what the
  loop returned. The error names the domain; nothing is done for the entries that follow.
\<close>

theorem issuance_failure_ends_run:
  "(SslSettings e = None
      \<and> obtainCert env (Mapping_Id e)
           (s\<lparr>printed := printed s @ [Log_NoCertificate (Mapping_Id e)]\<rparr>) =
         ((cert, key, Some err), s1)
      \<longrightarrow> forRange (domainBody env appID) (e # es) s =
            (Return (Some (''obtain cert for '' @ Mapping_Id e @ '': '' @ err)), s1))
   \<and> (DomainNames c = domain # others
      \<and> time_Parse_RFC3339 env (ExpireTime c) = Inr expire
      \<and> time_Now env (world s) = (now, w1)
      \<and> \<not> now + 2592000000000000 < expire
      \<and> obtainCert env domain
           (s\<lparr>world := w1, trace := trace s @ [Ev_Now now],
              printed := printed s @ [Log_Updating domain expire]\<rparr>) =
         ((cert, key, Some err), s1)
      \<longrightarrow> forRange (certBody env appID) (c # cs) s =
            (Return (Some (''obtain cert for '' @ domain @ '': '' @ err)), s1))
   \<and> (google_DefaultClient env (world s) = (None, v1)
      \<and> api_New env v1 = (None, v2)
      \<and> DomainMappings_List env (appengine_AppID env) v2 = (Inr dm, v3)
      \<and> forRange (domainBody env (appengine_AppID env)) dm
           (s\<lparr>world := v3,
              trace := trace s @ [Ev_DefaultClient None, Ev_ApiNew None,
                Ev_DomainMappingsList (appengine_AppID env) (Inr dm)],
              printed := printed s @ [Log_FoundDomains (length dm)]\<rparr>) = (Return x, s4)
      \<longrightarrow> createUpdate env s = (Return x, s4))
   \<and> (google_DefaultClient env (world s) = (None, v1)
      \<and> api_New env v1 = (None, v2)
      \<and> DomainMappings_List env (appengine_AppID env) v2 = (Inr dm, v3)
      \<and> forRange (domainBody env (appengine_AppID env)) dm
           (s\<lparr>world := v3,
              trace := trace s @ [Ev_DefaultClient None, Ev_ApiNew None,
                Ev_DomainMappingsList (appengine_AppID env) (Inr dm)],
              printed := printed s @ [Log_FoundDomains (length dm)]\<rparr>) = (Next, s4)
      \<and> AuthorizedCertificates_List env (appengine_AppID env) (world s4) = (Inr ac, v5)
      \<and> forRange (certBody env (appengine_AppID env)) ac
           (s4\<lparr>world := v5,
               trace := trace s4 @ [Ev_CertificatesList (appengine_AppID env) (Inr ac)],
               printed := printed s4 @ [Log_Blank, Log_FoundCertificates (length ac)]\<rparr>) =
         (Return (Some y), s6)
      \<longrightarrow> createUpdate env s = (Return (Some y), s6))"
proof (intro conjI impI)
  assume "SslSettings e = None
      \<and> obtainCert env (Mapping_Id e)
           (s\<lparr>printed := printed s @ [Log_NoCertificate (Mapping_Id e)]\<rparr>) =
         ((cert, key, Some err), s1)"
  then show "forRange (domainBody env appID) (e # es) s =
            (Return (Some (''obtain cert for '' @ Mapping_Id e @ '': '' @ err)), s1)"
    using domainBody_obtain_fails [of e env s cert key err s1 appID] by simp
next
  assume a: "DomainNames c = domain # others
      \<and> time_Parse_RFC3339 env (ExpireTime c) = Inr expire
      \<and> time_Now env (world s) = (now, w1)
      \<and> \<not> now + 2592000000000000 < expire
      \<and> obtainCert env domain
           (s\<lparr>world := w1, trace := trace s @ [Ev_Now now],
              printed := printed s @ [Log_Updating domain expire]\<rparr>) =
         ((cert, key, Some err), s1)"
  then have "certBody env appID c s =
      (Return (Some (''obtain cert for '' @ domain @ '': '' @ err)), s1)"
    using certBody_due [of c domain others env expire s now w1 cert key "Some err" s1 appID]
    by simp
  then show "forRange (certBody env appID) (c # cs) s =
            (Return (Some (''obtain cert for '' @ domain @ '': '' @ err)), s1)"
    by simp
next
  assume "google_DefaultClient env (world s) = (None, v1)
      \<and> api_New env v1 = (None, v2)
      \<and> DomainMappings_List env (appengine_AppID env) v2 = (Inr dm, v3)
      \<and> forRange (domainBody env (appengine_AppID env)) dm
           (s\<lparr>world := v3,
              trace := trace s @ [Ev_DefaultClient None, Ev_ApiNew None,
                Ev_DomainMappingsList (appengine_AppID env) (Inr dm)],
              printed := printed s @ [Log_FoundDomains (length dm)]\<rparr>) = (Return x, s4)"
  then show "createUpdate env s = (Return x, s4)"
    using createUpdate_first_loop_returns [of env s v1 v2 dm v3 x s4] by simp
next
  assume "google_DefaultClient env (world s) = (None, v1)
      \<and> api_New env v1 = (None, v2)
      \<and> DomainMappings_List env (appengine_AppID env) v2 = (Inr dm, v3)
      \<and> forRange (domainBody env (appengine_AppID env)) dm
           (s\<lparr>world := v3,
              trace := trace s @ [Ev_DefaultClient None, Ev_ApiNew None,
                Ev_DomainMappingsList (appengine_AppID env) (Inr dm)],
              printed := printed s @ [Log_FoundDomains (length dm)]\<rparr>) = (Next, s4)
      \<and> AuthorizedCertificates_List env (appengine_AppID env) (world s4) = (Inr ac, v5)
      \<and> forRange (certBody env (appengine_AppID env)) ac
           (s4\<lparr>world := v5,
               trace := trace s4 @ [Ev_CertificatesList (appengine_AppID env) (Inr ac)],
               printed := printed s4 @ [Log_Blank, Log_FoundCertificates (length ac)]\<rparr>) =
         (Return (Some y), s6)"
  then show "createUpdate env s = (Return (Some y), s6)"
    using createUpdate_second_loop_returns [of env s v1 v2 dm v3 s4 ac v5 y s6] by simp
qed

theorem issuance_failure_ends_run_witness:
  "fst (forRange (domainBody (scripted_env [] []) ''app'')
          [\<lparr>Mapping_Id = ''bad.example'', SslSettings = None\<rparr>,
           \<lparr>Mapping_Id = ''b.example'', SslSettings = None\<rparr>] start) =
     Return (Some ''obtain cert for bad.example: authorize: rate limited'')
   \<and> fst (forRange (certBody (scripted_env [] []) ''app'')
          [\<lparr>CertificateRawData = None, DisplayName = ''bad.example'',
            DomainNames = [''bad.example''], ExpireTime = ''2017-07-11T00:00:00Z'',
            Cert_Id = ''14''\<rparr>,
           \<lparr>CertificateRawData = None, DisplayName = ''c.example'',
            DomainNames = [''c.example''], ExpireTime = ''2017-07-11T00:00:00Z'',
            Cert_Id = ''12''\<rparr>] start) =
     Return (Some ''obtain cert for bad.example: authorize: rate limited'')
   \<and> fst (createUpdate
          (scripted_env [\<lparr>Mapping_Id = ''bad.example'', SslSettings = None\<rparr>,
                         \<lparr>Mapping_Id = ''b.example'', SslSettings = None\<rparr>] []) start) =
     Return (Some ''obtain cert for bad.example: authorize: rate limited'')
   \<and> fst (createUpdate
          (scripted_env []
             [\<lparr>CertificateRawData = None, DisplayName = ''bad.example'',
               DomainNames = [''bad.example''], ExpireTime = ''2017-07-11T00:00:00Z'',
               Cert_Id = ''14''\<rparr>,
              \<lparr>CertificateRawData = None, DisplayName = ''c.example'',
               DomainNames = [''c.example''], ExpireTime = ''2017-07-11T00:00:00Z'',
               Cert_Id = ''12''\<rparr>]) start) =
     Return (Some ''obtain cert for bad.example: authorize: rate limited'')"
proof -
  let ?bad = "\<lparr>Mapping_Id = ''bad.example'', SslSettings = None\<rparr>"
  let ?b = "\<lparr>Mapping_Id = ''b.example'', SslSettings = None\<rparr>"
  let ?cbad = "\<lparr>CertificateRawData = None, DisplayName = ''bad.example'',
            DomainNames = [''bad.example''], ExpireTime = ''2017-07-11T00:00:00Z'',
            Cert_Id = ''14''\<rparr>"
  let ?cc = "\<lparr>CertificateRawData = None, DisplayName = ''c.example'',
            DomainNames = [''c.example''], ExpireTime = ''2017-07-11T00:00:00Z'',
            Cert_Id = ''12''\<rparr>"
  let ?E1 = "scripted_env [?bad, ?b] []"
  let ?E2 = "scripted_env [] [?cbad, ?cc]"
  let ?s0 = "start\<lparr>printed := printed start @ [Log_NoCertificate ''bad.example'']\<rparr>"
  let ?s1 = "start\<lparr>world := world start, trace := trace start @ [Ev_Now 1498867200000000000],
               printed := printed start @ [Log_Updating ''bad.example'' 1499731200000000000]\<rparr>"
  let ?s2 = "start\<lparr>world := world start,
               trace := trace start @ [Ev_DefaultClient None, Ev_ApiNew None,
                 Ev_DomainMappingsList (appengine_AppID ?E1) (Inr [?bad, ?b])],
               printed := printed start @ [Log_FoundDomains (length [?bad, ?b])]\<rparr>"
  let ?s3 = "start\<lparr>world := world start,
               trace := trace start @ [Ev_DefaultClient None, Ev_ApiNew None,
                 Ev_DomainMappingsList (appengine_AppID ?E2) (Inr [])],
               printed := printed start @ [Log_FoundDomains (length ([] :: api_DomainMapping list))]\<rparr>"
  let ?s4 = "?s3\<lparr>world := world start,
               trace := trace ?s3 @ [Ev_CertificatesList (appengine_AppID ?E2) (Inr [?cbad, ?cc])],
               printed := printed ?s3 @ [Log_Blank, Log_FoundCertificates (length [?cbad, ?cc])]\<rparr>"
  let ?msg = "''obtain cert for bad.example: authorize: rate limited''"
  note a = issuance_failure_ends_run [where env = "scripted_env [] []" and e = ?bad and s = start
      and cert = "[]" and key = "[]" and err = "''authorize: rate limited''"
      and ?s1.0 = "snd (obtainCert (scripted_env [] []) ''bad.example'' ?s0)"
      and appID = "''app''" and es = "[?b]", THEN conjunct1, THEN mp]
  note b = issuance_failure_ends_run [where env = "scripted_env [] []" and c = ?cbad and s = start
      and domain = "''bad.example''" and others = "[]" and expire = 1499731200000000000
      and now = 1498867200000000000 and ?w1.0 = "world start"
      and cert = "[]" and key = "[]" and err = "''authorize: rate limited''"
      and ?s1.0 = "snd (obtainCert (scripted_env [] []) ''bad.example'' ?s1)"
      and appID = "''app''" and cs = "[?cc]", THEN conjunct2, THEN conjunct1, THEN mp]
  note c = issuance_failure_ends_run [where env = ?E1 and s = start
      and ?v1.0 = "world start" and ?v2.0 = "world start" and ?v3.0 = "world start"
      and dm = "[?bad, ?b]" and x = "Some ?msg"
      and ?s4.0 = "snd (forRange (domainBody ?E1 (appengine_AppID ?E1)) [?bad, ?b] ?s2)",
      THEN conjunct2, THEN conjunct2, THEN conjunct1, THEN mp]
  note d = issuance_failure_ends_run [where env = ?E2 and s = start
      and ?v1.0 = "world start" and ?v2.0 = "world start" and ?v3.0 = "world start"
      and dm = "[]" and ?s4.0 = ?s3 and ac = "[?cbad, ?cc]" and ?v5.0 = "world start"
      and y = ?msg
      and ?s6.0 = "snd (forRange (certBody ?E2 (appengine_AppID ?E2)) [?cbad, ?cc] ?s4)",
      THEN conjunct2, THEN conjunct2, THEN conjunct2, THEN mp]
  have "fst (forRange (domainBody (scripted_env [] []) ''app'') [?bad, ?b] start) = Return (Some ?msg)"
    by (subst a) (simp_all add: scripted_bad_run)
  moreover
  have "fst (forRange (certBody (scripted_env [] []) ''app'') [?cbad, ?cc] start) = Return (Some ?msg)"
    by (subst b) (simp_all add: scripted_bad_run scripted_Parse_def start_def)
  moreover
  have "fst (createUpdate ?E1 start) = Return (Some ?msg)"
    by (subst c) (simp_all add: scripted_bad_run domainBody_def Fprintf_def Let_def)
  moreover
  have "fst (createUpdate ?E2 start) = Return (Some ?msg)"
    by (subst d) (simp_all add: scripted_bad_run certBody_def call_def Fprintf_def
        scripted_Parse_def start_def updateBefore_def time_Hour_def Let_def)
  ultimately show ?thesis by blast
qed

text \<open>
  Claim C1 says that a failed issuance never aborts the run and that the remaining domains
  are still processed. Here two domains have no certificate and the certificate authority
  refuses the first: the run returns the error of the first domain, and the trace and the
  printed lines show that nothing was done for \<open>b.example\<close>.
\<close>

theorem issuance_failure_ends_run_counterexample:
  "createUpdate
     (scripted_env [\<lparr>Mapping_Id = ''bad.example'', SslSettings = None\<rparr>,
                    \<lparr>Mapping_Id = ''b.example'', SslSettings = None\<rparr>] [])
     start =
   (Return (Some ''obtain cert for bad.example: authorize: rate limited''),
    \<lparr>world = \<lparr>keysMade = 2, cache = [], clock = 1498867200000000000\<rparr>,
     trace =
       [Ev_DefaultClient None, Ev_ApiNew None,
        Ev_DomainMappingsList ''app''
          (Inr [\<lparr>Mapping_Id = ''bad.example'', SslSettings = None\<rparr>,
                \<lparr>Mapping_Id = ''b.example'', SslSettings = None\<rparr>]),
        Ev_GenerateKey 2048 (Inr \<lparr>N = 1000, E = 65537, D = 7, Primes = []\<rparr>),
        Ev_CreateCertificateRequest
          \<lparr>Subject = \<lparr>CommonName = ''bad.example''\<rparr>, DNSNames = [''bad.example'']\<rparr>
          \<lparr>N = 1000, E = 65537, D = 7, Primes = []\<rparr> (Inr ''csr:bad.example''),
        Ev_GenerateKey 2048 (Inr \<lparr>N = 1001, E = 65537, D = 7, Primes = []\<rparr>),
        Ev_Register
          \<lparr>Key = \<lparr>N = 1001, E = 65537, D = 7, Primes = []\<rparr>,
           DirectoryURL = ''https://acme-v01.api.letsencrypt.org/directory''\<rparr> None,
        Ev_Authorize
          \<lparr>Key = \<lparr>N = 1001, E = 65537, D = 7, Primes = []\<rparr>,
           DirectoryURL = ''https://acme-v01.api.letsencrypt.org/directory''\<rparr>
          ''bad.example'' (Inl ''rate limited'')],
     printed = [Log_FoundDomains 2, Log_NoCertificate ''bad.example'']\<rparr>)"
  by (simp add: createUpdate_def call_def Fprintf_def domainBody_def scripted_bad_run start_def
      Let_def)

text \<open>
  Claim C2. When the loop is at a certificate whose expiry is more than 30 days
  (2592000000000000 ns) after the time read from the clock, it reads the clock, prints a
  line and goes on with the remaining certificates: no key is generated, nothing is asked
  of the certificate authority and nothing is patched. When the expiry is not more than 30
  days after the clock, the loop body runs \<open>obtainCert\<close> for the certificate's first
  domain name: the calls of that run, which begin with the key generation of the library
  in the world the clock left, follow the reading of the clock. Over a whole run of the
  loop, from any state and whatever the libraries return, every patch call carries the
  identifier of a certificate of the listing that was due at a reading of the clock in
  that run, and every certificate request is for the first domain name of such a
  certificate. A due certificate is attempted when the loop reaches it: when the
  certificates listed before it all fall through, the trace of the whole loop goes on with
  the reading of the clock and the key generation for it; when one of the certificates
  before it returns or panics, the loop ends there with that result and that state,
  whatever the certificate and those after it are.
\<close>

theorem certificate_outside_window:
  assumes "DomainNames c = domain # others"
    and "time_Parse_RFC3339 env (ExpireTime c) = Inr expire"
    and "time_Now env (world s) = (now, w1)"
  shows "(now + 2592000000000000 < expire \<longrightarrow>
            forRange (certBody env appID) (c # cs) s =
              forRange (certBody env appID) cs
                (s\<lparr>world := w1, trace := trace s @ [Ev_Now now],
                   printed := printed s @ [Log_NothingToDo domain expire]\<rparr>))
    \<and> (\<not> now + 2592000000000000 < expire \<longrightarrow>
          (\<exists>tr tr'.
             trace (snd (obtainCert env domain
                      (s\<lparr>world := w1, trace := trace s @ [Ev_Now now],
                         printed := printed s @ [Log_Updating domain expire]\<rparr>))) =
               trace s @ Ev_Now now
                 # Ev_GenerateKey 2048 (fst (rsa_GenerateKey env 2048 w1)) # tr
             \<and> trace (snd (certBody env appID c s)) =
                 trace s @ Ev_Now now
                   # Ev_GenerateKey 2048 (fst (rsa_GenerateKey env 2048 w1)) # tr @ tr'))
    \<and> (forRange (certBody env appID) certs s0 = (res, s') \<longrightarrow>
          (\<exists>tr. trace s' = trace s0 @ tr
             \<and> (\<forall>app ident upd mask x.
                   Ev_CertificatesPatch app ident upd mask x \<in> set tr \<longrightarrow>
                     (\<exists>d\<in>set certs. ident = Cert_Id d \<and> dueIn env d tr))
             \<and> (\<forall>req k x.
                   Ev_CreateCertificateRequest req k x \<in> set tr \<longrightarrow>
                     (\<exists>d\<in>set certs. DNSNames req = take 1 (DomainNames d) \<and> dueIn env d tr))))
    \<and> (forRange (certBody env appID) earlier s1 = (Next, s)
          \<and> \<not> now + 2592000000000000 < expire \<longrightarrow>
          (\<exists>tr. trace (snd (forRange (certBody env appID) (earlier @ c # later) s1)) =
                  trace s @ Ev_Now now
                    # Ev_GenerateKey 2048 (fst (rsa_GenerateKey env 2048 w1)) # tr))
    \<and> (forRange (certBody env appID) earlier s1 = (stop, s2) \<and> stop \<noteq> Next \<longrightarrow>
          forRange (certBody env appID) (earlier @ c # later) s1 = (stop, s2))"
proof (intro conjI impI)
  assume "now + 2592000000000000 < expire"
  from certBody_not_due [OF assms this, of appID]
  show "forRange (certBody env appID) (c # cs) s =
              forRange (certBody env appID) cs
                (s\<lparr>world := w1, trace := trace s @ [Ev_Now now],
                   printed := printed s @ [Log_NothingToDo domain expire]\<rparr>)"
    by simp
next
  assume "\<not> now + 2592000000000000 < expire"
  with assms show "\<exists>tr tr'.
             trace (snd (obtainCert env domain
                      (s\<lparr>world := w1, trace := trace s @ [Ev_Now now],
                         printed := printed s @ [Log_Updating domain expire]\<rparr>))) =
               trace s @ Ev_Now now
                 # Ev_GenerateKey 2048 (fst (rsa_GenerateKey env 2048 w1)) # tr
             \<and> trace (snd (certBody env appID c s)) =
                 trace s @ Ev_Now now
                   # Ev_GenerateKey 2048 (fst (rsa_GenerateKey env 2048 w1)) # tr @ tr'"
    by (rule certBody_due_first_call)
next
  assume "forRange (certBody env appID) certs s0 = (res, s')"
  then show "\<exists>tr. trace s' = trace s0 @ tr
             \<and> (\<forall>app ident upd mask x.
                   Ev_CertificatesPatch app ident upd mask x \<in> set tr \<longrightarrow>
                     (\<exists>d\<in>set certs. ident = Cert_Id d \<and> dueIn env d tr))
             \<and> (\<forall>req k x.
                   Ev_CreateCertificateRequest req k x \<in> set tr \<longrightarrow>
                     (\<exists>d\<in>set certs. DNSNames req = take 1 (DomainNames d) \<and> dueIn env d tr))"
    by (rule forRange_certBody_events)
next
  assume a: "forRange (certBody env appID) earlier s1 = (Next, s)
          \<and> \<not> now + 2592000000000000 < expire"
  then have r: "forRange (certBody env appID) earlier s1 = (Next, s)"
    and due: "\<not> now + 2592000000000000 < expire"
    by simp_all
  from assms due r
  show "\<exists>tr. trace (snd (forRange (certBody env appID) (earlier @ c # later) s1)) =
                  trace s @ Ev_Now now
                    # Ev_GenerateKey 2048 (fst (rsa_GenerateKey env 2048 w1)) # tr"
    by (rule forRange_certBody_reached)
next
  assume "forRange (certBody env appID) earlier s1 = (stop, s2) \<and> stop \<noteq> Next"
  then show "forRange (certBody env appID) (earlier @ c # later) s1 = (stop, s2)"
    by (elim conjE) (rule forRange_not_reached)
qed

theorem certificate_outside_window_witness:
  "forRange (certBody (scripted_env [] []) ''app'')
     [\<lparr>CertificateRawData = None, DisplayName = ''d.example'', DomainNames = [''d.example''],
       ExpireTime = ''2017-09-29T00:00:00Z'', Cert_Id = ''13''\<rparr>] start =
     (Next, start\<lparr>trace := [Ev_Now 1498867200000000000],
                   printed := [Log_NothingToDo ''d.example'' 1506643200000000000]\<rparr>)
   \<and> (\<exists>tr. trace (snd (certBody (scripted_env [] []) ''app''
         \<lparr>CertificateRawData = None, DisplayName = ''c.example'', DomainNames = [''c.example''],
          ExpireTime = ''2017-07-11T00:00:00Z'', Cert_Id = ''12''\<rparr> start)) =
        Ev_Now 1498867200000000000
          # Ev_GenerateKey 2048 (Inr \<lparr>N = 1000, E = 65537, D = 7, Primes = []\<rparr>) # tr)
   \<and> (\<exists>d\<in>set [\<lparr>CertificateRawData = None, DisplayName = ''c.example'',
                   DomainNames = [''c.example''], ExpireTime = ''2017-07-11T00:00:00Z'',
                   Cert_Id = ''12''\<rparr>,
                 \<lparr>CertificateRawData = None, DisplayName = ''d.example'',
                   DomainNames = [''d.example''], ExpireTime = ''2017-09-29T00:00:00Z'',
                   Cert_Id = ''13''\<rparr>].
         ''12'' = Cert_Id d \<and>
         dueIn (scripted_env [] []) d
           (trace (snd (forRange (certBody (scripted_env [] []) ''app'')
              [\<lparr>CertificateRawData = None, DisplayName = ''c.example'',
                 DomainNames = [''c.example''], ExpireTime = ''2017-07-11T00:00:00Z'',
                 Cert_Id = ''12''\<rparr>,
               \<lparr>CertificateRawData = None, DisplayName = ''d.example'',
                 DomainNames = [''d.example''], ExpireTime = ''2017-09-29T00:00:00Z'',
                 Cert_Id = ''13''\<rparr>] start))))
   \<and> (\<exists>tr. trace (snd (forRange (certBody (scripted_env [] []) ''app'')
              [\<lparr>CertificateRawData = None, DisplayName = ''d.example'',
                 DomainNames = [''d.example''], ExpireTime = ''2017-09-29T00:00:00Z'',
                 Cert_Id = ''13''\<rparr>,
               \<lparr>CertificateRawData = None, DisplayName = ''c.example'',
                 DomainNames = [''c.example''], ExpireTime = ''2017-07-11T00:00:00Z'',
                 Cert_Id = ''12''\<rparr>] start)) =
        Ev_Now 1498867200000000000 # Ev_Now 1498867200000000000
          # Ev_GenerateKey 2048 (Inr \<lparr>N = 1000, E = 65537, D = 7, Primes = []\<rparr>) # tr)
   \<and> forRange (certBody (scripted_env [] []) ''app'')
        [\<lparr>CertificateRawData = None, DisplayName = ''bad.example'',
          DomainNames = [''bad.example''], ExpireTime = ''2017-07-11T00:00:00Z'',
          Cert_Id = ''14''\<rparr>,
         \<lparr>CertificateRawData = None, DisplayName = ''c.example'',
          DomainNames = [''c.example''], ExpireTime = ''2017-07-11T00:00:00Z'',
          Cert_Id = ''12''\<rparr>] start =
       (Return (Some ''obtain cert for bad.example: authorize: rate limited''),
        \<lparr>world = \<lparr>keysMade = 2, cache = [], clock = 1498867200000000000\<rparr>,
         trace =
           [Ev_Now 1498867200000000000,
            Ev_GenerateKey 2048 (Inr \<lparr>N = 1000, E = 65537, D = 7, Primes = []\<rparr>),
            Ev_CreateCertificateRequest
              \<lparr>Subject = \<lparr>CommonName = ''bad.example''\<rparr>, DNSNames = [''bad.example'']\<rparr>
              \<lparr>N = 1000, E = 65537, D = 7, Primes = []\<rparr> (Inr ''csr:bad.example''),
            Ev_GenerateKey 2048 (Inr \<lparr>N = 1001, E = 65537, D = 7, Primes = []\<rparr>),
            Ev_Register
              \<lparr>Key = \<lparr>N = 1001, E = 65537, D = 7, Primes = []\<rparr>,
               DirectoryURL = ''https://acme-v01.api.letsencrypt.org/directory''\<rparr> None,
            Ev_Authorize
              \<lparr>Key = \<lparr>N = 1001, E = 65537, D = 7, Primes = []\<rparr>,
               DirectoryURL = ''https://acme-v01.api.letsencrypt.org/directory''\<rparr>
              ''bad.example'' (Inl ''rate limited'')],
         printed = [Log_Updating ''bad.example'' 1499731200000000000]\<rparr>)"
proof -
  let ?c = "\<lparr>CertificateRawData = None, DisplayName = ''c.example'', DomainNames = [''c.example''],
       ExpireTime = ''2017-07-11T00:00:00Z'', Cert_Id = ''12''\<rparr>"
  let ?d = "\<lparr>CertificateRawData = None, DisplayName = ''d.example'', DomainNames = [''d.example''],
       ExpireTime = ''2017-09-29T00:00:00Z'', Cert_Id = ''13''\<rparr>"
  let ?b = "\<lparr>CertificateRawData = None, DisplayName = ''bad.example'',
       DomainNames = [''bad.example''], ExpireTime = ''2017-07-11T00:00:00Z'', Cert_Id = ''14''\<rparr>"
  let ?E = "scripted_env [] []"
  let ?run = "forRange (certBody ?E ''app'') [?c, ?d] start"
  let ?sd = "start\<lparr>trace := [Ev_Now 1498867200000000000],
                   printed := [Log_NothingToDo ''d.example'' 1506643200000000000]\<rparr>"
  let ?sb = "\<lparr>world = \<lparr>keysMade = 2, cache = [], clock = 1498867200000000000\<rparr>,
         trace =
           [Ev_Now 1498867200000000000,
            Ev_GenerateKey 2048 (Inr \<lparr>N = 1000, E = 65537, D = 7, Primes = []\<rparr>),
            Ev_CreateCertificateRequest (requestFor ''bad.example'')
              \<lparr>N = 1000, E = 65537, D = 7, Primes = []\<rparr> (Inr ''csr:bad.example''),
            Ev_GenerateKey 2048 (Inr \<lparr>N = 1001, E = 65537, D = 7, Primes = []\<rparr>),
            Ev_Register (clientWith ?E \<lparr>N = 1001, E = 65537, D = 7, Primes = []\<rparr>) None,
            Ev_Authorize (clientWith ?E \<lparr>N = 1001, E = 65537, D = 7, Primes = []\<rparr>)
              ''bad.example'' (Inl ''rate limited'')],
         printed = [Log_Updating ''bad.example'' 1499731200000000000]\<rparr>"
  let ?patch = "Ev_CertificatesPatch ''app'' ''12''
            \<lparr>CertificateRawData =
               Some \<lparr>PrivateKey = pem_Encode \<lparr>Block_Type = ''RSA PRIVATE KEY'',
                        Block_Bytes = [char_of (1000::int), char_of (65537::int), char_of (7::int)]\<rparr>,
                     PublicCertificate =
                       pem_Encode \<lparr>Block_Type = ''CERTIFICATE'',
                                   Block_Bytes = ''leaf for csr:c.example''\<rparr>
                       @ pem_Encode \<lparr>Block_Type = ''CERTIFICATE'', Block_Bytes = ''issuer''\<rparr>\<rparr>,
             DisplayName = [], DomainNames = [], ExpireTime = [], Cert_Id = []\<rparr>
            ''certificate_raw_data'' None"
  have d1: "DomainNames ?d = ''d.example'' # []" by simp
  have d2: "time_Parse_RFC3339 ?E (ExpireTime ?d) = Inr 1506643200000000000"
    by (simp add: scripted_Parse_def)
  have c1: "DomainNames ?c = ''c.example'' # []" by simp
  have c2: "time_Parse_RFC3339 ?E (ExpireTime ?c) = Inr 1499731200000000000"
    by (simp add: scripted_Parse_def)
  have n: "time_Now ?E (world start) = (1498867200000000000, world start)"
    by (simp add: start_def)
  have nd: "time_Now ?E (world ?sd) = (1498867200000000000, world start)"
    by (simp add: start_def)
  have far: "(1498867200000000000::int) + 2592000000000000 < 1506643200000000000" by simp
  have near: "\<not> (1498867200000000000::int) + 2592000000000000 < 1499731200000000000" by simp
  have run: "?run = (fst ?run, snd ?run)" by simp
  have g: "fst (rsa_GenerateKey ?E 2048 (world start)) =
      Inr \<lparr>N = 1000, E = 65537, D = 7, Primes = []\<rparr>"
    by (simp add: scripted_GenerateKey_def start_def)
  from certificate_outside_window [OF d1 d2 n, of "''app''" "[]", THEN conjunct1, THEN mp, OF far]
  have 1: "forRange (certBody ?E ''app'') [?d] start = (Next, ?sd)"
    by (simp add: start_def)
  from certificate_outside_window [OF c1 c2 n, of "''app''" "[]", THEN conjunct2, THEN conjunct1,
      THEN mp, OF near]
  have 2: "\<exists>tr. trace (snd (certBody ?E ''app'' ?c start)) =
        Ev_Now 1498867200000000000
          # Ev_GenerateKey 2048 (Inr \<lparr>N = 1000, E = 65537, D = 7, Primes = []\<rparr>) # tr"
    unfolding g by (auto simp: start_def)
  from certificate_outside_window [OF c1 c2 n, where appID = "''app''" and ?s0.0 = start
      and certs = "[?c, ?d]" and res = "fst ?run" and s' = "snd ?run",
      THEN conjunct2, THEN conjunct2, THEN conjunct1, THEN mp, OF run]
  obtain tr where t: "trace (snd ?run) = trace start @ tr"
    and p: "\<forall>app ident upd mask x.
                   Ev_CertificatesPatch app ident upd mask x \<in> set tr \<longrightarrow>
                     (\<exists>d\<in>set [?c, ?d]. ident = Cert_Id d \<and> dueIn ?E d tr)"
    by blast
  from t have tr: "tr = trace (snd ?run)" by (simp add: start_def)
  have "?patch \<in> set (trace (snd ?run))"
    unfolding scripted_two_certificates by simp
  with p tr have 3: "\<exists>d\<in>set [?c, ?d]. ''12'' = Cert_Id d \<and> dueIn ?E d (trace (snd ?run))"
    by blast
  from 1 near have h4: "forRange (certBody ?E ''app'') [?d] start = (Next, ?sd)
      \<and> \<not> (1498867200000000000::int) + 2592000000000000 < 1499731200000000000"
    by (rule conjI)
  from certificate_outside_window [OF c1 c2 nd, where appID = "''app''" and earlier = "[?d]"
      and ?s1.0 = start and later = "[]",
      THEN conjunct2, THEN conjunct2, THEN conjunct2, THEN conjunct1, THEN mp, OF h4]
  have 4: "\<exists>tr. trace (snd (forRange (certBody ?E ''app'') [?d, ?c] start)) =
        Ev_Now 1498867200000000000 # Ev_Now 1498867200000000000
          # Ev_GenerateKey 2048 (Inr \<lparr>N = 1000, E = 65537, D = 7, Primes = []\<rparr>) # tr"
    unfolding g by simp
  have h5: "forRange (certBody ?E ''app'') [?b] start =
        (Return (Some ''obtain cert for bad.example: authorize: rate limited''), ?sb)
      \<and> Return (Some ''obtain cert for bad.example: authorize: rate limited'') \<noteq> Next"
    by (simp only: scripted_bad_certificate) simp
  from certificate_outside_window [OF c1 c2 n, where appID = "''app''" and earlier = "[?b]"
      and ?s1.0 = start and later = "[]",
      THEN conjunct2, THEN conjunct2, THEN conjunct2, THEN conjunct2, THEN mp, OF h5]
  have 5: "forRange (certBody ?E ''app'') [?b, ?c] start =
        (Return (Some ''obtain cert for bad.example: authorize: rate limited''), ?sb)"
    by simp
  have u: "acme_LetsEncryptURL ?E = ''https://acme-v01.api.letsencrypt.org/directory''"
    by simp
  show ?thesis
    apply (intro conjI)
        apply (rule 1)
       apply (rule 2)
      apply (rule 3)
     apply (rule 4)
    apply (rule 5 [unfolded u])
    done
qed

text \<open>
  Claim C2 says of every certificate whose expiry is within 30 days that it triggers an
  issuance attempt. Here the listing holds two certificates, both expiring ten days after
  the clock, and the certificate authority refuses the first: the run returns the error of
  the first certificate, and the trace and the printed lines show that for
  \<open>c.example\<close> the clock was not read, no key was generated and no certificate was
  requested.
\<close>

theorem certificate_outside_window_counterexample:
  "createUpdate
     (scripted_env []
        [\<lparr>CertificateRawData = None, DisplayName = ''bad.example'',
          DomainNames = [''bad.example''], ExpireTime = ''2017-07-11T00:00:00Z'',
          Cert_Id = ''14''\<rparr>,
         \<lparr>CertificateRawData = None, DisplayName = ''c.example'',
          DomainNames = [''c.example''], ExpireTime = ''2017-07-11T00:00:00Z'',
          Cert_Id = ''12''\<rparr>])
     start =
   (Return (Some ''obtain cert for bad.example: authorize: rate limited''),
    \<lparr>world = \<lparr>keysMade = 2, cache = [], clock = 1498867200000000000\<rparr>,
     trace =
       [Ev_DefaultClient None, Ev_ApiNew None,
        Ev_DomainMappingsList ''app'' (Inr []),
        Ev_CertificatesList ''app''
          (Inr [\<lparr>CertificateRawData = None, DisplayName = ''bad.example'',
                  DomainNames = [''bad.example''], ExpireTime = ''2017-07-11T00:00:00Z'',
                  Cert_Id = ''14''\<rparr>,
                \<lparr>CertificateRawData = None, DisplayName = ''c.example'',
                  DomainNames = [''c.example''], ExpireTime = ''2017-07-11T00:00:00Z'',
                  Cert_Id = ''12''\<rparr>]),
        Ev_Now 1498867200000000000,
        Ev_GenerateKey 2048 (Inr \<lparr>N = 1000, E = 65537, D = 7, Primes = []\<rparr>),
        Ev_CreateCertificateRequest
          \<lparr>Subject = \<lparr>CommonName = ''bad.example''\<rparr>, DNSNames = [''bad.example'']\<rparr>
          \<lparr>N = 1000, E = 65537, D = 7, Primes = []\<rparr> (Inr ''csr:bad.example''),
        Ev_GenerateKey 2048 (Inr \<lparr>N = 1001, E = 65537, D = 7, Primes = []\<rparr>),
        Ev_Register
          \<lparr>Key = \<lparr>N = 1001, E = 65537, D = 7, Primes = []\<rparr>,
           DirectoryURL = ''https://acme-v01.api.letsencrypt.org/directory''\<rparr> None,
        Ev_Authorize
          \<lparr>Key = \<lparr>N = 1001, E = 65537, D = 7, Primes = []\<rparr>,
           DirectoryURL = ''https://acme-v01.api.letsencrypt.org/directory''\<rparr>
          ''bad.example'' (Inl ''rate limited'')],
     printed = [Log_FoundDomains 0, Log_Blank, Log_FoundCertificates 2,
                Log_Updating ''bad.example'' 1499731200000000000]\<rparr>)
   \<and> time_Parse_RFC3339 (scripted_env [] []) ''2017-07-11T00:00:00Z'' =
       Inr 1499731200000000000
   \<and> \<not> clock (world start) + updateBefore < 1499731200000000000"
  by (simp add: createUpdate_def call_def Fprintf_def certBody_def scripted_bad_run
      scripted_Parse_def start_def updateBefore_def time_Hour_def Let_def)



text \<open>
  Claim C9. The loop body reads \<open>c.DomainNames[0]\<close> before anything else: at a
  certificate with no domain name the loop panics with an index out of range, whatever its
  expiry, and nothing else is done. So when the loop runs to its end, every certificate of
  the listing had at least one domain name.
\<close>

theorem empty_DomainNames_panics:
  "(DomainNames c = [] \<longrightarrow>
      forRange (certBody env appID) (c # cs) s = (Panic ''runtime error: index out of range'', s))
   \<and> (forRange (certBody env appID) cs s = (Next, s') \<longrightarrow> (\<forall>c\<in>set cs. DomainNames c \<noteq> []))"
  using forRange_certBody_Next [of env appID cs s s']
  by (simp add: certBody_empty_DomainNames)

theorem empty_DomainNames_panics_witness:
  "forRange (certBody (scripted_env [] []) ''app'')
     [\<lparr>CertificateRawData = None, DisplayName = ''nameless'', DomainNames = [],
       ExpireTime = ''2017-09-29T00:00:00Z'', Cert_Id = ''15''\<rparr>,
      \<lparr>CertificateRawData = None, DisplayName = ''d.example'', DomainNames = [''d.example''],
       ExpireTime = ''2017-09-29T00:00:00Z'', Cert_Id = ''13''\<rparr>] start =
     (Panic ''runtime error: index out of range'', start)
   \<and> fst (forRange (certBody (scripted_env [] []) ''app'')
       [\<lparr>CertificateRawData = None, DisplayName = ''d.example'', DomainNames = [''d.example''],
         ExpireTime = ''2017-09-29T00:00:00Z'', Cert_Id = ''13''\<rparr>] start) = Next
   \<and> DomainNames \<lparr>CertificateRawData = None, DisplayName = ''d.example'',
         DomainNames = [''d.example''], ExpireTime = ''2017-09-29T00:00:00Z'',
         Cert_Id = ''13''\<rparr> \<noteq> []"
proof -
  let ?n = "\<lparr>CertificateRawData = None, DisplayName = ''nameless'', DomainNames = [],
       ExpireTime = ''2017-09-29T00:00:00Z'', Cert_Id = ''15''\<rparr>"
  let ?d = "\<lparr>CertificateRawData = None, DisplayName = ''d.example'', DomainNames = [''d.example''],
       ExpireTime = ''2017-09-29T00:00:00Z'', Cert_Id = ''13''\<rparr>"
  let ?E = "scripted_env [] []"
  note a = empty_DomainNames_panics [where c = ?n and env = ?E and appID = "''app''"
      and cs = "[?d]" and s = start, THEN conjunct1, THEN mp]
  note b = empty_DomainNames_panics [where env = ?E and appID = "''app''"
      and cs = "[?d]" and s = start
      and s' = "snd (forRange (certBody ?E ''app'') [?d] start)", THEN conjunct2, THEN mp]
  have n: "fst (forRange (certBody ?E ''app'') [?d] start) = Next"
    by (simp add: certBody_def call_def Fprintf_def scripted_Parse_def start_def
        updateBefore_def time_Hour_def)
  then have "forRange (certBody ?E ''app'') [?d] start =
      (Next, snd (forRange (certBody ?E ''app'') [?d] start))"
    by (metis prod.collapse)
  from b [OF this] have "DomainNames ?d \<noteq> []" by simp
  moreover have "forRange (certBody ?E ''app'') [?n, ?d] start =
      (Panic ''runtime error: index out of range'', start)"
    by (rule a) simp
  ultimately show ?thesis using n by blast
qed

section \<open>The challenge handler\<close>

text \<open>
  Claim C3. The challenge handler looks the request path up in the cache. If the cache
  returns an item, the response has status 200 and its body is the item's value,
  unchanged; if the cache reports a miss, the response is 404; if the cache returns any
  other error, the response is 500 (and so never 404). The request method is not read.
  In each case the lookup is the only call the handler makes.
\<close>

theorem challengeHandler_response:
  "(memcache_Get env path (world s) = (Inr item, w') \<longrightarrow>
      challengeHandler env path s =
        (\<lparr>statusCode = 200, body = Item_Value item\<rparr>,
         s\<lparr>world := w', trace := trace s @ [Ev_MemcacheGet path (Inr item)]\<rparr>))
   \<and> (memcache_Get env path (world s) = (Inl ErrCacheMiss, w') \<longrightarrow>
      challengeHandler env path s =
        (\<lparr>statusCode = 404, body = ''404 page not found'' @ [CHR 0x0A]\<rparr>,
         s\<lparr>world := w', trace := trace s @ [Ev_MemcacheGet path (Inl ErrCacheMiss)]\<rparr>))
   \<and> (memcache_Get env path (world s) = (Inl (ErrOther err), w') \<longrightarrow>
      challengeHandler env path s =
        (\<lparr>statusCode = 500, body = ''memcache get: '' @ err @ [CHR 0x0A]\<rparr>,
         s\<lparr>world := w', trace := trace s @ [Ev_MemcacheGet path (Inl (ErrOther err))]\<rparr>))"
  by (simp add: challengeHandler_def call_def StatusOK_def http_NotFound_def http_Error_def
      StatusInternalServerError_def)

theorem challengeHandler_response_witness:
  "(memcache_Get (scripted_env [] []) ''/.well-known/acme-challenge/t2'' (world published) =
      (Inr \<lparr>Item_Key = ''/.well-known/acme-challenge/t2'', Item_Value = ''t2.thumbprint''\<rparr>,
       world published)
    \<and> fst (challengeHandler (scripted_env [] []) ''/.well-known/acme-challenge/t2'' published) =
        \<lparr>statusCode = 200, body = ''t2.thumbprint''\<rparr>)
   \<and> (memcache_Get (scripted_env [] []) ''/.well-known/acme-challenge/t3'' (world published) =
      (Inl ErrCacheMiss, world published)
    \<and> fst (challengeHandler (scripted_env [] []) ''/.well-known/acme-challenge/t3'' published) =
        \<lparr>statusCode = 404, body = ''404 page not found'' @ [CHR 0x0A]\<rparr>)
   \<and> (memcache_Get (scripted_env [] []) ''/.well-known/acme-challenge/broken'' (world published) =
      (Inl (ErrOther ''server error''), world published)
    \<and> fst (challengeHandler (scripted_env [] []) ''/.well-known/acme-challenge/broken'' published) =
        \<lparr>statusCode = 500, body = ''memcache get: server error'' @ [CHR 0x0A]\<rparr>)"
  using
    challengeHandler_response [of "scripted_env [] []" "''/.well-known/acme-challenge/t2''"
      published "\<lparr>Item_Key = ''/.well-known/acme-challenge/t2'', Item_Value = ''t2.thumbprint''\<rparr>"
      "world published"]
    challengeHandler_response [of "scripted_env [] []" "''/.well-known/acme-challenge/t3''"
      published _ "world published"]
    challengeHandler_response [of "scripted_env [] []" "''/.well-known/acme-challenge/broken''"
      published _ "world published" "''server error''"]
  by (simp add: scripted_Get_def published_def)

section \<open>Authorization and issuance\<close>

text \<open>
  Claim C4. When the certificate authority returns an authorization whose status is
  already valid, \<open>authorize\<close> returns no error, and the request for the authorization is
  the only call it makes: nothing is written to the cache, no challenge is accepted and
  the authorization is not polled, whatever challenges the authorization lists.
\<close>

theorem authorize_already_valid:
  assumes "acme_Authorize env client domain (world s) = (Inr a, w')"
    and "Status a = acme_StatusValid env"
  shows "authorize env client domain s =
    (None, s\<lparr>world := w', trace := trace s @ [Ev_Authorize client domain (Inr a)]\<rparr>)"
  using assms by (simp add: authorize_def call_def)

theorem authorize_already_valid_witness:
  "acme_Authorize (scripted_env [] []) \<lparr>Key = \<lparr>N = 1001, E = 65537, D = 7, Primes = []\<rparr>,
       DirectoryURL = ''https://acme-v01.api.letsencrypt.org/directory''\<rparr>
     ''valid.example'' (world start) =
     (Inr \<lparr>URI = ''authz/valid.example'', Status = ''valid'',
        Challenges = [\<lparr>Challenge_Type = ''http-01'', Token = ''t0''\<rparr>]\<rparr>, world start)
   \<and> Status \<lparr>URI = ''authz/valid.example'', Status = ''valid'',
        Challenges = [\<lparr>Challenge_Type = ''http-01'', Token = ''t0''\<rparr>]\<rparr> =
       acme_StatusValid (scripted_env [] [])
   \<and> authorize (scripted_env [] []) \<lparr>Key = \<lparr>N = 1001, E = 65537, D = 7, Primes = []\<rparr>,
       DirectoryURL = ''https://acme-v01.api.letsencrypt.org/directory''\<rparr>
       ''valid.example'' start =
      (None, start\<lparr>world := world start, trace := trace start @
         [Ev_Authorize \<lparr>Key = \<lparr>N = 1001, E = 65537, D = 7, Primes = []\<rparr>,
            DirectoryURL = ''https://acme-v01.api.letsencrypt.org/directory''\<rparr>
            ''valid.example''
            (Inr \<lparr>URI = ''authz/valid.example'', Status = ''valid'',
        Challenges = [\<lparr>Challenge_Type = ''http-01'', Token = ''t0''\<rparr>]\<rparr>)]\<rparr>)"
  using authorize_already_valid [of "scripted_env [] []"
      "\<lparr>Key = \<lparr>N = 1001, E = 65537, D = 7, Primes = []\<rparr>,
        DirectoryURL = ''https://acme-v01.api.letsencrypt.org/directory''\<rparr>"
      "''valid.example''" start
      "\<lparr>URI = ''authz/valid.example'', Status = ''valid'',
        Challenges = [\<lparr>Challenge_Type = ''http-01'', Token = ''t0''\<rparr>]\<rparr>" "world start"]
  by (simp add: scripted_Authorize_def)

text \<open>
  Claim C6. Let an authorization be not yet valid and offer no challenge of type http-01.
  When the authority returns it, \<open>authorize\<close> fails with the error
  \<open>no http-01 challenge offered\<close> and has made no other call. An \<open>obtainCert\<close> run
  in which the authority returned it fails with that error, the request for the
  authorization is the last call of the run, and nothing was written to the cache.
\<close>

theorem no_http01_challenge:
  assumes st: "Status a \<noteq> acme_StatusValid env"
    and no: "\<forall>c\<in>set (Challenges a). Challenge_Type c \<noteq> ''http-01''"
  shows "(acme_Authorize env client domain (world s) = (Inr a, w') \<longrightarrow>
            authorize env client domain s =
              (Some ''no http-01 challenge offered'',
               s\<lparr>world := w', trace := trace s @ [Ev_Authorize client domain (Inr a)]\<rparr>))
     \<and> (obtainCert env domain s = (res, s') \<and> trace s' = trace s @ tr
          \<and> Ev_Authorize cl name (Inr a) \<in> set tr \<longrightarrow>
            res = ([], [], Some ''no http-01 challenge offered'')
            \<and> last tr = Ev_Authorize cl name (Inr a)
            \<and> (\<forall>item r. Ev_MemcacheSet item r \<notin> set tr))"
proof -
  from no have f: "findHTTP01 (Challenges a) = None"
    by (simp add: findHTTP01_None)
  have "acme_Authorize env client domain (world s) = (Inr a, w') \<Longrightarrow>
            authorize env client domain s =
              (Some ''no http-01 challenge offered'',
               s\<lparr>world := w', trace := trace s @ [Ev_Authorize client domain (Inr a)]\<rparr>)"
    using st f by (simp add: authorize_def call_def)
  moreover have "obtainCert env domain s = (res, s') \<and> trace s' = trace s @ tr
          \<and> Ev_Authorize cl name (Inr a) \<in> set tr \<Longrightarrow>
            res = ([], [], Some ''no http-01 challenge offered'')
            \<and> last tr = Ev_Authorize cl name (Inr a)
            \<and> (\<forall>item r. Ev_MemcacheSet item r \<notin> set tr)"
    using obtainCert_no_http01 [of env domain s res s' tr cl name a] st f by blast
  ultimately show ?thesis by blast
qed

theorem no_http01_challenge_witness:
  "authorize (scripted_env [] [])
       (clientWith (scripted_env [] []) \<lparr>N = 1001, E = 65537, D = 7, Primes = []\<rparr>)
       ''dns.example'' start =
     (Some ''no http-01 challenge offered'',
      start\<lparr>world := world start, trace := trace start @
        [Ev_Authorize
           (clientWith (scripted_env [] []) \<lparr>N = 1001, E = 65537, D = 7, Primes = []\<rparr>)
           ''dns.example''
           (Inr \<lparr>URI = ''authz/dns.example'', Status = ''pending'',
                 Challenges = [\<lparr>Challenge_Type = ''dns-01'', Token = ''t1''\<rparr>]\<rparr>)]\<rparr>)
   \<and> fst (obtainCert (scripted_env [] []) ''dns.example'' start) =
       ([], [], Some ''no http-01 challenge offered'')
   \<and> last (trace (snd (obtainCert (scripted_env [] []) ''dns.example'' start))) =
       Ev_Authorize
         (clientWith (scripted_env [] []) \<lparr>N = 1001, E = 65537, D = 7, Primes = []\<rparr>)
         ''dns.example''
         (Inr \<lparr>URI = ''authz/dns.example'', Status = ''pending'',
               Challenges = [\<lparr>Challenge_Type = ''dns-01'', Token = ''t1''\<rparr>]\<rparr>)"
proof -
  let ?E = "scripted_env [] []"
  let ?a = "\<lparr>URI = ''authz/dns.example'', Status = ''pending'',
             Challenges = [\<lparr>Challenge_Type = ''dns-01'', Token = ''t1''\<rparr>]\<rparr>"
  let ?cl = "clientWith ?E \<lparr>N = 1001, E = 65537, D = 7, Primes = []\<rparr>"
  have st: "Status ?a \<noteq> acme_StatusValid ?E" by simp
  have no: "\<forall>c\<in>set (Challenges ?a). Challenge_Type c \<noteq> ''http-01''" by simp
  have au: "acme_Authorize ?E ?cl ''dns.example'' (world start) = (Inr ?a, world start)"
    by (simp add: scripted_Authorize_def)
  have run: "obtainCert ?E ''dns.example'' start =
      (fst (obtainCert ?E ''dns.example'' start), snd (obtainCert ?E ''dns.example'' start))
    \<and> trace (snd (obtainCert ?E ''dns.example'' start)) =
        trace start @ trace (snd (obtainCert ?E ''dns.example'' start))
    \<and> Ev_Authorize ?cl ''dns.example'' (Inr ?a)
        \<in> set (trace (snd (obtainCert ?E ''dns.example'' start)))"
    by (simp add: scripted_dns_run) (simp add: start_def)
  from no_http01_challenge [OF st no, where client = ?cl and domain = "''dns.example''"
      and s = start and w' = "world start"
      and res = "fst (obtainCert ?E ''dns.example'' start)"
      and s' = "snd (obtainCert ?E ''dns.example'' start)"
      and tr = "trace (snd (obtainCert ?E ''dns.example'' start))"
      and cl = ?cl and name = "''dns.example''"] au run
  show ?thesis by simp
qed

text \<open>
  Claim C7. Every run of \<open>obtainCert\<close> takes its keys from \<open>rsa_GenerateKey\<close> of
  the libraries, asked for 2048 bits. The first call generates the certificate key in the
  world of the call; when it fails the run ends there with the error \<open>cert key: ...\<close>.
  Otherwise \<open>x509_CreateCertificateRequest\<close> is called with that key and the request
  whose subject common name is the domain and whose DNS names are the one-element list of
  the domain; when it fails the run ends with \<open>csr: ...\<close>. Otherwise the account key is
  generated by a second call, in the world the request left; when it fails the run ends
  with \<open>account key: ...\<close>. Otherwise the ACME client whose key is the account key is
  registered; when that fails the run ends with \<open>register: ...\<close>. After a successful
  registration the run is \<open>authorize\<close> and \<open>acme_CreateCert\<close> under that client, with
  the certificate request built from the certificate key, and the private key returned is
  the PEM block of the certificate key; these later calls generate no key, build no
  request and register no client, and every one of them that names a client names the
  client of the account key. Last, \<open>obtainCert\<close> takes no key as an argument and keeps
  none: its result and its calls do not depend on the calls and lines recorded before the
  run, so the keys of a run are the ones the library generates in that run.
\<close>

theorem obtainCert_keys_and_csr:
  "(rsa_GenerateKey env 2048 (world s) = (Inl err, w1) \<longrightarrow>
      obtainCert env domain s =
        (([], [], Some (''cert key: '' @ err)),
         s\<lparr>world := w1, trace := trace s @ [Ev_GenerateKey 2048 (Inl err)]\<rparr>))
   \<and> (rsa_GenerateKey env 2048 (world s) = (Inr certKey, w1)
      \<and> x509_CreateCertificateRequest env
           \<lparr>Subject = \<lparr>CommonName = domain\<rparr>, DNSNames = [domain]\<rparr> certKey w1 = (Inl err, w2)
      \<longrightarrow> obtainCert env domain s =
        (([], [], Some (''csr: '' @ err)),
         s\<lparr>world := w2,
           trace := trace s @
             [Ev_GenerateKey 2048 (Inr certKey),
              Ev_CreateCertificateRequest
                \<lparr>Subject = \<lparr>CommonName = domain\<rparr>, DNSNames = [domain]\<rparr> certKey (Inl err)]\<rparr>))
   \<and> (rsa_GenerateKey env 2048 (world s) = (Inr certKey, w1)
      \<and> x509_CreateCertificateRequest env
           \<lparr>Subject = \<lparr>CommonName = domain\<rparr>, DNSNames = [domain]\<rparr> certKey w1 = (Inr csr, w2)
      \<and> rsa_GenerateKey env 2048 w2 = (Inl err, w3)
      \<longrightarrow> obtainCert env domain s =
        (([], [], Some (''account key: '' @ err)),
         s\<lparr>world := w3,
           trace := trace s @
             [Ev_GenerateKey 2048 (Inr certKey),
              Ev_CreateCertificateRequest
                \<lparr>Subject = \<lparr>CommonName = domain\<rparr>, DNSNames = [domain]\<rparr> certKey (Inr csr),
              Ev_GenerateKey 2048 (Inl err)]\<rparr>))
   \<and> (rsa_GenerateKey env 2048 (world s) = (Inr certKey, w1)
      \<and> x509_CreateCertificateRequest env
           \<lparr>Subject = \<lparr>CommonName = domain\<rparr>, DNSNames = [domain]\<rparr> certKey w1 = (Inr csr, w2)
      \<and> rsa_GenerateKey env 2048 w2 = (Inr accountKey, w3)
      \<and> acme_Register env \<lparr>Key = accountKey, DirectoryURL = acme_LetsEncryptURL env\<rparr> w3 =
           (Some err, w4)
      \<longrightarrow> obtainCert env domain s =
        (([], [], Some (''register: '' @ err)),
         s\<lparr>world := w4,
           trace := trace s @
             [Ev_GenerateKey 2048 (Inr certKey),
              Ev_CreateCertificateRequest
                \<lparr>Subject = \<lparr>CommonName = domain\<rparr>, DNSNames = [domain]\<rparr> certKey (Inr csr),
              Ev_GenerateKey 2048 (Inr accountKey),
              Ev_Register \<lparr>Key = accountKey, DirectoryURL = acme_LetsEncryptURL env\<rparr>
                (Some err)]\<rparr>))
   \<and> (rsa_GenerateKey env 2048 (world s) = (Inr certKey, w1)
      \<and> x509_CreateCertificateRequest env
           \<lparr>Subject = \<lparr>CommonName = domain\<rparr>, DNSNames = [domain]\<rparr> certKey w1 = (Inr csr, w2)
      \<and> rsa_GenerateKey env 2048 w2 = (Inr accountKey, w3)
      \<and> acme_Register env \<lparr>Key = accountKey, DirectoryURL = acme_LetsEncryptURL env\<rparr> w3 =
           (None, w4)
      \<longrightarrow>
        obtainCert env domain s =
          (case authorize env \<lparr>Key = accountKey, DirectoryURL = acme_LetsEncryptURL env\<rparr> domain
                  (s\<lparr>world := w4,
                     trace := trace s @
                       [Ev_GenerateKey 2048 (Inr certKey),
                        Ev_CreateCertificateRequest
                          \<lparr>Subject = \<lparr>CommonName = domain\<rparr>, DNSNames = [domain]\<rparr>
                          certKey (Inr csr),
                        Ev_GenerateKey 2048 (Inr accountKey),
                        Ev_Register \<lparr>Key = accountKey, DirectoryURL = acme_LetsEncryptURL env\<rparr>
                          None]\<rparr>) of
             (Some err, s5) \<Rightarrow> (([], [], Some err), s5)
           | (None, s5) \<Rightarrow>
               (case acme_CreateCert env
                       \<lparr>Key = accountKey, DirectoryURL = acme_LetsEncryptURL env\<rparr>
                       csr expiry bundle_chain (world s5) of
                  (Inl err, w6) \<Rightarrow>
                    (([], [], Some (''create cert: '' @ err)),
                     s5\<lparr>world := w6,
                        trace := trace s5 @
                          [Ev_CreateCert \<lparr>Key = accountKey, DirectoryURL = acme_LetsEncryptURL env\<rparr>
                             csr expiry bundle_chain (Inl err)]\<rparr>)
                | (Inr certDER, w6) \<Rightarrow>
                    ((encodeChain env certDER [],
                      pem_EncodeToMemory env
                        \<lparr>Block_Type = ''RSA PRIVATE KEY'',
                         Block_Bytes = x509_MarshalPKCS1PrivateKey env certKey\<rparr>,
                      None),
                     s5\<lparr>world := w6,
                        trace := trace s5 @
                          [Ev_CreateCert \<lparr>Key = accountKey, DirectoryURL = acme_LetsEncryptURL env\<rparr>
                             csr expiry bundle_chain (Inr certDER)]\<rparr>)))
        \<and> (\<exists>rest.
              trace (snd (obtainCert env domain s)) =
                trace s @
                  [Ev_GenerateKey 2048 (Inr certKey),
                   Ev_CreateCertificateRequest
                     \<lparr>Subject = \<lparr>CommonName = domain\<rparr>, DNSNames = [domain]\<rparr> certKey (Inr csr),
                   Ev_GenerateKey 2048 (Inr accountKey),
                   Ev_Register \<lparr>Key = accountKey, DirectoryURL = acme_LetsEncryptURL env\<rparr> None]
                  @ rest
              \<and> (\<forall>b x. Ev_GenerateKey b x \<notin> set rest)
              \<and> (\<forall>req k x. Ev_CreateCertificateRequest req k x \<notin> set rest)
              \<and> (\<forall>cl x. Ev_Register cl x \<notin> set rest)
              \<and> (\<forall>cl n x. Ev_Authorize cl n x \<in> set rest \<longrightarrow>
                    cl = \<lparr>Key = accountKey, DirectoryURL = acme_LetsEncryptURL env\<rparr>)
              \<and> (\<forall>cl ch x. Ev_Accept cl ch x \<in> set rest \<longrightarrow>
                    cl = \<lparr>Key = accountKey, DirectoryURL = acme_LetsEncryptURL env\<rparr>)
              \<and> (\<forall>cl u x. Ev_WaitAuthorization cl u x \<in> set rest \<longrightarrow>
                    cl = \<lparr>Key = accountKey, DirectoryURL = acme_LetsEncryptURL env\<rparr>)
              \<and> (\<forall>cl q e b x. Ev_CreateCert cl q e b x \<in> set rest \<longrightarrow>
                    cl = \<lparr>Key = accountKey, DirectoryURL = acme_LetsEncryptURL env\<rparr>
                    \<and> q = csr)))
   \<and> obtainCert env domain (s\<lparr>trace := t @ trace s, printed := p @ printed s\<rparr>) =
       (case obtainCert env domain s of
          (res, s') \<Rightarrow> (res, s'\<lparr>trace := t @ trace s', printed := p @ printed s'\<rparr>))"
proof (intro conjI impI)
  assume "rsa_GenerateKey env 2048 (world s) = (Inl err, w1)"
  then show "obtainCert env domain s =
        (([], [], Some (''cert key: '' @ err)),
         s\<lparr>world := w1, trace := trace s @ [Ev_GenerateKey 2048 (Inl err)]\<rparr>)"
    by (rule obtainCert_no_certKey)
next
  assume "rsa_GenerateKey env 2048 (world s) = (Inr certKey, w1)
      \<and> x509_CreateCertificateRequest env (requestFor domain) certKey w1 = (Inl err, w2)"
  then show "obtainCert env domain s =
        (([], [], Some (''csr: '' @ err)),
         s\<lparr>world := w2,
           trace := trace s @
             [Ev_GenerateKey 2048 (Inr certKey),
              Ev_CreateCertificateRequest (requestFor domain) certKey (Inl err)]\<rparr>)"
    by (elim conjE) (rule obtainCert_no_csr)
next
  assume "rsa_GenerateKey env 2048 (world s) = (Inr certKey, w1)
      \<and> x509_CreateCertificateRequest env (requestFor domain) certKey w1 = (Inr csr, w2)
      \<and> rsa_GenerateKey env 2048 w2 = (Inl err, w3)"
  then show "obtainCert env domain s =
        (([], [], Some (''account key: '' @ err)),
         s\<lparr>world := w3,
           trace := trace s @
             [Ev_GenerateKey 2048 (Inr certKey),
              Ev_CreateCertificateRequest (requestFor domain) certKey (Inr csr),
              Ev_GenerateKey 2048 (Inl err)]\<rparr>)"
    by (elim conjE) (rule obtainCert_no_accountKey)
next
  assume "rsa_GenerateKey env 2048 (world s) = (Inr certKey, w1)
      \<and> x509_CreateCertificateRequest env (requestFor domain) certKey w1 = (Inr csr, w2)
      \<and> rsa_GenerateKey env 2048 w2 = (Inr accountKey, w3)
      \<and> acme_Register env (clientWith env accountKey) w3 = (Some err, w4)"
  then show "obtainCert env domain s =
        (([], [], Some (''register: '' @ err)),
         s\<lparr>world := w4,
           trace := trace s @
             [Ev_GenerateKey 2048 (Inr certKey),
              Ev_CreateCertificateRequest (requestFor domain) certKey (Inr csr),
              Ev_GenerateKey 2048 (Inr accountKey),
              Ev_Register (clientWith env accountKey) (Some err)]\<rparr>)"
    by (elim conjE) (rule obtainCert_not_registered)
next
  assume a: "rsa_GenerateKey env 2048 (world s) = (Inr certKey, w1)
      \<and> x509_CreateCertificateRequest env (requestFor domain) certKey w1 = (Inr csr, w2)
      \<and> rsa_GenerateKey env 2048 w2 = (Inr accountKey, w3)
      \<and> acme_Register env (clientWith env accountKey) w3 = (None, w4)"
  then show "obtainCert env domain s =
          (case authorize env (clientWith env accountKey) domain
                  (s\<lparr>world := w4,
                     trace := trace s @
                       [Ev_GenerateKey 2048 (Inr certKey),
                        Ev_CreateCertificateRequest (requestFor domain) certKey (Inr csr),
                        Ev_GenerateKey 2048 (Inr accountKey),
                        Ev_Register (clientWith env accountKey) None]\<rparr>) of
             (Some err, s5) \<Rightarrow> (([], [], Some err), s5)
           | (None, s5) \<Rightarrow>
               (case acme_CreateCert env (clientWith env accountKey)
                       csr expiry bundle_chain (world s5) of
                  (Inl err, w6) \<Rightarrow>
                    (([], [], Some (''create cert: '' @ err)),
                     s5\<lparr>world := w6,
                        trace := trace s5 @
                          [Ev_CreateCert (clientWith env accountKey)
                             csr expiry bundle_chain (Inl err)]\<rparr>)
                | (Inr certDER, w6) \<Rightarrow>
                    ((encodeChain env certDER [],
                      pem_EncodeToMemory env
                        \<lparr>Block_Type = ''RSA PRIVATE KEY'',
                         Block_Bytes = x509_MarshalPKCS1PrivateKey env certKey\<rparr>,
                      None),
                     s5\<lparr>world := w6,
                        trace := trace s5 @
                          [Ev_CreateCert (clientWith env accountKey)
                             csr expiry bundle_chain (Inr certDER)]\<rparr>)))"
    by (elim conjE) (rule obtainCert_registered)
  from a show "\<exists>rest.
              trace (snd (obtainCert env domain s)) =
                trace s @
                  [Ev_GenerateKey 2048 (Inr certKey),
                   Ev_CreateCertificateRequest (requestFor domain) certKey (Inr csr),
                   Ev_GenerateKey 2048 (Inr accountKey),
                   Ev_Register (clientWith env accountKey) None]
                  @ rest
              \<and> (\<forall>b x. Ev_GenerateKey b x \<notin> set rest)
              \<and> (\<forall>req k x. Ev_CreateCertificateRequest req k x \<notin> set rest)
              \<and> (\<forall>cl x. Ev_Register cl x \<notin> set rest)
              \<and> (\<forall>cl n x. Ev_Authorize cl n x \<in> set rest \<longrightarrow> cl = clientWith env accountKey)
              \<and> (\<forall>cl ch x. Ev_Accept cl ch x \<in> set rest \<longrightarrow> cl = clientWith env accountKey)
              \<and> (\<forall>cl u x. Ev_WaitAuthorization cl u x \<in> set rest \<longrightarrow>
                    cl = clientWith env accountKey)
              \<and> (\<forall>cl q e b x. Ev_CreateCert cl q e b x \<in> set rest \<longrightarrow>
                    cl = clientWith env accountKey \<and> q = csr)"
    by (elim conjE) (rule obtainCert_rest_events)
next
  show "obtainCert env domain (s\<lparr>trace := t @ trace s, printed := p @ printed s\<rparr>) =
       (case obtainCert env domain s of
          (res, s') \<Rightarrow> (res, s'\<lparr>trace := t @ trace s', printed := p @ printed s'\<rparr>))"
    by (rule obtainCert_shift)
qed

theorem obtainCert_keys_and_csr_witness:
  "obtainCert ((scripted_env [] [])\<lparr>rsa_GenerateKey := (\<lambda>bits w. (Inl ''no entropy'', w))\<rparr>)
       ''c.example'' start =
     (([], [], Some ''cert key: no entropy''),
      start\<lparr>trace := [Ev_GenerateKey 2048 (Inl ''no entropy'')]\<rparr>)
   \<and> obtainCert
       ((scripted_env [] [])
          \<lparr>x509_CreateCertificateRequest := (\<lambda>req key w. (Inl ''bad name'', w))\<rparr>)
       ''c.example'' start =
     (([], [], Some ''csr: bad name''),
      start\<lparr>world := \<lparr>keysMade = 1, cache = [], clock = 1498867200000000000\<rparr>,
            trace :=
              [Ev_GenerateKey 2048 (Inr \<lparr>N = 1000, E = 65537, D = 7, Primes = []\<rparr>),
               Ev_CreateCertificateRequest
                 \<lparr>Subject = \<lparr>CommonName = ''c.example''\<rparr>, DNSNames = [''c.example'']\<rparr>
                 \<lparr>N = 1000, E = 65537, D = 7, Primes = []\<rparr> (Inl ''bad name'')]\<rparr>)
   \<and> obtainCert
       ((scripted_env [] [])
          \<lparr>rsa_GenerateKey :=
             (\<lambda>bits w. if keysMade w = 0 then scripted_GenerateKey bits w
                        else (Inl ''no entropy'', w))\<rparr>)
       ''c.example'' start =
     (([], [], Some ''account key: no entropy''),
      start\<lparr>world := \<lparr>keysMade = 1, cache = [], clock = 1498867200000000000\<rparr>,
            trace :=
              [Ev_GenerateKey 2048 (Inr \<lparr>N = 1000, E = 65537, D = 7, Primes = []\<rparr>),
               Ev_CreateCertificateRequest
                 \<lparr>Subject = \<lparr>CommonName = ''c.example''\<rparr>, DNSNames = [''c.example'']\<rparr>
                 \<lparr>N = 1000, E = 65537, D = 7, Primes = []\<rparr> (Inr ''csr:c.example''),
               Ev_GenerateKey 2048 (Inl ''no entropy'')]\<rparr>)
   \<and> obtainCert
       ((scripted_env [] [])\<lparr>acme_Register := (\<lambda>client w. (Some ''refused'', w))\<rparr>)
       ''c.example'' start =
     (([], [], Some ''register: refused''),
      start\<lparr>world := \<lparr>keysMade = 2, cache = [], clock = 1498867200000000000\<rparr>,
            trace :=
              [Ev_GenerateKey 2048 (Inr \<lparr>N = 1000, E = 65537, D = 7, Primes = []\<rparr>),
               Ev_CreateCertificateRequest
                 \<lparr>Subject = \<lparr>CommonName = ''c.example''\<rparr>, DNSNames = [''c.example'']\<rparr>
                 \<lparr>N = 1000, E = 65537, D = 7, Primes = []\<rparr> (Inr ''csr:c.example''),
               Ev_GenerateKey 2048 (Inr \<lparr>N = 1001, E = 65537, D = 7, Primes = []\<rparr>),
               Ev_Register
                 \<lparr>Key = \<lparr>N = 1001, E = 65537, D = 7, Primes = []\<rparr>,
                  DirectoryURL = ''https://acme-v01.api.letsencrypt.org/directory''\<rparr>
                 (Some ''refused'')]\<rparr>)
   \<and> trace (snd (obtainCert (scripted_env [] []) ''c.example'' start)) =
       [Ev_GenerateKey 2048 (Inr \<lparr>N = 1000, E = 65537, D = 7, Primes = []\<rparr>),
        Ev_CreateCertificateRequest
          \<lparr>Subject = \<lparr>CommonName = ''c.example''\<rparr>, DNSNames = [''c.example'']\<rparr>
          \<lparr>N = 1000, E = 65537, D = 7, Primes = []\<rparr> (Inr ''csr:c.example''),
        Ev_GenerateKey 2048 (Inr \<lparr>N = 1001, E = 65537, D = 7, Primes = []\<rparr>),
        Ev_Register
          \<lparr>Key = \<lparr>N = 1001, E = 65537, D = 7, Primes = []\<rparr>,
           DirectoryURL = ''https://acme-v01.api.letsencrypt.org/directory''\<rparr> None,
        Ev_Authorize
          \<lparr>Key = \<lparr>N = 1001, E = 65537, D = 7, Primes = []\<rparr>,
           DirectoryURL = ''https://acme-v01.api.letsencrypt.org/directory''\<rparr> ''c.example''
          (Inr \<lparr>URI = ''authz/c.example'', Status = ''pending'',
                 Challenges = [\<lparr>Challenge_Type = ''dns-01'', Token = ''t1''\<rparr>,
                               \<lparr>Challenge_Type = ''http-01'', Token = ''t2''\<rparr>]\<rparr>),
        Ev_MemcacheSet \<lparr>Item_Key = ''/.well-known/acme-challenge/t2'',
                        Item_Value = ''t2.thumbprint''\<rparr> None,
        Ev_Accept
          \<lparr>Key = \<lparr>N = 1001, E = 65537, D = 7, Primes = []\<rparr>,
           DirectoryURL = ''https://acme-v01.api.letsencrypt.org/directory''\<rparr>
          \<lparr>Challenge_Type = ''http-01'', Token = ''t2''\<rparr> None,
        Ev_WaitAuthorization
          \<lparr>Key = \<lparr>N = 1001, E = 65537, D = 7, Primes = []\<rparr>,
           DirectoryURL = ''https://acme-v01.api.letsencrypt.org/directory''\<rparr>
          ''authz/c.example'' None,
        Ev_CreateCert
          \<lparr>Key = \<lparr>N = 1001, E = 65537, D = 7, Primes = []\<rparr>,
           DirectoryURL = ''https://acme-v01.api.letsencrypt.org/directory''\<rparr>
          ''csr:c.example'' 7776000000000000 True
          (Inr [''leaf for csr:c.example'', ''issuer''])]
   \<and> (\<exists>rest.
         trace (snd (obtainCert (scripted_env [] []) ''c.example''
                  (snd (obtainCert (scripted_env [] []) ''c.example'' start)))) =
           trace (snd (obtainCert (scripted_env [] []) ''c.example'' start)) @
           [Ev_GenerateKey 2048 (Inr \<lparr>N = 1002, E = 65537, D = 7, Primes = []\<rparr>),
            Ev_CreateCertificateRequest
              \<lparr>Subject = \<lparr>CommonName = ''c.example''\<rparr>, DNSNames = [''c.example'']\<rparr>
              \<lparr>N = 1002, E = 65537, D = 7, Primes = []\<rparr> (Inr ''csr:c.example''),
            Ev_GenerateKey 2048 (Inr \<lparr>N = 1003, E = 65537, D = 7, Primes = []\<rparr>),
            Ev_Register
              \<lparr>Key = \<lparr>N = 1003, E = 65537, D = 7, Primes = []\<rparr>,
               DirectoryURL = ''https://acme-v01.api.letsencrypt.org/directory''\<rparr> None]
           @ rest
         \<and> (\<forall>b x. Ev_GenerateKey b x \<notin> set rest))"
proof -
  let ?E = "scripted_env [] []"
  let ?E1 = "?E\<lparr>rsa_GenerateKey := (\<lambda>bits w. (Inl ''no entropy'', w))\<rparr>"
  let ?E2 = "?E\<lparr>x509_CreateCertificateRequest := (\<lambda>req key w. (Inl ''bad name'', w))\<rparr>"
  let ?E3 = "?E\<lparr>rsa_GenerateKey :=
             (\<lambda>bits w. if keysMade w = 0 then scripted_GenerateKey bits w
                        else (Inl ''no entropy'', w))\<rparr>"
  let ?E4 = "?E\<lparr>acme_Register := (\<lambda>client w. (Some ''refused'', w))\<rparr>"
  let ?w0 = "\<lparr>keysMade = 0, cache = [], clock = 1498867200000000000\<rparr>"
  let ?w1 = "\<lparr>keysMade = 1, cache = [], clock = 1498867200000000000\<rparr>"
  let ?w2 = "\<lparr>keysMade = 2, cache = [], clock = 1498867200000000000\<rparr>"
  let ?k0 = "\<lparr>N = 1000, E = 65537, D = 7, Primes = []\<rparr>"
  let ?k1 = "\<lparr>N = 1001, E = 65537, D = 7, Primes = []\<rparr>"
  let ?k2 = "\<lparr>N = 1002, E = 65537, D = 7, Primes = []\<rparr>"
  let ?k3 = "\<lparr>N = 1003, E = 65537, D = 7, Primes = []\<rparr>"
  let ?S1 = "snd (obtainCert ?E ''c.example'' start)"
  let ?c0 = "[(''/.well-known/acme-challenge/t2'', ''t2.thumbprint'')]"
  let ?v2 = "\<lparr>keysMade = 2, cache = ?c0, clock = 1498867200000000000\<rparr>"
  let ?v3 = "\<lparr>keysMade = 3, cache = ?c0, clock = 1498867200000000000\<rparr>"
  let ?v4 = "\<lparr>keysMade = 4, cache = ?c0, clock = 1498867200000000000\<rparr>"
  have w: "world start = ?w0" by (simp add: start_def)
  have 1: "obtainCert ?E1 ''c.example'' start =
     (([], [], Some ''cert key: no entropy''),
      start\<lparr>trace := [Ev_GenerateKey 2048 (Inl ''no entropy'')]\<rparr>)"
    using obtainCert_keys_and_csr [where env = "?E1" and s = start and err = "''no entropy''"
        and ?w1.0 = "?w0" and domain = "''c.example''", THEN conjunct1]
    by (simp add: start_def)
  have 2: "obtainCert ?E2 ''c.example'' start =
     (([], [], Some ''csr: bad name''),
      start\<lparr>world := ?w1,
            trace :=
              [Ev_GenerateKey 2048 (Inr ?k0),
               Ev_CreateCertificateRequest (requestFor ''c.example'') ?k0 (Inl ''bad name'')]\<rparr>)"
    using obtainCert_keys_and_csr [where env = "?E2" and s = start and err = "''bad name''"
        and certKey = "?k0" and ?w1.0 = "?w1" and ?w2.0 = "?w1" and domain = "''c.example''",
        THEN conjunct2, THEN conjunct1]
    by (simp add: start_def scripted_GenerateKey_def)
  have 3: "obtainCert ?E3 ''c.example'' start =
     (([], [], Some ''account key: no entropy''),
      start\<lparr>world := ?w1,
            trace :=
              [Ev_GenerateKey 2048 (Inr ?k0),
               Ev_CreateCertificateRequest (requestFor ''c.example'') ?k0 (Inr ''csr:c.example''),
               Ev_GenerateKey 2048 (Inl ''no entropy'')]\<rparr>)"
    using obtainCert_keys_and_csr [where env = "?E3" and s = start and err = "''no entropy''"
        and certKey = "?k0" and ?w1.0 = "?w1" and ?w2.0 = "?w1" and ?w3.0 = "?w1"
        and csr = "''csr:c.example''" and domain = "''c.example''",
        THEN conjunct2, THEN conjunct2, THEN conjunct1]
    by (simp add: start_def scripted_GenerateKey_def)
  have 4: "obtainCert ?E4 ''c.example'' start =
     (([], [], Some ''register: refused''),
      start\<lparr>world := ?w2,
            trace :=
              [Ev_GenerateKey 2048 (Inr ?k0),
               Ev_CreateCertificateRequest (requestFor ''c.example'') ?k0 (Inr ''csr:c.example''),
               Ev_GenerateKey 2048 (Inr ?k1),
               Ev_Register
                 \<lparr>Key = ?k1,
                  DirectoryURL = ''https://acme-v01.api.letsencrypt.org/directory''\<rparr>
                 (Some ''refused'')]\<rparr>)"
    using obtainCert_keys_and_csr [where env = "?E4" and s = start and err = "''refused''"
        and certKey = "?k0" and ?w1.0 = "?w1" and ?w2.0 = "?w1" and ?w3.0 = "?w2"
        and ?w4.0 = "?w2" and accountKey = "?k1"
        and csr = "''csr:c.example''" and domain = "''c.example''",
        THEN conjunct2, THEN conjunct2, THEN conjunct2, THEN conjunct1]
    by (simp add: start_def scripted_GenerateKey_def)
  have 5: "obtainCert ?E ''c.example'' start =
     ((encodeChain ?E [''leaf for csr:c.example'', ''issuer''] [],
       pem_Encode \<lparr>Block_Type = ''RSA PRIVATE KEY'',
                   Block_Bytes = [char_of (1000::int), char_of (65537::int), char_of (7::int)]\<rparr>,
       None),
      \<lparr>world = ?v2,
       trace =
        [Ev_GenerateKey 2048 (Inr ?k0),
         Ev_CreateCertificateRequest (requestFor ''c.example'') ?k0 (Inr ''csr:c.example''),
         Ev_GenerateKey 2048 (Inr ?k1),
         Ev_Register (clientWith ?E ?k1) None,
         Ev_Authorize (clientWith ?E ?k1) ''c.example''
           (Inr \<lparr>URI = ''authz/c.example'', Status = ''pending'',
                  Challenges = [\<lparr>Challenge_Type = ''dns-01'', Token = ''t1''\<rparr>,
                                \<lparr>Challenge_Type = ''http-01'', Token = ''t2''\<rparr>]\<rparr>),
         Ev_MemcacheSet \<lparr>Item_Key = ''/.well-known/acme-challenge/t2'',
                         Item_Value = ''t2.thumbprint''\<rparr> None,
         Ev_Accept (clientWith ?E ?k1) \<lparr>Challenge_Type = ''http-01'', Token = ''t2''\<rparr> None,
         Ev_WaitAuthorization (clientWith ?E ?k1) ''authz/c.example'' None,
         Ev_CreateCert (clientWith ?E ?k1) ''csr:c.example'' 7776000000000000 True
           (Inr [''leaf for csr:c.example'', ''issuer''])],
       printed = []\<rparr>)"
    using obtainCert_keys_and_csr [where env = "?E" and s = start
        and certKey = "?k0" and ?w1.0 = "?w1" and ?w2.0 = "?w1" and ?w3.0 = "?w2"
        and ?w4.0 = "?w2" and accountKey = "?k1"
        and csr = "''csr:c.example''" and domain = "''c.example''",
        THEN conjunct2, THEN conjunct2, THEN conjunct2, THEN conjunct2, THEN conjunct1]
    by (simp add: start_def scripted_GenerateKey_def authorize_def call_def
        scripted_Authorize_def scripted_Set_def Let_def expiry_def time_Hour_def bundle_chain_def
        del: encodeChain.simps)
  then have s1: "?S1 = \<lparr>world = ?v2, trace = trace ?S1, printed = []\<rparr>"
    by simp
  have w1: "world ?S1 = ?v2"
    by (subst s1) simp
  have 6: "\<exists>rest.
         trace (snd (obtainCert ?E ''c.example'' ?S1)) =
           trace ?S1 @
           [Ev_GenerateKey 2048 (Inr ?k2),
            Ev_CreateCertificateRequest (requestFor ''c.example'') ?k2 (Inr ''csr:c.example''),
            Ev_GenerateKey 2048 (Inr ?k3),
            Ev_Register
              \<lparr>Key = ?k3,
               DirectoryURL = ''https://acme-v01.api.letsencrypt.org/directory''\<rparr> None]
           @ rest
         \<and> (\<forall>b x. Ev_GenerateKey b x \<notin> set rest)"
  proof -
    have h: "rsa_GenerateKey ?E 2048 (world ?S1) = (Inr ?k2, ?v3)
        \<and> x509_CreateCertificateRequest ?E (requestFor ''c.example'') ?k2 ?v3 =
            (Inr ''csr:c.example'', ?v3)
        \<and> rsa_GenerateKey ?E 2048 ?v3 = (Inr ?k3, ?v4)
        \<and> acme_Register ?E (clientWith ?E ?k3) ?v4 = (None, ?v4)"
      by (simp add: w1 scripted_GenerateKey_def)
    from obtainCert_keys_and_csr [where env = "?E" and s = "?S1"
        and certKey = "?k2" and ?w1.0 = "?v3" and ?w2.0 = "?v3" and ?w3.0 = "?v4"
        and ?w4.0 = "?v4" and accountKey = "?k3"
        and csr = "''csr:c.example''" and domain = "''c.example''",
        THEN conjunct2, THEN conjunct2, THEN conjunct2, THEN conjunct2, THEN conjunct1,
        THEN mp, OF h, THEN conjunct2]
    obtain rest where
      r: "trace (snd (obtainCert ?E ''c.example'' ?S1)) =
           trace ?S1 @
           [Ev_GenerateKey 2048 (Inr ?k2),
            Ev_CreateCertificateRequest (requestFor ''c.example'') ?k2 (Inr ''csr:c.example''),
            Ev_GenerateKey 2048 (Inr ?k3),
            Ev_Register (clientWith ?E ?k3) None]
           @ rest"
      and g: "\<forall>b x. Ev_GenerateKey b x \<notin> set rest"
      by (elim exE conjE) (rule that)
    from r have "trace (snd (obtainCert ?E ''c.example'' ?S1)) =
           trace ?S1 @
           [Ev_GenerateKey 2048 (Inr ?k2),
            Ev_CreateCertificateRequest (requestFor ''c.example'') ?k2 (Inr ''csr:c.example''),
            Ev_GenerateKey 2048 (Inr ?k3),
            Ev_Register
              \<lparr>Key = ?k3,
               DirectoryURL = ''https://acme-v01.api.letsencrypt.org/directory''\<rparr> None]
           @ rest"
      by simp
    with g show ?thesis by blast
  qed
  from 5 have t5: "trace (snd (obtainCert ?E ''c.example'' start)) =
        [Ev_GenerateKey 2048 (Inr ?k0),
         Ev_CreateCertificateRequest (requestFor ''c.example'') ?k0 (Inr ''csr:c.example''),
         Ev_GenerateKey 2048 (Inr ?k1),
         Ev_Register (clientWith ?E ?k1) None,
         Ev_Authorize (clientWith ?E ?k1) ''c.example''
           (Inr \<lparr>URI = ''authz/c.example'', Status = ''pending'',
                  Challenges = [\<lparr>Challenge_Type = ''dns-01'', Token = ''t1''\<rparr>,
                                \<lparr>Challenge_Type = ''http-01'', Token = ''t2''\<rparr>]\<rparr>),
         Ev_MemcacheSet \<lparr>Item_Key = ''/.well-known/acme-challenge/t2'',
                         Item_Value = ''t2.thumbprint''\<rparr> None,
         Ev_Accept (clientWith ?E ?k1) \<lparr>Challenge_Type = ''http-01'', Token = ''t2''\<rparr> None,
         Ev_WaitAuthorization (clientWith ?E ?k1) ''authz/c.example'' None,
         Ev_CreateCert (clientWith ?E ?k1) ''csr:c.example'' 7776000000000000 True
           (Inr [''leaf for csr:c.example'', ''issuer''])]"
    by simp
  have u: "acme_LetsEncryptURL ?E = ''https://acme-v01.api.letsencrypt.org/directory''"
    by simp
  show ?thesis
    apply (intro conjI)
         apply (rule 1)
        apply (rule 2)
       apply (rule 3)
      apply (rule 4)
     apply (rule t5 [unfolded u])
    apply (rule 6)
    done
qed

text \<open>
  Claim C8. When \<open>obtainCert\<close> succeeds, the certificate it returns is the
  concatenation, in the order of the chain, of one PEM block of type CERTIFICATE for each
  DER certificate the certificate authority returned (the result of the last call of the
  run), and the key it returns is the PEM block of type RSA PRIVATE KEY of the PKCS#1
  encoding of the certificate key (the key generated by the first call of the run).
  With any decoder that reads back a block written by the PEM encoder, decoding the
  returned certificate yields exactly those DER certificates, in order, with nothing left
  over, and decoding the returned key yields exactly the PKCS#1 bytes of the key. The
  encoding of the Go standard library, as modelled above, has such a decoder
  (\<open>pem_roundtrip\<close>).
\<close>

theorem obtainCert_pem_roundtrip:
  assumes ok: "obtainCert env domain s = ((cert, key, None), s')"
    and law: "\<forall>t\<in>{''CERTIFICATE'', ''RSA PRIVATE KEY''}. \<forall>bs rest.
            dec (pem_EncodeToMemory env \<lparr>Block_Type = t, Block_Bytes = bs\<rparr> @ rest) =
              Some (\<lparr>Block_Type = t, Block_Bytes = bs\<rparr>, rest)"
  shows "\<exists>certKey client csr certDER tr.
     trace s' = trace s @ Ev_GenerateKey 2048 (Inr certKey) # tr
                  @ [Ev_CreateCert client csr expiry bundle_chain (Inr certDER)]
     \<and> cert = concat (map (\<lambda>b. pem_EncodeToMemory env
                                   \<lparr>Block_Type = ''CERTIFICATE'', Block_Bytes = b\<rparr>) certDER)
     \<and> key = pem_EncodeToMemory env
               \<lparr>Block_Type = ''RSA PRIVATE KEY'',
                Block_Bytes = x509_MarshalPKCS1PrivateKey env certKey\<rparr>
     \<and> decodeBlocks dec (length certDER) cert =
           Some (map (\<lambda>b. \<lparr>Block_Type = ''CERTIFICATE'', Block_Bytes = b\<rparr>) certDER, [])
     \<and> dec key =
           Some (\<lparr>Block_Type = ''RSA PRIVATE KEY'',
                  Block_Bytes = x509_MarshalPKCS1PrivateKey env certKey\<rparr>, [])"
proof -
  from obtainCert_success [OF ok] obtain certKey client csr certDER tr where
    t: "trace s' = trace s @ Ev_GenerateKey 2048 (Inr certKey) # tr
                  @ [Ev_CreateCert client csr expiry bundle_chain (Inr certDER)]"
    and c: "cert = encodeChain env certDER []"
    and k: "key = pem_EncodeToMemory env
               \<lparr>Block_Type = ''RSA PRIVATE KEY'',
                Block_Bytes = x509_MarshalPKCS1PrivateKey env certKey\<rparr>"
    by blast
  let ?enc = "\<lambda>b. pem_EncodeToMemory env \<lparr>Block_Type = ''CERTIFICATE'', Block_Bytes = b\<rparr>"
  let ?blk = "\<lambda>b. \<lparr>Block_Type = ''CERTIFICATE'', Block_Bytes = b\<rparr>"
  from c have c': "cert = concat (map ?enc certDER)"
    by (simp add: encodeChain_concat)
  from law have l1: "\<And>b rest. dec (?enc b @ rest) = Some (?blk b, rest)"
    by simp
  have d: "decodeBlocks dec (length certDER) cert = Some (map ?blk certDER, [])"
    using decodeBlocks_concat [of dec ?enc ?blk certDER "[]", OF l1] c' by simp
  from law have "dec (pem_EncodeToMemory env
               \<lparr>Block_Type = ''RSA PRIVATE KEY'',
                Block_Bytes = x509_MarshalPKCS1PrivateKey env certKey\<rparr> @ []) =
           Some (\<lparr>Block_Type = ''RSA PRIVATE KEY'',
                  Block_Bytes = x509_MarshalPKCS1PrivateKey env certKey\<rparr>, [])"
    by blast
  with k have dk: "dec key =
           Some (\<lparr>Block_Type = ''RSA PRIVATE KEY'',
                  Block_Bytes = x509_MarshalPKCS1PrivateKey env certKey\<rparr>, [])"
    by simp
  from t c' k d dk show ?thesis by blast
qed

theorem obtainCert_pem_roundtrip_witness:
  "snd (snd (fst (obtainCert (scripted_env [] []) ''c.example'' start))) = None
   \<and> fst (fst (obtainCert (scripted_env [] []) ''c.example'' start)) =
       pem_Encode \<lparr>Block_Type = ''CERTIFICATE'', Block_Bytes = ''leaf for csr:c.example''\<rparr>
       @ pem_Encode \<lparr>Block_Type = ''CERTIFICATE'', Block_Bytes = ''issuer''\<rparr>
   \<and> decodeBlocks pem_Decode 2
        (fst (fst (obtainCert (scripted_env [] []) ''c.example'' start))) =
       Some ([\<lparr>Block_Type = ''CERTIFICATE'', Block_Bytes = ''leaf for csr:c.example''\<rparr>,
              \<lparr>Block_Type = ''CERTIFICATE'', Block_Bytes = ''issuer''\<rparr>], [])
   \<and> pem_Decode (fst (snd (fst (obtainCert (scripted_env [] []) ''c.example'' start)))) =
       Some (\<lparr>Block_Type = ''RSA PRIVATE KEY'',
              Block_Bytes = [char_of (1000::int), char_of (65537::int), char_of (7::int)]\<rparr>, [])"
proof -
  let ?E = "scripted_env [] []"
  let ?cert = "fst (fst (obtainCert ?E ''c.example'' start))"
  let ?key = "fst (snd (fst (obtainCert ?E ''c.example'' start)))"
  let ?s' = "snd (obtainCert ?E ''c.example'' start)"
  have ok: "obtainCert ?E ''c.example'' start = ((?cert, ?key, None), ?s')"
    by (simp add: scripted_ok_run)
  have law: "\<forall>t\<in>{''CERTIFICATE'', ''RSA PRIVATE KEY''}. \<forall>bs rest.
            pem_Decode (pem_EncodeToMemory ?E \<lparr>Block_Type = t, Block_Bytes = bs\<rparr> @ rest) =
              Some (\<lparr>Block_Type = t, Block_Bytes = bs\<rparr>, rest)"
    by (simp add: pem_roundtrip)
  from obtainCert_pem_roundtrip [OF ok law]
  obtain certKey client csr certDER tr where
    t: "trace ?s' = trace start @ Ev_GenerateKey 2048 (Inr certKey) # tr
                  @ [Ev_CreateCert client csr expiry bundle_chain (Inr certDER)]"
    and d: "decodeBlocks pem_Decode (length certDER) ?cert =
           Some (map (\<lambda>b. \<lparr>Block_Type = ''CERTIFICATE'', Block_Bytes = b\<rparr>) certDER, [])"
    and dk: "pem_Decode ?key =
           Some (\<lparr>Block_Type = ''RSA PRIVATE KEY'',
                  Block_Bytes = x509_MarshalPKCS1PrivateKey ?E certKey\<rparr>, [])"
    by blast
  from t have "certKey = \<lparr>N = 1000, E = 65537, D = 7, Primes = []\<rparr>
      \<and> certDER = [''leaf for csr:c.example'', ''issuer'']"
    by (auto simp: scripted_ok_run start_def)
  with d dk have "decodeBlocks pem_Decode 2 ?cert =
       Some ([\<lparr>Block_Type = ''CERTIFICATE'', Block_Bytes = ''leaf for csr:c.example''\<rparr>,
              \<lparr>Block_Type = ''CERTIFICATE'', Block_Bytes = ''issuer''\<rparr>], [])
     \<and> pem_Decode ?key =
       Some (\<lparr>Block_Type = ''RSA PRIVATE KEY'',
              Block_Bytes = [char_of (1000::int), char_of (65537::int), char_of (7::int)]\<rparr>, [])"
    by (simp add: numeral_2_eq_2 del: decodeBlocks.simps)
  moreover have "snd (snd (fst (obtainCert ?E ''c.example'' start))) = None
    \<and> ?cert = pem_Encode \<lparr>Block_Type = ''CERTIFICATE'', Block_Bytes = ''leaf for csr:c.example''\<rparr>
       @ pem_Encode \<lparr>Block_Type = ''CERTIFICATE'', Block_Bytes = ''issuer''\<rparr>"
    by (simp add: scripted_ok_run)
  ultimately show ?thesis by blast
qed

text \<open>
  Claim C10. Whenever \<open>obtainCert\<close> returns an error, the certificate and the key it
  returns are both the empty string.
\<close>

theorem obtainCert_error_empty:
  "obtainCert env domain s = ((cert, key, Some err), s') \<Longrightarrow> cert = [] \<and> key = []"
  by (auto simp: obtainCert_def Let_def split: prod.splits sum.splits option.splits)

theorem obtainCert_error_empty_witness:
  "snd (snd (fst (obtainCert (scripted_env [] []) ''bad.example'' start))) =
     Some ''authorize: rate limited''
   \<and> fst (fst (obtainCert (scripted_env [] []) ''bad.example'' start)) = []
   \<and> fst (snd (fst (obtainCert (scripted_env [] []) ''bad.example'' start))) = []"
proof -
  obtain cert key s' where
    run: "obtainCert (scripted_env [] []) ''bad.example'' start =
            ((cert, key, Some ''authorize: rate limited''), s')"
    by (simp add: scripted_bad_run)
  from obtainCert_error_empty [OF run] run show ?thesis by simp
qed

end
